(* ===== verification/Prelude.thy ===== *)
theory Prelude
  imports Main "HOL-Library.Multiset" "HOL-Library.Char_ord" "HOL-Library.List_Lexorder"
begin

text \<open>
  Shared vocabulary of the development: the JavaScript built-ins that the
  extension's TypeScript calls (\<open>Array.prototype.findIndex\<close>, \<open>indexOf\<close>,
  \<open>filter\<close> and \<open>map\<close> with an index argument, \<open>String.prototype.split\<close>,
  \<open>trim\<close>, \<open>startsWith\<close>, \<open>includes\<close>, the truthiness test of a string), written
  as executable HOL functions with the ECMAScript semantics, and the generic list
  lemmas the component theories share.  JavaScript strings are sequences of code
  units; they are modelled as \<open>string\<close> (a list of 8-bit \<open>char\<close>s), which is
  exact for the ASCII and Latin-1 text the lemmas talk about.
\<close>

named_theorems js_simps "evaluation equations of the modelled JavaScript built-ins"

subsection \<open>Arrays\<close>

text \<open>\<open>xs.findIndex(p)\<close>: the first index whose element satisfies \<open>p\<close>, else \<open>-1\<close>.\<close>

fun js_findIndex :: "('a \<Rightarrow> bool) \<Rightarrow> 'a list \<Rightarrow> int" where
  "js_findIndex p [] = -1"
| "js_findIndex p (x # xs) =
     (if p x then 0 else (let r = js_findIndex p xs in if r < 0 then -1 else r + 1))"

text \<open>\<open>xs.indexOf(v)\<close> with strict equality.\<close>

definition js_indexOf :: "'a \<Rightarrow> 'a list \<Rightarrow> int" where
  "js_indexOf v xs = js_findIndex (\<lambda>y. y = v) xs"

text \<open>\<open>xs.map((e, index) => f index e)\<close> and \<open>xs.filter((e, index) => p e index)\<close>,
  the index counted from \<open>k\<close>.\<close>

fun js_map_idx :: "(nat \<Rightarrow> 'a \<Rightarrow> 'b) \<Rightarrow> nat \<Rightarrow> 'a list \<Rightarrow> 'b list" where
  "js_map_idx f k [] = []"
| "js_map_idx f k (x # xs) = f k x # js_map_idx f (Suc k) xs"

fun js_filter_idx :: "('a \<Rightarrow> nat \<Rightarrow> bool) \<Rightarrow> nat \<Rightarrow> 'a list \<Rightarrow> 'a list" where
  "js_filter_idx p k [] = []"
| "js_filter_idx p k (x # xs) =
     (if p x k then x # js_filter_idx p (Suc k) xs else js_filter_idx p (Suc k) xs)"

subsection \<open>Strings\<close>

text \<open>\<open>s.split(c)\<close> for a one-character separator: the pieces between the
  separators, an empty piece at each end where \<open>s\<close> starts or ends with \<open>c\<close>;
  \<open>"".split(c)\<close> is \<open>[""]\<close>.\<close>

fun js_split :: "char \<Rightarrow> string \<Rightarrow> string list" where
  "js_split c [] = [[]]"
| "js_split c (x # xs) =
     (if x = c then [] # js_split c xs
      else (case js_split c xs of [] \<Rightarrow> [[x]] | y # ys \<Rightarrow> (x # y) # ys))"

text \<open>\<open>xs.join(sep)\<close>: the strings with \<open>sep\<close> between neighbours.\<close>

fun js_join :: "string \<Rightarrow> string list \<Rightarrow> string" where
  "js_join sep [] = []"
| "js_join sep [x] = x"
| "js_join sep (x # y # zs) = x @ sep @ js_join sep (y # zs)"

text \<open>The white space that \<open>String.prototype.trim\<close> removes, restricted to 8-bit
  code units: TAB, LF, VT, FF, CR, SPACE and NO-BREAK SPACE.\<close>

definition js_is_ws :: "char \<Rightarrow> bool" where
  "js_is_ws c \<longleftrightarrow> of_char c \<in> {9, 10, 11, 12, 13, 32, 160 :: nat}"

definition js_trim :: "string \<Rightarrow> string" where
  "js_trim s = rev (dropWhile js_is_ws (rev (dropWhile js_is_ws s)))"

definition js_startsWith :: "string \<Rightarrow> string \<Rightarrow> bool" where
  "js_startsWith s p \<longleftrightarrow> take (length p) s = p"

fun js_includes :: "string \<Rightarrow> string \<Rightarrow> bool" where
  "js_includes [] p = (p = [])"
| "js_includes (x # xs) p = (js_startsWith (x # xs) p \<or> js_includes xs p)"

text \<open>A string is truthy when it is not empty; an absent (\<open>undefined\<close>) field is
  falsy.  Optional fields of the stored records are \<open>string option\<close>.\<close>

definition js_truthy :: "string option \<Rightarrow> bool" where
  "js_truthy v \<longleftrightarrow> (case v of None \<Rightarrow> False | Some s \<Rightarrow> s \<noteq> [])"

declare js_indexOf_def [js_simps] js_is_ws_def [js_simps] js_trim_def [js_simps]
  js_startsWith_def [js_simps] js_truthy_def [js_simps]

subsection \<open>Generic facts\<close>

lemma js_findIndex_neg_iff: "js_findIndex p xs < 0 \<longleftrightarrow> \<not> (\<exists>x\<in>set xs. p x)"
  by (induction xs) (auto simp: Let_def)

lemma js_findIndex_range:
  "0 \<le> js_findIndex p xs \<Longrightarrow> nat (js_findIndex p xs) < length xs"
  by (induction xs) (auto simp: Let_def split: if_splits)

lemma js_findIndex_cases: "js_findIndex p xs = -1 \<or> 0 \<le> js_findIndex p xs"
  by (induction xs) (auto simp: Let_def)

lemma js_findIndex_found:
  "0 \<le> js_findIndex p xs \<Longrightarrow> p (xs ! nat (js_findIndex p xs))"
proof (induction xs)
  case Nil
  then show ?case by simp
next
  case (Cons x xs)
  show ?case
  proof (cases "p x")
    case False
    with Cons.prems have "0 \<le> js_findIndex p xs"
      by (auto simp: Let_def split: if_splits)
    with False Cons.IH show ?thesis
      by (simp add: Let_def nat_add_distrib)
  qed simp
qed

lemma js_findIndex_first:
  "i < nat (js_findIndex p xs) \<Longrightarrow> \<not> p (xs ! i)"
proof (induction xs arbitrary: i)
  case (Cons x xs)
  then show ?case
    by (cases i) (auto simp: Let_def nat_add_distrib split: if_splits)
qed simp

lemma js_findIndex_none: "\<not> (\<exists>x\<in>set xs. p x) \<Longrightarrow> js_findIndex p xs = -1"
  by (induction xs) (auto simp: Let_def)

lemma js_findIndex_some: "\<exists>x\<in>set xs. p x \<Longrightarrow> 0 \<le> js_findIndex p xs"
  using js_findIndex_neg_iff[of p xs] by simp

lemma js_findIndex_append:
  "js_findIndex p (xs @ ys) =
     (if \<exists>x\<in>set xs. p x then js_findIndex p xs
      else (let r = js_findIndex p ys in if r < 0 then -1 else r + int (length xs)))"
proof (induction xs)
  case Nil
  then show ?case
    using js_findIndex_cases[of p ys] by (auto simp: Let_def)
next
  case (Cons x xs)
  then show ?case
    using js_findIndex_cases[of p ys] by (auto simp: Let_def)
qed

lemma js_map_idx_replace:
  "js_map_idx (\<lambda>i e. if int i = j then v else e) k xs =
     (if int k \<le> j \<and> j < int k + int (length xs) then xs[nat (j - int k) := v] else xs)"
proof (induction xs arbitrary: k)
  case (Cons x xs)
  show ?case
  proof (cases "int k = j")
    case False
    then have "nat (j - int k) = Suc (nat (j - int (Suc k)))" if "int k \<le> j" using that
      by simp
    with False Cons.IH[of "Suc k"] show ?thesis
      by auto
  qed (simp add: Cons.IH)
qed simp

lemma js_map_idx_length [simp]: "length (js_map_idx f k xs) = length xs"
  by (induction xs arbitrary: k) simp_all

lemma js_filter_idx_append:
  "js_filter_idx p k (xs @ ys) = js_filter_idx p k xs @ js_filter_idx p (k + length xs) ys"
  by (induction xs arbitrary: k) simp_all

lemma js_filter_idx_cong:
  "(\<And>i. i < length xs \<Longrightarrow> p (xs ! i) (k + i) = q (xs ! i) (k + i)) \<Longrightarrow>
     js_filter_idx p k xs = js_filter_idx q k xs"
proof (induction xs arbitrary: k)
  case (Cons x xs)
  have "p x k = q x k" using Cons.prems[of 0] by simp
  moreover have "js_filter_idx p (Suc k) xs = js_filter_idx q (Suc k) xs"
    using Cons.prems[of "Suc _"] by (intro Cons.IH) auto
  ultimately show ?case by simp
qed simp

text \<open>Concatenating the pieces of \<open>js_split\<close> with the separator gives the string
  back, and no piece holds the separator.\<close>

lemma js_split_nonempty [simp]: "js_split c s \<noteq> []"
  by (induction s) (auto split: list.splits)

lemma js_join_Cons: "js_join sep (x # xs) = (if xs = [] then x else x @ sep @ js_join sep xs)"
  by (cases xs) simp_all

lemma js_split_join: "js_join [c] (js_split c s) = s"
proof (induction s)
  case (Cons x xs)
  then show ?case
    by (cases "js_split c xs") (auto simp: js_join_Cons split: if_splits)
qed simp

lemma js_split_no_sep: "t \<in> set (js_split c s) \<Longrightarrow> c \<notin> set t"
proof (induction s arbitrary: t)
  case (Cons x xs)
  then show ?case
    by (cases "js_split c xs") (auto split: if_splits)
qed simp

lemma js_split_no_sep_id: "c \<notin> set a \<Longrightarrow> js_split c a = [a]"
  by (induction a) auto

lemma js_split_append_sep: "c \<notin> set a \<Longrightarrow> js_split c (a @ c # r) = a # js_split c r"
proof (induction a)
  case (Cons x a)
  then show ?case by (cases "js_split c (a @ c # r)") auto
qed simp

lemma js_split_join_inv:
  "xs \<noteq> [] \<Longrightarrow> (\<forall>x\<in>set xs. c \<notin> set x) \<Longrightarrow> js_split c (js_join [c] xs) = xs"
proof (induction xs)
  case (Cons x xs)
  then show ?case
    by (cases "xs = []") (simp_all add: js_join_Cons js_split_no_sep_id js_split_append_sep)
qed simp

lemma js_map_idx_set: "y \<in> set (js_map_idx f k xs) \<Longrightarrow> \<exists>i x. x \<in> set xs \<and> y = f i x"
  by (induction xs arbitrary: k) (auto, blast)

lemma js_map_idx_nonempty: "xs \<noteq> [] \<Longrightarrow> js_map_idx f k xs \<noteq> []"
  by (cases xs) simp_all

lemma js_includes_startsWith: "js_startsWith l p \<Longrightarrow> js_includes l p"
  by (cases l) (auto simp: js_startsWith_def)

lemma js_includes_infix: "js_includes (xs @ p @ ys) p"
proof (induction xs)
  case Nil
  show ?case by (rule js_includes_startsWith) (simp add: js_startsWith_def)
qed simp

lemma js_indexOf_snoc_in: "v \<in> set xs \<Longrightarrow> js_indexOf v (xs @ [x]) = js_indexOf v xs"
  by (simp add: js_indexOf_def js_findIndex_append)

lemma js_indexOf_snoc_last: "js_indexOf x (xs @ [x]) = int (length xs) \<longleftrightarrow> x \<notin> set xs"
proof (cases "x \<in> set xs")
  case True
  then have "0 \<le> js_indexOf x xs" "nat (js_indexOf x xs) < length xs"
    using js_findIndex_some[of xs "\<lambda>y. y = x"] js_findIndex_range[of "\<lambda>y. y = x" xs]
    by (auto simp: js_indexOf_def)
  with True show ?thesis by (simp add: js_indexOf_snoc_in)
next
  case False
  then show ?thesis
    by (simp add: js_indexOf_def js_findIndex_append Let_def js_findIndex_neg_iff)
qed

lemma js_filter_first_occurrence:
  "js_filter_idx (\<lambda>v i. js_indexOf v xs = int i) 0 xs = rev (remdups (rev xs))"
proof (induction xs rule: rev_induct)
  case (snoc x xs)
  have "js_filter_idx (\<lambda>v i. js_indexOf v (xs @ [x]) = int i) 0 xs =
        js_filter_idx (\<lambda>v i. js_indexOf v xs = int i) 0 xs"
    by (rule js_filter_idx_cong) (simp add: js_indexOf_snoc_in)
  then show ?case
    using snoc.IH by (simp add: js_filter_idx_append js_indexOf_snoc_last)
qed simp

lemma sort_key_Nil_iff [simp]: "sort_key f xs = [] \<longleftrightarrow> xs = []"
  by (metis length_0_conv length_sort)

end
