(* ===== verification/Json.thy ===== *)
theory Json
  imports Prelude
begin

text \<open>
  JavaScript values as far as the extension builds and compares them, and
  \<open>JSON.stringify\<close> on them.  The providers identify a stored record by comparing
  \<open>JSON.stringify(a) === JSON.stringify(b)\<close> (deep value equality through the
  serialised text), and test node kinds with \<open>'key' in obj\<close>; both are read off
  the value model below.  An object is its list of own properties in insertion
  order; a property that is absent is not in the list, a property that is present
  with the value \<open>undefined\<close> is \<open>JUndef\<close>.
\<close>

datatype jval =
    JStr string
  | JArr "jval list"
  | JObj "(string \<times> jval) list"
  | JNull
  | JUndef

subsection \<open>QuoteJSONString\<close>

text \<open>Lower-case hexadecimal digit, as \<open>JSON.stringify\<close> prints in \<open>\u00xx\<close>.\<close>

definition hex_digit :: "nat \<Rightarrow> char" where
  "hex_digit d = (if d < 10 then char_of (48 + d) else char_of (87 + d))"

abbreviation bslash :: char where
  "bslash \<equiv> CHR 0x5C"

abbreviation dquote :: char where
  "dquote \<equiv> CHR 0x22"

text \<open>The escape of one code unit (ECMA-262, QuoteJSONString): the six short
  escapes, \<open>\u00xx\<close> for the other control characters, the unit itself otherwise.\<close>

definition json_esc :: "char \<Rightarrow> string" where
  "json_esc c =
     (let n = (of_char c :: nat) in
      if n = 8 then [bslash, CHR ''b'']
      else if n = 9 then [bslash, CHR ''t'']
      else if n = 10 then [bslash, CHR ''n'']
      else if n = 12 then [bslash, CHR ''f'']
      else if n = 13 then [bslash, CHR ''r'']
      else if c = dquote then [bslash, dquote]
      else if c = bslash then [bslash, bslash]
      else if n < 32 then [bslash, CHR ''u'', CHR ''0'', CHR ''0'', hex_digit (n div 16), hex_digit (n mod 16)]
      else [c])"

definition json_quote :: "string \<Rightarrow> string" where
  "json_quote s = dquote # concat (map json_esc s) @ [dquote]"

subsection \<open>SerializeJSONProperty\<close>

text \<open>An \<open>undefined\<close> array element prints as \<open>null\<close>; an object property whose
  value is \<open>undefined\<close> is left out.\<close>

primrec json_ser :: "jval \<Rightarrow> string"
  and json_ser_elems :: "jval list \<Rightarrow> string list"
  and json_ser_members :: "(string \<times> jval) list \<Rightarrow> string list"
  and json_ser_member :: "string \<times> jval \<Rightarrow> string list" where
  "json_ser (JStr s) = json_quote s"
| "json_ser (JArr vs) = CHR ''['' # js_join '','' (json_ser_elems vs) @ '']''"
| "json_ser (JObj kvs) = CHR ''{'' # js_join '','' (json_ser_members kvs) @ ''}''"
| "json_ser JNull = ''null''"
| "json_ser JUndef = ''null''"
| "json_ser_elems [] = []"
| "json_ser_elems (v # vs) = json_ser v # json_ser_elems vs"
| "json_ser_members [] = []"
| "json_ser_members (kv # kvs) = json_ser_member kv @ json_ser_members kvs"
| "json_ser_member (k, v) = (if v = JUndef then [] else [json_quote k @ '':'' @ json_ser v])"

text \<open>\<open>JSON.stringify(v)\<close>: \<open>undefined\<close> at the top yields \<open>undefined\<close>, not a
  string.\<close>

definition js_stringify :: "jval \<Rightarrow> string option" where
  "js_stringify v = (if v = JUndef then None else Some (json_ser v))"

text \<open>\<open>'k' in obj\<close> and the property read \<open>obj.k\<close> (\<open>undefined\<close> when absent).\<close>

definition js_in :: "string \<Rightarrow> jval \<Rightarrow> bool" where
  "js_in k v = (case v of JObj kvs \<Rightarrow> k \<in> fst ` set kvs | _ \<Rightarrow> False)"

definition js_get :: "string \<Rightarrow> jval \<Rightarrow> jval" where
  "js_get k v = (case v of JObj kvs \<Rightarrow> (case map_of kvs k of Some x \<Rightarrow> x | None \<Rightarrow> JUndef)
                 | _ \<Rightarrow> JUndef)"

text \<open>Optional string and string-array properties of a record: absent when
  \<open>None\<close>.\<close>

definition opt_member :: "string \<Rightarrow> string option \<Rightarrow> (string \<times> jval) list" where
  "opt_member k v = (case v of None \<Rightarrow> [] | Some s \<Rightarrow> [(k, JStr s)])"

definition opt_arr_member :: "string \<Rightarrow> string list option \<Rightarrow> (string \<times> jval) list" where
  "opt_arr_member k v = (case v of None \<Rightarrow> [] | Some ss \<Rightarrow> [(k, JArr (map JStr ss))])"

text \<open>A value with no \<open>undefined\<close> inside: what the records of the extension
  serialise to, and the values on which \<open>JSON.stringify\<close> is injective.\<close>

fun json_defined :: "jval \<Rightarrow> bool" where
  "json_defined (JStr s) = True"
| "json_defined (JArr vs) = (\<forall>v\<in>set vs. json_defined v)"
| "json_defined (JObj kvs) = (\<forall>kv\<in>set kvs. json_defined (snd kv))"
| "json_defined JNull = True"
| "json_defined JUndef = False"

declare js_in_def [js_simps] js_get_def [js_simps] opt_member_def [js_simps]
  opt_arr_member_def [js_simps] js_stringify_def [js_simps]

subsection \<open>Unique decoding of the serialisation\<close>

text \<open>The escape of a code unit is a prefix code, so a quoted string determines the
  string and what follows it; arrays and objects are decoded element by element.
  The result: on values without \<open>undefined\<close>, equal \<open>JSON.stringify\<close> text means
  equal values, which is what lets the providers' deep-equality test be read as
  record equality.\<close>

lemma hex_digit_of: "d < 16 \<Longrightarrow> of_char (hex_digit d) = (if d < 10 then 48 + d else 87 + (d::nat))" by (simp add: hex_digit_def)
lemma hex_digit_inj: "d < 16 \<Longrightarrow> e < 16 \<Longrightarrow> hex_digit d = hex_digit e \<Longrightarrow> d = e"
proof -
  assume a: "d < 16" "e < 16" "hex_digit d = hex_digit e"
  from a(3) have "(of_char (hex_digit d) :: nat) = of_char (hex_digit e)" by (rule arg_cong)
  then show ?thesis using a(1,2) by (simp only: hex_digit_of) (auto split: if_splits)
qed
lemma of_char_nat_inj: "(of_char c :: nat) = of_char d \<longleftrightarrow> c = d"
  by (metis char_of_char)
lemma small_char_eq:
  assumes "(of_char c :: nat) < 32" "(of_char d :: nat) < 32"
    and "hex_digit (of_char c div 16) = hex_digit (of_char d div 16)"
    and "hex_digit (of_char c mod 16) = hex_digit (of_char d mod 16)"
  shows "c = d"
proof -
  have "(of_char c :: nat) div 16 = of_char d div 16"
    using assms(1,2,3) by (intro hex_digit_inj) auto
  moreover have "(of_char c :: nat) mod 16 = of_char d mod 16"
    using assms(4) by (intro hex_digit_inj) auto
  ultimately have "(of_char c :: nat) = of_char d"
    by (metis div_mult_mod_eq)
  then show ?thesis by (simp add: of_char_nat_inj)
qed
lemma json_esc_code:
  "json_esc c @ xs = json_esc d @ ys \<Longrightarrow> c = d \<and> xs = ys"
  unfolding json_esc_def Let_def
  by (auto split: if_splits simp: of_char_nat_inj dest: small_char_eq) (metis of_char_nat_inj)+

lemma json_esc_hd: "\<exists>x xs. json_esc c = x # xs \<and> x \<noteq> dquote"
  by (simp add: json_esc_def Let_def)

lemma json_esc_concat_code:
  "concat (map json_esc s) @ dquote # r = concat (map json_esc t) @ dquote # r' \<Longrightarrow> s = t \<and> r = r'"
proof (induction s arbitrary: t)
  case Nil
  show ?case
  proof (cases t)
    case (Cons d t')
    obtain x xs where "json_esc d = x # xs" "x \<noteq> dquote" using json_esc_hd by blast
    with Nil Cons show ?thesis by simp
  qed (use Nil in simp)
next
  case (Cons c s)
  obtain x xs where x: "json_esc c = x # xs" "x \<noteq> dquote" using json_esc_hd by blast
  show ?case
  proof (cases t)
    case Nil
    with Cons.prems x show ?thesis by simp
  next
    case (Cons d t')
    with Cons.prems have "json_esc c @ (concat (map json_esc s) @ dquote # r) =
        json_esc d @ (concat (map json_esc t') @ dquote # r')" by simp
    then have "c = d" and "concat (map json_esc s) @ dquote # r = concat (map json_esc t') @ dquote # r'"
      by (auto dest: json_esc_code)
    with Cons.IH Cons show ?thesis by blast
  qed
qed

lemma json_quote_code:
  assumes "json_quote s @ r = json_quote t @ r'"
  shows "s = t \<and> r = r'"
proof -
  from assms have "concat (map json_esc s) @ dquote # r = concat (map json_esc t) @ dquote # r'"
    by (simp add: json_quote_def)
  then show ?thesis by (rule json_esc_concat_code)
qed

lemma js_join_map_Cons_app:
  "js_join sep (map f (x # xs)) @ e # r =
     f x @ (if xs = [] then e # r else sep @ js_join sep (map f xs) @ e # r)"
  by (cases xs) simp_all

lemma join_prefix_code:
  assumes code: "\<And>x y r r'. x \<in> set xs \<Longrightarrow> y \<in> set ys \<Longrightarrow> f x @ r = f y @ r' \<Longrightarrow> x = y \<and> r = r'"
    and start: "\<And>y. y \<in> set xs \<union> set ys \<Longrightarrow> \<exists>c cs. f y = c # cs \<and> c \<noteq> e"
    and sep: "e \<noteq> CHR '',''"
    and eq: "js_join '','' (map f xs) @ e # r = js_join '','' (map f ys) @ e # r'"
  shows "xs = ys \<and> r = r'"
  using code start eq
proof (induction xs arbitrary: ys)
  case Nil
  show ?case
  proof (cases ys)
    case (Cons y ys')
    obtain c cs where "f y = c # cs" "c \<noteq> e" using Nil.prems(2)[of y] Cons by auto
    with Nil.prems(3) Cons show ?thesis by (simp only: js_join_map_Cons_app) (simp split: if_splits)
  qed (use Nil.prems in simp)
next
  case (Cons x xs)
  show ?case
  proof (cases ys)
    case Nil
    obtain c cs where "f x = c # cs" "c \<noteq> e" using Cons.prems(2)[of x] by auto
    with Cons.prems(3) Nil show ?thesis by (simp only: js_join_map_Cons_app) (simp split: if_splits)
  next
    case (Cons y ys')
    define tl where "tl zs r = (if zs = [] then e # r else '','' @ js_join '','' (map f zs) @ e # r)" for zs r
    have "f x @ tl xs r = f y @ tl ys' r'"
      using Cons.prems(3) Cons by (simp only: js_join_map_Cons_app tl_def)
    then have xy: "x = y" and tl: "tl xs r = tl ys' r'"
      using Cons.prems(1)[of x y] Cons by auto
    show ?thesis
    proof (cases "xs = []")
      case True
      with tl sep show ?thesis using xy Cons by (cases "ys' = []") (simp_all add: tl_def)
    next
      case False
      with tl sep have "ys' \<noteq> []" and "js_join '','' (map f xs) @ e # r = js_join '','' (map f ys') @ e # r'"
        by (cases "ys' = []", simp_all add: tl_def)+
      note rest = this
      have "xs = ys' \<and> r = r'"
      proof (rule Cons.IH)
        fix x' y' r1 r2
        assume "x' \<in> set xs" "y' \<in> set ys'" "f x' @ r1 = f y' @ r2"
        then show "x' = y' \<and> r1 = r2" using Cons.prems(1)[of x' y' r1 r2] Cons by simp
      next
        fix y'
        assume "y' \<in> set xs \<union> set ys'"
        then show "\<exists>c cs. f y' = c # cs \<and> c \<noteq> e" using Cons.prems(2)[of y'] Cons by simp
      qed (rule rest(2))
      with xy Cons show ?thesis by simp
    qed
  qed
qed

lemma json_ser_start: "\<exists>c cs. json_ser v = c # cs \<and> c \<noteq> CHR '']'' \<and> c \<noteq> CHR ''}''"
  by (cases v) (simp_all add: json_quote_def)

lemma json_ser_elems_map: "json_ser_elems vs = map json_ser vs"
  by (induction vs) simp_all

lemma json_ser_members_map:
  "\<forall>kv\<in>set kvs. snd kv \<noteq> JUndef \<Longrightarrow>
     json_ser_members kvs = map (\<lambda>(k, v). json_quote k @ '':'' @ json_ser v) kvs"
  by (induction kvs) auto

lemma json_defined_not_undef: "json_defined v \<Longrightarrow> v \<noteq> JUndef"
  by (cases v) simp_all

lemma json_ser_code:
  "json_defined v \<Longrightarrow> json_defined w \<Longrightarrow> json_ser v @ r = json_ser w @ r' \<Longrightarrow> v = w \<and> r = r'"
proof (induction v arbitrary: w r r')
  case (JStr s)
  show ?case
  proof (cases w)
    case (JStr t)
    with JStr.prems(3) have "json_quote s @ r = json_quote t @ r'" by simp
    with JStr show ?thesis by (auto dest: json_quote_code)
  qed (use JStr.prems in \<open>auto simp: json_quote_def\<close>)
next
  case (JArr vs)
  show ?case
  proof (cases w)
    case (JArr ws)
    have "js_join '','' (map json_ser vs) @ CHR '']'' # r = js_join '','' (map json_ser ws) @ CHR '']'' # r'"
      using JArr.prems(3) JArr by (simp add: json_ser_elems_map)
    moreover have "x = y \<and> r1 = r2"
      if "x \<in> set vs" "y \<in> set ws" "json_ser x @ r1 = json_ser y @ r2" for x y r1 r2
      using that JArr.IH[of x y r1 r2] JArr.prems(1,2) JArr by simp
    moreover have "\<exists>c cs. json_ser y = c # cs \<and> c \<noteq> CHR '']''" for y
      using json_ser_start[of y] by blast
    ultimately have "vs = ws \<and> r = r'"
      by (intro join_prefix_code[where f = json_ser and e = "CHR '']''"]) auto
    with JArr show ?thesis by simp
  qed (use JArr.prems in \<open>auto simp: json_quote_def\<close>)
next
  case (JObj kvs)
  show ?case
  proof (cases w)
    case (JObj lvs)
    let ?m = "\<lambda>(k, v). json_quote k @ '':'' @ json_ser v"
    have def: "\<forall>kv\<in>set kvs. snd kv \<noteq> JUndef" "\<forall>kv\<in>set lvs. snd kv \<noteq> JUndef"
      using JObj.prems(1,2) JObj by (auto dest: json_defined_not_undef)
    have "js_join '','' (map ?m kvs) @ CHR ''}'' # r = js_join '','' (map ?m lvs) @ CHR ''}'' # r'"
      using JObj.prems(3) JObj def by (simp add: json_ser_members_map)
    moreover have "x = y \<and> r1 = r2"
      if "x \<in> set kvs" "y \<in> set lvs" "?m x @ r1 = ?m y @ r2" for x y r1 r2
    proof -
      obtain k v where x: "x = (k, v)" by (cases x)
      obtain l u where y: "y = (l, u)" by (cases y)
      from that x y have "json_quote k @ (CHR '':'' # json_ser v @ r1) = json_quote l @ (CHR '':'' # json_ser u @ r2)"
        by simp
      then have kl: "k = l" and "json_ser v @ r1 = json_ser u @ r2"
        by (auto dest: json_quote_code)
      moreover have "json_defined v" "json_defined u"
        using that(1,2) x y JObj.prems(1,2) JObj by auto
      ultimately show ?thesis
        using JObj.IH[of x v u r1 r2] that(1) x y by simp
    qed
    moreover have "\<exists>c cs. ?m y = c # cs \<and> c \<noteq> CHR ''}''" for y
      by (cases y) (simp add: json_quote_def)
    ultimately have "kvs = lvs \<and> r = r'"
      by (intro join_prefix_code[where f = ?m and e = "CHR ''}''"]) auto
    with JObj show ?thesis by simp
  qed (use JObj.prems in \<open>auto simp: json_quote_def\<close>)
next
  case JNull
  then show ?case by (cases w) (auto simp: json_quote_def)
next
  case JUndef
  then show ?case by simp
qed


lemma js_stringify_eq_iff:
  assumes "json_defined v" "json_defined w"
  shows "js_stringify v = js_stringify w \<longleftrightarrow> v = w"
proof
  assume "js_stringify v = js_stringify w"
  with assms have "json_ser v @ [] = json_ser w @ []"
    by (simp add: js_stringify_def json_defined_not_undef)
  with assms show "v = w" by (blast dest: json_ser_code)
qed simp

end
