(* ===== verification/Items.thy ===== *)
theory Items
  imports Json
begin

text \<open>
  The stored records.  \<open>ShellScript\<close> (\<open>src/src/providers/BashShellProvider.ts\<close>,
  lines 6--11) is the record \<open>item\<close>; \<open>Snipp\<close> (imported from
  \<open>interfaces/snipp\<close>, which is not part of the sources) is modelled from the
  specification as an \<open>item\<close> extended by its grouping key \<open>contentType\<close>.  Each
  record has its JavaScript object form (\<open>json_of_script\<close>, \<open>json_of_snipp\<close>) with
  the properties in the order the code creates them and absent optional properties
  left out; the providers' deep-equality test
  \<open>JSON.stringify(a) === JSON.stringify(b)\<close> is \<open>same_script\<close> / \<open>same_snipp\<close>.
  The main lemma of the theory: that test is exactly record equality.
\<close>

text \<open>\<open>content\<close> is optional: the code guards every use with
  \<open>!script.content\<close>, and a record read back from storage may lack it.
  \<open>tags\<close> is optional in the interface.\<close>

record item =
  name :: string
  content :: "string option"
  created :: string
  tags :: "string list option"

record snipp = item +
  contentType :: "string option"

definition script_members :: "item \<Rightarrow> (string \<times> jval) list" where
  "script_members s =
     [(''name'', JStr (name s))] @ opt_member ''content'' (content s) @
     [(''created'', JStr (created s))] @ opt_arr_member ''tags'' (tags s)"

definition json_of_script :: "item \<Rightarrow> jval" where
  "json_of_script s = JObj (script_members s)"

definition json_of_snipp :: "snipp \<Rightarrow> jval" where
  "json_of_snipp s =
     JObj ([(''name'', JStr (name s))] @ opt_member ''content'' (content s) @
           opt_member ''contentType'' (contentType s) @
           [(''created'', JStr (created s))] @ opt_arr_member ''tags'' (tags s))"

definition same_script :: "item \<Rightarrow> item \<Rightarrow> bool" where
  "same_script a b \<longleftrightarrow> js_stringify (json_of_script a) = js_stringify (json_of_script b)"

definition same_snipp :: "snipp \<Rightarrow> snipp \<Rightarrow> bool" where
  "same_snipp a b \<longleftrightarrow> js_stringify (json_of_snipp a) = js_stringify (json_of_snipp b)"

text \<open>\<open>!x.content\<close>: content absent or empty.\<close>

definition no_content :: "'a item_scheme \<Rightarrow> bool" where
  "no_content s \<longleftrightarrow> \<not> js_truthy (content s)"

subsection \<open>Deep equality is record equality\<close>

lemma json_of_script_defined: "json_defined (json_of_script s)"
  by (auto simp add: json_of_script_def script_members_def opt_member_def opt_arr_member_def
      split: option.splits)

lemma json_of_snipp_defined: "json_defined (json_of_snipp s)"
  by (auto simp add: json_of_snipp_def opt_member_def opt_arr_member_def split: option.splits)

lemma map_JStr_eq [simp]: "map JStr xs = map JStr ys \<longleftrightarrow> xs = ys"
  by (simp add: inj_map_eq_map inj_def)

lemma json_of_script_inj: "json_of_script a = json_of_script b \<Longrightarrow> a = b"
  by (cases a; cases b)
    (auto simp: json_of_script_def script_members_def opt_member_def opt_arr_member_def
      split: option.splits)

lemma json_of_snipp_inj: "json_of_snipp a = json_of_snipp b \<Longrightarrow> a = b"
  by (cases a; cases b)
    (auto simp: json_of_snipp_def opt_member_def opt_arr_member_def split: option.splits)

lemma same_script_iff [simp]: "same_script a b \<longleftrightarrow> a = b"
  using js_stringify_eq_iff[OF json_of_script_defined json_of_script_defined]
  by (auto simp: same_script_def dest: json_of_script_inj)

lemma same_snipp_iff [simp]: "same_snipp a b \<longleftrightarrow> a = b"
  using js_stringify_eq_iff[OF json_of_snipp_defined json_of_snipp_defined]
  by (auto simp: same_snipp_def dest: json_of_snipp_inj)

text \<open>C8. The providers match stored records by
  \<open>JSON.stringify(a) === JSON.stringify(b)\<close>.  For the records the extension stores
  (own properties in the order \<open>name, content, created, tags\<close>, and \<open>contentType\<close>
  last for snippets; an absent property is left out by \<open>stringify\<close>), this test
  holds exactly when the records are equal, field by field: the serialisation is
  injective.\<close>

theorem stringify_match_iff:
  "(js_stringify (json_of_script a) = js_stringify (json_of_script b) \<longleftrightarrow> a = b) \<and>
   (js_stringify (json_of_snipp c) = js_stringify (json_of_snipp d) \<longleftrightarrow> c = d)"
  using js_stringify_eq_iff[OF json_of_script_defined json_of_script_defined, of a b]
    js_stringify_eq_iff[OF json_of_snipp_defined json_of_snipp_defined, of c d]
  by (auto dest: json_of_script_inj json_of_snipp_inj)

end
