(* ===== verification/Store.thy ===== *)
theory Store
  imports Items
begin

text \<open>
  The persistent store and the host.  \<open>context.globalState\<close> holds one array per
  collection under the keys \<open>shell_scripts\<close>, \<open>snipps\<close> and \<open>terminal_snipps\<close>;
  \<open>get(key, [])\<close> returns the empty array for an absent key, so the record
  \<open>gstate\<close> with one list per key is the whole store.  What the commands do to the
  host (notifications, terminals, the editor, webview panels, tree refreshes) is an
  \<open>effect\<close>, and a command is a function from the store and its inputs to the new
  store and the list of effects in the order the code performs them.  The host
  facts a command reads (the time, the working directory, whether a terminal or
  editor is active, how \<open>new Date(d).toLocaleString()\<close> prints a date) are the
  record \<open>host\<close>.  A webview's messages are
  \<open>form_message\<close>s.
\<close>

record gstate =
  shell_scripts :: "item list"
  snipps :: "snipp list"
  terminal_snipps :: "snipp list"

datatype view = BashShells | AllSnipps | TerminalSnipps

datatype effect =
    Refresh view
  | ExecuteCommand string
  | ShowInfo string
  | ShowError string
  | ShowWarning string "string list"
  | CreateTerminal string string
  | ShowTerminal
  | SendText string
  | SendTextUndefined
  | InsertAtCursor string
  | OpenWebview string string string
  | DisposePanel

record host =
  now :: string
  process_cwd :: string
  workspace_folders :: "string list"
  active_terminal :: bool
  active_editor :: bool
  locale_date :: "string \<Rightarrow> string"

text \<open>A message posted by a form: \<open>{command: 'save', ...Data: {name, content,
  tags}}\<close> with each field possibly missing, \<open>{command: 'cancel'}\<close>, or any other
  command.\<close>

datatype form_message =
    Save "string option" "string option" "string option"
  | Cancel
  | OtherMessage string

text \<open>The result of one of the \<open>save\<close> handlers' field tests \<open>if (x) { obj.f = x }\<close>:
  a falsy value leaves the field as it was.\<close>

definition apply_if_truthy :: "string option \<Rightarrow> string \<Rightarrow> string" where
  "apply_if_truthy v old = (if js_truthy v then the v else old)"

definition apply_if_truthy_opt :: "string option \<Rightarrow> string option \<Rightarrow> string option" where
  "apply_if_truthy_opt v old = (if js_truthy v then v else old)"

text \<open>Decimal rendering of a count, as in a template literal \<open>${n}\<close>.\<close>

fun nat_str :: "nat \<Rightarrow> string" where
  "nat_str n = (if n < 10 then [char_of (48 + n)] else nat_str (n div 10) @ [char_of (48 + n mod 10)])"

declare nat_str.simps [simp del]

abbreviation nl :: char where
  "nl \<equiv> CHR 0x0A"

text \<open>\<open>x || 'default'\<close> on a string.\<close>

definition or_default :: "string \<Rightarrow> string \<Rightarrow> string" where
  "or_default s d = (if s = [] then d else s)"

text \<open>The working directory the shell-script runner chooses: the first workspace
  folder, else the extension host's \<open>process.cwd()\<close>.\<close>

definition working_directory :: "host \<Rightarrow> string" where
  "working_directory h = (case workspace_folders h of [] \<Rightarrow> process_cwd h | f # _ \<Rightarrow> f)"

lemma apply_if_truthy_cases:
  "js_truthy v \<Longrightarrow> apply_if_truthy v old = the v"
  "\<not> js_truthy v \<Longrightarrow> apply_if_truthy v old = old"
  by (simp_all add: apply_if_truthy_def)

lemma js_truthy_Some [simp]: "js_truthy (Some s) \<longleftrightarrow> s \<noteq> []"
  by (simp add: js_truthy_def)

lemma js_truthy_None [simp]: "\<not> js_truthy None"
  by (simp add: js_truthy_def)

lemma nat_str_digits: "x \<in> set (nat_str n) \<Longrightarrow> 48 \<le> (of_char x :: nat) \<and> (of_char x :: nat) < 58"
proof (induction n rule: nat_str.induct)
  case (1 n)
  show ?case
  proof (cases "n < 10")
    case True
    with "1.prems" show ?thesis by (simp add: nat_str.simps)
  next
    case False
    have "nat_str n = nat_str (n div 10) @ [char_of (48 + n mod 10)]"
      using False by (simp add: nat_str.simps[of n])
    with "1.prems" have "x \<in> set (nat_str (n div 10)) \<or> x = char_of (48 + n mod 10)"
      by auto
    with "1.IH" False show ?thesis by auto
  qed
qed

lemma nl_not_in_nat_str: "nl \<notin> set (nat_str n)"
  using nat_str_digits[of nl n] by auto

end
