(* ===== verification/Preview.thy ===== *)
theory Preview
  imports Store
begin

text \<open>
  The HTML that the shell-script provider puts into its webviews
  (\<open>src/src/providers/BashShellProvider.ts\<close>): \<open>escapeHtml\<close> (lines 586--593),
  \<open>formatContentWithLineNumbers\<close> (lines 578--584), the dynamic part of the
  preview page (lines 564--572) and the two fields of the edit form into which
  the record is interpolated (lines 465 and 469).  The static markup and CSS of
  the pages are left out.  \<open>s.replace(/c/g, r)\<close> is \<open>js_replace_all\<close>.
\<close>

definition js_replace_all :: "char \<Rightarrow> string \<Rightarrow> string \<Rightarrow> string" where
  "js_replace_all c r s = concat (map (\<lambda>x. if x = c then r else [x]) s)"

definition escapeHtml :: "string \<Rightarrow> string" where
  "escapeHtml text =
     js_replace_all (CHR 0x27) ''&#39;''
      (js_replace_all dquote ''&quot;''
        (js_replace_all (CHR ''>'') ''&gt;''
          (js_replace_all (CHR ''<'') ''&lt;''
            (js_replace_all (CHR ''&'') ''&amp;'' text))))"

text \<open>\<open>s.padStart(n, c)\<close> with a one-character pad.\<close>

definition js_padStart :: "nat \<Rightarrow> char \<Rightarrow> string \<Rightarrow> string" where
  "js_padStart n c s = replicate (n - length s) c @ s"

definition span_line_numbers :: string where
  "span_line_numbers = ''<span class='' @ [dquote] @ ''line-numbers'' @ [dquote] @ ''>''"

definition numbered_line :: "nat \<Rightarrow> string \<Rightarrow> string" where
  "numbered_line index line =
     span_line_numbers @ js_padStart 3 (CHR '' '') (nat_str (index + 1)) @ ''</span>'' @ escapeHtml line"

definition formatContentWithLineNumbers :: "string \<Rightarrow> string" where
  "formatContentWithLineNumbers txt =
     js_join [nl] (js_map_idx numbered_line 0 (js_split nl txt))"

text \<open>\<open>${x}\<close> of an optional string property: \<open>undefined\<close> prints as such.\<close>

definition js_template_opt :: "string option \<Rightarrow> string" where
  "js_template_opt v = (case v of None \<Rightarrow> ''undefined'' | Some s \<Rightarrow> s)"

text \<open>The separator of the preview's info line.  The source file holds the three
  characters \<open>U+00E2 U+20AC U+00A2\<close> there (a bullet \<open>U+2022\<close> whose UTF-8 bytes
  were read back as Windows-1252); the page carries their UTF-8 encoding, the seven
  bytes below, and shows them as they are.\<close>

definition info_sep :: string where
  "info_sep = '' '' @ map char_of [0xC3, 0xA2, 0xE2, 0x82, 0xAC, 0xC2, 0xA2 :: nat] @ '' ''"

text \<open>The dynamic part of the preview page (\<open>getPreviewShellScriptWebviewContent\<close>), one
  piece per line: the record's name (or \<open>Unnamed Script\<close>); the info line, with
  \<open>Created:\<close> and the creation date as the host's locale prints it when \<open>created\<close>
  is truthy, and the number of lines of a truthy content; then the numbered,
  escaped lines (or the placeholder text).\<close>

definition preview_body :: "(string \<Rightarrow> string) \<Rightarrow> item \<Rightarrow> string" where
  "preview_body fmt_date s =
     or_default (name s) ''Unnamed Script'' @ [nl] @
     (if created s \<noteq> [] then ''Created: '' @ fmt_date (created s) else []) @ [nl] @
     (case content s of
        Some c \<Rightarrow> if c \<noteq> [] then info_sep @ nat_str (length (js_split nl c)) @ '' lines'' else []
      | None \<Rightarrow> []) @ [nl] @
     formatContentWithLineNumbers
       (case content s of Some c \<Rightarrow> or_default c ''No content available''
        | None \<Rightarrow> ''No content available'')"

text \<open>The two fields of the edit form (\<open>getEditShellScriptWebviewContent\<close>): the
  record's name and content go into the markup as they are.\<close>

definition edit_form_fields :: "item \<Rightarrow> string" where
  "edit_form_fields s =
     ''<input type='' @ [dquote] @ ''text'' @ [dquote] @ '' id='' @ [dquote] @ ''name'' @ [dquote] @
     '' value='' @ [dquote] @ name s @ [dquote] @ '' required>'' @ [nl] @
     ''<textarea id='' @ [dquote] @ ''content'' @ [dquote] @ '' required>'' @
     js_template_opt (content s) @ ''</textarea>''"

subsection \<open>A reference escape and its inverse\<close>

definition html_esc_char :: "char \<Rightarrow> string" where
  "html_esc_char c =
     (if c = CHR ''&'' then ''&amp;'' else if c = CHR ''<'' then ''&lt;''
      else if c = CHR ''>'' then ''&gt;'' else if c = dquote then ''&quot;''
      else if c = CHR 0x27 then ''&#39;'' else [c])"

fun html_unescape :: "string \<Rightarrow> string" where
  "html_unescape [] = []"
| "html_unescape (c # cs) =
     (if c = CHR ''&'' \<and> take 4 cs = ''amp;'' then CHR ''&'' # html_unescape (drop 4 cs)
      else if c = CHR ''&'' \<and> take 3 cs = ''lt;'' then CHR ''<'' # html_unescape (drop 3 cs)
      else if c = CHR ''&'' \<and> take 3 cs = ''gt;'' then CHR ''>'' # html_unescape (drop 3 cs)
      else if c = CHR ''&'' \<and> take 5 cs = ''quot;'' then dquote # html_unescape (drop 5 cs)
      else if c = CHR ''&'' \<and> take 4 cs = ''#39;'' then CHR 0x27 # html_unescape (drop 4 cs)
      else c # html_unescape cs)"

subsection \<open>Properties\<close>

lemma js_replace_all_append [simp]:
  "js_replace_all c r (xs @ ys) = js_replace_all c r xs @ js_replace_all c r ys"
  by (simp add: js_replace_all_def)

lemma js_replace_all_Cons [simp]:
  "js_replace_all c r (x # xs) = (if x = c then r else [x]) @ js_replace_all c r xs"
  by (simp add: js_replace_all_def)

lemma js_replace_all_Nil [simp]: "js_replace_all c r [] = []"
  by (simp add: js_replace_all_def)

lemma escapeHtml_Nil: "escapeHtml [] = []"
  by (simp add: escapeHtml_def)

lemma escapeHtml_Cons: "escapeHtml (c # s) = html_esc_char c @ escapeHtml s"
  by (simp add: escapeHtml_def html_esc_char_def)

text \<open>C23. The chained \<open>replace\<close> calls of \<open>escapeHtml\<close> act as one pass that
  replaces each character by its entity: since \<open>&\<close> is replaced first, no entity
  produced by a later step is escaped again.\<close>

theorem escapeHtml_single_pass: "escapeHtml s = concat (map html_esc_char s)"
  by (induction s) (simp_all add: escapeHtml_Nil escapeHtml_Cons)

lemma html_unescape_esc: "html_unescape (html_esc_char c @ s) = c # html_unescape s"
  by (simp add: html_esc_char_def)

text \<open>C21. \<open>escapeHtml\<close> loses nothing: decoding the five entities it produces
  gives back the original text, for every text.\<close>

theorem html_unescape_escapeHtml: "html_unescape (escapeHtml s) = s"
  by (induction s) (simp_all add: escapeHtml_Nil escapeHtml_Cons html_unescape_esc del: html_unescape.simps(2))

text \<open>C22. The escaped text contains none of the characters \<open><\<close>, \<open>>\<close>, \<open>"\<close> and
  \<open>'\<close>, so the record's content cannot open a tag or close an attribute in the
  preview page.\<close>

theorem escapeHtml_safe:
  "set (escapeHtml s) \<inter> {CHR ''<'', CHR ''>'', dquote, CHR 0x27} = {}"
  by (induction s) (auto simp: escapeHtml_Nil escapeHtml_Cons html_esc_char_def split: if_splits)

lemma nl_not_in_escapeHtml: "nl \<notin> set line \<Longrightarrow> nl \<notin> set (escapeHtml line)"
  by (induction line) (auto simp: escapeHtml_Nil escapeHtml_Cons html_esc_char_def)

lemma nl_not_in_numbered_line: "nl \<notin> set line \<Longrightarrow> nl \<notin> set (numbered_line i line)"
  by (auto simp: numbered_line_def span_line_numbers_def js_padStart_def nl_not_in_nat_str
      nl_not_in_escapeHtml)

lemma format_split_lines:
  "js_split nl (formatContentWithLineNumbers t) = js_map_idx numbered_line 0 (js_split nl t)"
proof -
  have "\<forall>y\<in>set (js_map_idx numbered_line 0 (js_split nl t)). nl \<notin> set y"
    using js_split_no_sep[of _ nl t] nl_not_in_numbered_line by (fastforce dest!: js_map_idx_set)
  then show ?thesis
    by (simp add: formatContentWithLineNumbers_def js_split_join_inv js_map_idx_nonempty)
qed

lemma js_map_idx_zip: "js_map_idx f k xs = map (\<lambda>(i, x). f i x) (zip [k..<k + length xs] xs)"
  by (induction xs arbitrary: k) (simp_all del: upt_Suc add: upt_conv_Cons)

text \<open>C24. The numbered preview has exactly one line per line of the content:
  splitting the output at newlines gives, for the \<open>i\<close>-th content line (from 0),
  the line-number span holding \<open>i + 1\<close> padded to three places, followed by the
  escaped line.\<close>

theorem formatContentWithLineNumbers_lines:
  "js_split nl (formatContentWithLineNumbers t) =
     map (\<lambda>(i, l). span_line_numbers @ js_padStart 3 (CHR '' '') (nat_str (Suc i)) @ ''</span>'' @ escapeHtml l)
       (zip [0..<length (js_split nl t)] (js_split nl t))"
  by (simp add: format_split_lines js_map_idx_zip numbered_line_def)

text \<open>C25. The edit form interpolates the record unescaped: the name and the content
  (\<open>undefined\<close> when absent) occur verbatim in the markup, unlike the preview's
  \<open>escapeHtml\<close>.\<close>

theorem edit_form_fields_raw:
  "js_includes (edit_form_fields s) (name s) \<and>
   js_includes (edit_form_fields s) (js_template_opt (content s))"
proof
  show "js_includes (edit_form_fields s) (name s)"
    using js_includes_infix[of "''<input type='' @ [dquote] @ ''text'' @ [dquote] @ '' id='' @ [dquote] @
        ''name'' @ [dquote] @ '' value='' @ [dquote]" "name s"]
    by (simp add: edit_form_fields_def)
  show "js_includes (edit_form_fields s) (js_template_opt (content s))"
    using js_includes_infix[of "''<input type='' @ [dquote] @ ''text'' @ [dquote] @ '' id='' @ [dquote] @
        ''name'' @ [dquote] @ '' value='' @ [dquote] @ name s @ [dquote] @ '' required>'' @ [nl] @
        ''<textarea id='' @ [dquote] @ ''content'' @ [dquote] @ '' required>''" "js_template_opt (content s)"
        "''</textarea>''"]
    by (simp add: edit_form_fields_def)
qed

text \<open>C26. The info line of the preview states the number of lines the page
  shows: for a truthy content, the count printed before \<open>lines\<close> is the number of
  numbered lines of the body.\<close>

theorem preview_line_count:
  assumes "content s = Some c" "c \<noteq> []"
  shows "js_includes (preview_body f s)
           (info_sep @ nat_str (length (js_split nl (formatContentWithLineNumbers c))) @ '' lines'')"
proof -
  have n: "length (js_split nl (formatContentWithLineNumbers c)) = length (js_split nl c)"
    by (simp add: format_split_lines)
  have eq: "preview_body f s =
      (or_default (name s) ''Unnamed Script'' @ [nl] @
       (if created s \<noteq> [] then ''Created: '' @ f (created s) else []) @ [nl]) @
      (info_sep @ nat_str (length (js_split nl c)) @ '' lines'') @ ([nl] @ formatContentWithLineNumbers c)"
    using assms by (simp add: preview_body_def or_default_def[of c])
  show ?thesis
    unfolding n eq by (rule js_includes_infix)
qed

lemma preview_line_count_witness:
  "content \<lparr>name = ''a'', content = Some (''ls'' @ [nl] @ ''pwd''), created = [], tags = None\<rparr> = Some (''ls'' @ [nl] @ ''pwd'') \<and>
   ''ls'' @ [nl] @ ''pwd'' \<noteq> [] \<and>
   js_includes (preview_body (\<lambda>d. d) \<lparr>name = ''a'', content = Some (''ls'' @ [nl] @ ''pwd''), created = [], tags = None\<rparr>)
     (info_sep @ ''2 lines'')"
proof -
  have "length (js_split nl (formatContentWithLineNumbers (''ls'' @ [nl] @ ''pwd''))) = 2"
    by (simp add: format_split_lines)
  moreover have "nat_str 2 = ''2''" by code_simp
  ultimately show ?thesis
    using preview_line_count[of "\<lparr>name = ''a'', content = Some (''ls'' @ [nl] @ ''pwd''), created = [], tags = None\<rparr>"
        "''ls'' @ [nl] @ ''pwd''" "\<lambda>d. d"]
    by simp
qed

end
