(* ===== verification/BashShell.thy ===== *)
theory BashShell
  imports Preview
begin

text \<open>
  The shell-script view, \<open>src/src/providers/BashShellProvider.ts\<close> and the
  creation form \<open>src/src/components/add_bash_script.ts\<close>.

  \<^item> Tree model: \<open>BashShellModel.roots\<close> (lines 26--31) is \<open>bash_roots\<close>; the
    provider's \<open>getChildren\<close> (lines 106--146) is \<open>bash_getChildren\<close> and its
    \<open>getTreeItem\<close> (lines 55--104) is \<open>bash_getTreeItem\<close>.  A tree element is a
    \<open>ShellScript\<close> or an \<open>ActionItem\<close> whose \<open>script\<close> property holds the element
    it was made from (\<open>bnode\<close>); the provider tells them apart only by
    \<open>'content' in element\<close> and \<open>'command' in element\<close>, read off the element's
    object form \<open>bnode_json\<close>.
  \<^item> Locale order: \<open>a.name.localeCompare(b.name)\<close> is the comparison of collation
    keys, a parameter \<open>ck\<close> into any linear order (ICU compares strings through
    their sort keys); \<open>Array.prototype.sort\<close> is stable (ES2019), so the sorted
    array is \<open>sort_key\<close>.
  \<^item> Commands registered in \<open>BashShellExplorer\<close>: \<open>bashShells.addEntry\<close>
    (\<open>bash_addEntry\<close>), \<open>deleteEntry\<close> (\<open>bash_deleteEntry\<close>), \<open>refreshEntry\<close>,
    \<open>previewEntry\<close>, \<open>runEntry\<close>/\<open>executeEntry\<close>, and \<open>editEntry\<close>, which opens a
    panel (\<open>bash_editEntry\<close>, an \<open>edit_session\<close>) whose later \<open>save\<close> message is
    handled by \<open>bash_edit_message\<close>; \<open>createEntry\<close> opens the form of
    \<open>AddBashScriptForm\<close>, whose messages are \<open>add_form_message\<close>.
\<close>

subsection \<open>Tree model\<close>

datatype bnode =
    BScript item
  | BAction string string string bnode

primrec bnode_json :: "bnode \<Rightarrow> jval" where
  "bnode_json (BScript s) = json_of_script s"
| "bnode_json (BAction l c i e) =
     JObj [(''label'', JStr l), (''command'', JStr c), (''icon'', JStr i), (''script'', bnode_json e)]"

definition bash_roots :: "(string \<Rightarrow> 'k::linorder) \<Rightarrow> gstate \<Rightarrow> item list" where
  "bash_roots ck st = sort_key (\<lambda>s. ck (name s)) (shell_scripts st)"

definition bash_action_specs :: "(string \<times> string \<times> string) list" where
  "bash_action_specs =
     [(''Preview'', ''bashShells.previewEntry'', ''eye''),
      (''Run'', ''bashShells.runEntry'', ''play''),
      (''Edit'', ''bashShells.editEntry'', ''edit''),
      (''Delete'', ''bashShells.deleteEntry'', ''trash'')]"

definition bash_getChildren :: "(string \<Rightarrow> 'k::linorder) \<Rightarrow> gstate \<Rightarrow> bnode option \<Rightarrow> bnode list" where
  "bash_getChildren ck st el =
     (case el of
        None \<Rightarrow> map BScript (bash_roots ck st)
      | Some e \<Rightarrow>
          if js_in ''content'' (bnode_json e)
          then map (\<lambda>(l, c, i). BAction l c i e) bash_action_specs
          else [])"

text \<open>The tree item: label, whether it can be expanded, icon, context value, the
  command run on click with its argument, and the tooltip.  \<open>fmt_date\<close> is
  \<open>new Date(created).toLocaleString()\<close>; \<open>to_lower\<close> is \<open>toLowerCase\<close>.\<close>

record tree_item =
  ti_label :: string
  ti_collapsed :: bool
  ti_icon :: string
  ti_context :: string
  ti_command :: "(string \<times> bnode) option"
  ti_tooltip :: string

definition to_lower :: "string \<Rightarrow> string" where
  "to_lower s = map (\<lambda>c. let n = (of_char c :: nat) in if 65 \<le> n \<and> n \<le> 90 then char_of (n + 32) else c) s"

definition preview_lines :: "string \<Rightarrow> string list" where
  "preview_lines c = take 10 (js_split nl c)"

definition has_more :: "string \<Rightarrow> bool" where
  "has_more c \<longleftrightarrow> 10 < length (js_split nl c)"

definition script_tooltip :: "(string \<Rightarrow> string) \<Rightarrow> item \<Rightarrow> string" where
  "script_tooltip fmt_date s =
     ''**'' @ name s @ ''** - Shell Script'' @ [nl, nl] @
     (if created s \<noteq> [] then ''**Created:** '' @ fmt_date (created s) @ [nl, nl] else []) @
     (case content s of
        Some c \<Rightarrow> if c \<noteq> []
          then ''**Preview:**'' @ [nl] @ ''```bash'' @ [nl] @ js_join [nl] (preview_lines c) @
               (if has_more c then [nl] @ ''...(more)'' else []) @ [nl] @ ''```'' @ [nl, nl]
          else ''**Preview:** No content available'' @ [nl, nl]
      | None \<Rightarrow> ''**Preview:** No content available'' @ [nl, nl]) @
     ''*Expand to see action buttons*''"

text \<open>The code's test \<open>'command' in element\<close> holds exactly for action items
  (lemma \<open>bnode_command_iff\<close>), so the two branches are the two constructors.\<close>

definition bash_getTreeItem :: "(string \<Rightarrow> string) \<Rightarrow> bnode \<Rightarrow> tree_item" where
  "bash_getTreeItem fmt_date e =
     (case e of
        BAction l c i t \<Rightarrow>
          \<lparr>ti_label = l, ti_collapsed = False, ti_icon = i, ti_context = ''actionItem'',
           ti_command = Some (c, t), ti_tooltip = ''Click to '' @ to_lower l\<rparr>
      | BScript s \<Rightarrow>
          \<lparr>ti_label = or_default (name s) ''Unnamed Script'', ti_collapsed = True,
           ti_icon = ''file-code'', ti_context = ''shellScript'', ti_command = None,
           ti_tooltip = script_tooltip fmt_date s\<rparr>)"

subsection \<open>Commands\<close>

text \<open>\<open>bashShells.refreshEntry\<close>: \<open>refresh()\<close> fires the tree's change event.\<close>

definition bash_refreshEntry :: "gstate \<Rightarrow> gstate \<times> effect list" where
  "bash_refreshEntry st = (st, [Refresh BashShells])"

text \<open>\<open>path.basename(p, '.sh')\<close> (POSIX): the last segment after trailing
  slashes are removed, without the suffix when it ends with it and is not just the
  suffix.\<close>

definition js_basename_ext :: "string \<Rightarrow> string \<Rightarrow> string" where
  "js_basename_ext p ext =
     (let q = rev (dropWhile (\<lambda>c. c = CHR ''/'') (rev p));
          b = rev (takeWhile (\<lambda>c. c \<noteq> CHR ''/'') (rev q))
      in if b \<noteq> ext \<and> length ext \<le> length b \<and> drop (length b - length ext) b = ext
         then take (length b - length ext) b else b)"

text \<open>The loop of \<open>bashShells.addEntry\<close> over the chosen files: each file is
  the path and the result of \<open>fs.readFileSync\<close>, the text or the error's text.
  A file that reads becomes a new script; one that fails shows an error and the
  loop goes on.\<close>

fun bash_read_files :: "string \<Rightarrow> (string \<times> (string + string)) list \<Rightarrow> item list \<times> effect list" where
  "bash_read_files t [] = ([], [])"
| "bash_read_files t ((p, r) # fs) =
     (let (ss, es) = bash_read_files t fs in
      case r of
        Inr txt \<Rightarrow> (\<lparr>name = js_basename_ext p ''.sh'', content = Some txt, created = t, tags = Some []\<rparr> # ss, es)
      | Inl err \<Rightarrow> (ss, ShowError (''Failed to read '' @ p @ '': '' @ err) # es))"

text \<open>\<open>showOpenDialog\<close> returns \<open>undefined\<close> (\<open>None\<close>) or the chosen files.\<close>

definition bash_addEntry ::
  "host \<Rightarrow> (string \<times> (string + string)) list option \<Rightarrow> gstate \<Rightarrow> gstate \<times> effect list" where
  "bash_addEntry h chosen st =
     (case chosen of
        None \<Rightarrow> (st, [])
      | Some fs \<Rightarrow>
          if fs = [] then (st, [])
          else
            (let (newScripts, errs) = bash_read_files (now h) fs in
             (st\<lparr>shell_scripts := shell_scripts st @ newScripts\<rparr>,
              errs @ [ShowInfo (''Added '' @ nat_str (length newScripts) @ '' shell script(s)''),
                      Refresh BashShells])))"

text \<open>\<open>bashShells.deleteEntry\<close>: a modal warning, then, on the answer
  \<open>Yes, Delete\<close>, every stored script that serialises like the target is
  filtered out.\<close>

definition bash_delete_prompt :: "string \<Rightarrow> string" where
  "bash_delete_prompt n =
     ''Are you sure you want to delete the shell script '' @ [dquote] @ n @ [dquote] @
     ''? This action cannot be undone.''"

definition bash_deleteEntry :: "string option \<Rightarrow> item \<Rightarrow> gstate \<Rightarrow> gstate \<times> effect list" where
  "bash_deleteEntry answer target st =
     (let scriptName = or_default (name target) ''Unnamed Script'';
          ask = ShowWarning (bash_delete_prompt scriptName) [''Yes, Delete'', ''Cancel'']
      in if answer = Some ''Yes, Delete''
         then (st\<lparr>shell_scripts := filter (\<lambda>s. \<not> same_script s target) (shell_scripts st)\<rparr>,
               [ask, ShowInfo (''Shell Script '' @ [dquote] @ scriptName @ [dquote] @ '' removed successfully''),
                Refresh BashShells])
         else (st, [ask]))"

text \<open>\<open>bashShells.previewEntry\<close>.\<close>

definition bash_previewEntry :: "(string \<Rightarrow> string) \<Rightarrow> item \<Rightarrow> gstate \<Rightarrow> gstate \<times> effect list" where
  "bash_previewEntry fmt_date s st =
     (let scriptName = or_default (name s) ''Unnamed Script'' in
      if no_content s
      then (st, [ShowError (''Script '' @ [dquote] @ scriptName @ [dquote] @ '' has no content to preview'')])
      else (st, [OpenWebview ''shellScriptPreview'' (''Preview: '' @ scriptName) (preview_body fmt_date s)]))"

text \<open>The loop of \<open>bashShells.executeEntry\<close> over the non-blank lines: a shebang
  line is skipped, and so is a comment line unless it holds \<open>&&\<close> or \<open>||\<close>.\<close>

text \<open>The lines the loop keeps, as a predicate (the reference for \<open>bash_send_lines\<close>).\<close>

definition run_keeps :: "string \<Rightarrow> bool" where
  "run_keeps line \<longleftrightarrow> \<not> js_startsWith line ''#!'' \<and>
     \<not> (js_startsWith (js_trim line) ''#'' \<and> \<not> js_includes line ''&&'' \<and> \<not> js_includes line ''||'')"

fun bash_send_lines :: "string list \<Rightarrow> effect list" where
  "bash_send_lines [] = []"
| "bash_send_lines (line # ls) =
     (if js_startsWith line ''#!'' then bash_send_lines ls
      else if js_startsWith (js_trim line) ''#'' \<and> \<not> js_includes line ''&&'' \<and> \<not> js_includes line ''||''
      then bash_send_lines ls
      else SendText line # bash_send_lines ls)"

definition bash_executeEntry :: "host \<Rightarrow> item \<Rightarrow> gstate \<Rightarrow> gstate \<times> effect list" where
  "bash_executeEntry h s st =
     (if no_content s
      then (st, [ShowError (''Script '' @ [dquote] @ name s @ [dquote] @ '' has no content to execute'')])
      else
        (let shown = or_default (name s) ''Unnamed Script'';
             create = (if active_terminal h then []
                       else [CreateTerminal (''Shell: '' @ shown) (working_directory h)]);
             lines = filter (\<lambda>line. js_trim line \<noteq> []) (js_split nl (the (content s)))
         in (st, create @ [ShowTerminal] @ bash_send_lines lines @ [ShowInfo (''Executing: '' @ shown)])))"

text \<open>\<open>bashShells.runEntry\<close> delegates to \<open>executeEntry\<close>.\<close>

definition bash_runEntry :: "host \<Rightarrow> item \<Rightarrow> gstate \<Rightarrow> gstate \<times> effect list" where
  "bash_runEntry h s st = bash_executeEntry h s st"

text \<open>\<open>bashShells.editEntry\<close> reads the collection and the index of the target
  when the panel opens; the panel's \<open>save\<close> handler later writes that snapshot
  back with the edited record at the index.  Only \<open>save\<close> is handled.\<close>

record 'a edit_session =
  es_snapshot :: "'a list"
  es_index :: int
  es_target :: 'a

definition bash_editEntry :: "item \<Rightarrow> gstate \<Rightarrow> item edit_session \<times> effect list" where
  "bash_editEntry s st =
     (let xs = shell_scripts st in
      (\<lparr>es_snapshot = xs, es_index = js_findIndex (\<lambda>x. same_script x s) xs, es_target = s\<rparr>,
       [OpenWebview ''shellScriptEditor'' (''Edit: '' @ name s) (edit_form_fields s)]))"

definition edited_script :: "string option \<Rightarrow> string option \<Rightarrow> item \<Rightarrow> item" where
  "edited_script n c s = s\<lparr>name := apply_if_truthy n (name s), content := apply_if_truthy_opt c (content s)\<rparr>"

definition bash_edit_message :: "item edit_session \<Rightarrow> form_message \<Rightarrow> gstate \<Rightarrow> gstate \<times> effect list" where
  "bash_edit_message es msg st =
     (case msg of
        Save n c _ \<Rightarrow>
          (let s' = edited_script n c (es_target es);
               updated = js_map_idx (\<lambda>i e. if int i = es_index es then s' else e) 0 (es_snapshot es)
           in (st\<lparr>shell_scripts := updated\<rparr>,
               [DisposePanel, Refresh BashShells, ShowInfo ''Shell Script Updated!'']))
      | _ \<Rightarrow> (st, []))"

subsection \<open>The creation form\<close>

text \<open>\<open>AddBashScriptForm\<close>'s message handler (\<open>add_bash_script.ts\<close>, lines
  185--220): \<open>save\<close> re-checks both fields, appends the new script stamped with the
  current time and no tags, closes the panel and refreshes the view through the
  \<open>bashShells.refreshEntry\<close> command; \<open>cancel\<close> closes the panel.\<close>

definition add_form_message :: "host \<Rightarrow> form_message \<Rightarrow> gstate \<Rightarrow> gstate \<times> effect list" where
  "add_form_message h msg st =
     (case msg of
        Save n c _ \<Rightarrow>
          if \<not> js_truthy n \<or> \<not> js_truthy c
          then (st, [ShowError ''Please fill in all fields''])
          else (st\<lparr>shell_scripts := shell_scripts st @
                       [\<lparr>name = the n, content = c, created = now h, tags = Some []\<rparr>]\<rparr>,
                [DisposePanel, ExecuteCommand ''bashShells.refreshEntry'', ShowInfo ''Shell Script Added!''])
      | Cancel \<Rightarrow> (st, [DisposePanel])
      | OtherMessage _ \<Rightarrow> (st, []))"

text \<open>The files of a selection that read successfully, with their text.\<close>

definition read_ok :: "(string \<times> (string + string)) list \<Rightarrow> (string \<times> string) list" where
  "read_ok fs = concat (map (\<lambda>(p, r). case r of Inr txt \<Rightarrow> [(p, txt)] | Inl _ \<Rightarrow> []) fs)"

subsection \<open>Helper lemmas\<close>

lemma script_keys: "fst ` set (script_members s) \<subseteq> {''name'', ''content'', ''created'', ''tags''}"
  by (auto simp: script_members_def opt_member_def opt_arr_member_def split: option.splits)

lemma script_has_content_iff: "js_in ''content'' (json_of_script s) \<longleftrightarrow> content s \<noteq> None"
  by (cases "content s") (auto simp: js_in_def json_of_script_def script_members_def opt_member_def
      opt_arr_member_def split: option.splits)

lemma script_no_command: "\<not> js_in ''command'' (json_of_script s)"
  using script_keys[of s] by (auto simp: js_in_def json_of_script_def)

lemma bnode_command_iff: "js_in ''command'' (bnode_json e) \<longleftrightarrow> (\<exists>l c i t. e = BAction l c i t)"
  by (cases e) (simp add: script_no_command, simp add: js_in_def)

lemma bash_send_lines_filter: "bash_send_lines ls = map SendText (filter run_keeps ls)"
  by (induction ls) (auto simp: run_keeps_def)

lemma bash_read_files_ok:
  "fst (bash_read_files t fs) =
     map (\<lambda>(p, txt). \<lparr>name = js_basename_ext p ''.sh'', content = Some txt, created = t, tags = Some []\<rparr>) (read_ok fs)"
  by (induction t fs rule: bash_read_files.induct) (auto simp: read_ok_def split: prod.splits sum.splits)

lemmas bash_cmd_defs = bash_deleteEntry_def bash_executeEntry_def bash_previewEntry_def
  bash_edit_message_def bash_editEntry_def add_form_message_def bash_addEntry_def Let_def

subsection \<open>The tree\<close>

text \<open>C1. Classification of tree elements: a stored script whose \<open>content\<close>
  property is present has exactly the four action children Preview, Run, Edit and
  Delete, in that order, each bound to the script's element; an action has no
  children; a script read back without \<open>content\<close> has none either (the
  provider's \<open>'content' in element\<close> test treats it as a leaf).\<close>

theorem bash_children_classify:
  "bash_getChildren ck st (Some (BScript s)) =
     (if content s = None then []
      else [BAction ''Preview'' ''bashShells.previewEntry'' ''eye'' (BScript s),
            BAction ''Run'' ''bashShells.runEntry'' ''play'' (BScript s),
            BAction ''Edit'' ''bashShells.editEntry'' ''edit'' (BScript s),
            BAction ''Delete'' ''bashShells.deleteEntry'' ''trash'' (BScript s)])
   \<and> bash_getChildren ck st (Some (BAction l c i t)) = []"
proof
  show "bash_getChildren ck st (Some (BAction l c i t)) = []"
    by (simp add: bash_getChildren_def js_in_def)
qed (simp add: bash_getChildren_def script_has_content_iff bash_action_specs_def)

text \<open>C2. The roots of the shell-script tree are the stored scripts, each once, in
  ascending locale order of their names; and re-sorting the sorted roots changes
  nothing.  The sort is stable (\<open>Array.prototype.sort\<close> is, since ES2019): scripts
  whose names collate equal keep the order they are stored in.\<close>

theorem bash_roots_sorted_perm:
  "sorted (map (\<lambda>s. ck (name s)) (bash_roots ck st)) \<and>
   mset (bash_roots ck st) = mset (shell_scripts st) \<and>
   bash_roots ck (st\<lparr>shell_scripts := bash_roots ck st\<rparr>) = bash_roots ck st \<and>
   filter (\<lambda>s. ck (name s) = k) (bash_roots ck st) = filter (\<lambda>s. ck (name s) = k) (shell_scripts st)"
  by (simp add: bash_roots_def sort_key_id_if_sorted sort_key_stable)

lemma bash_children_classify_witness:
  "bash_getChildren (id :: string \<Rightarrow> string) \<lparr>shell_scripts = [], snipps = [], terminal_snipps = []\<rparr>
      (Some (BScript \<lparr>name = ''a'', content = Some ''ls'', created = ''t'', tags = None\<rparr>)) =
     map (\<lambda>(l, c, i). BAction l c i (BScript \<lparr>name = ''a'', content = Some ''ls'', created = ''t'', tags = None\<rparr>))
       bash_action_specs \<and>
   bash_getChildren (id :: string \<Rightarrow> string) \<lparr>shell_scripts = [], snipps = [], terminal_snipps = []\<rparr>
      (Some (BAction ''Run'' ''bashShells.runEntry'' ''play'' (BScript \<lparr>name = ''a'', content = Some ''ls'', created = ''t'', tags = None\<rparr>))) = []"
  using bash_children_classify[of "id :: string \<Rightarrow> string" "\<lparr>shell_scripts = [], snipps = [], terminal_snipps = []\<rparr>"
      "\<lparr>name = ''a'', content = Some ''ls'', created = ''t'', tags = None\<rparr>" "''Run''" "''bashShells.runEntry''" "''play''"]
  by (simp add: bash_action_specs_def)

lemma bash_roots_sorted_perm_witness:
  "bash_roots (id :: string \<Rightarrow> string)
      \<lparr>shell_scripts = [\<lparr>name = ''b'', content = Some ''x'', created = ''t'', tags = None\<rparr>,
                        \<lparr>name = ''a'', content = Some ''y'', created = ''t'', tags = None\<rparr>],
       snipps = [], terminal_snipps = []\<rparr> =
     [\<lparr>name = ''a'', content = Some ''y'', created = ''t'', tags = None\<rparr>,
      \<lparr>name = ''b'', content = Some ''x'', created = ''t'', tags = None\<rparr>] \<and>
   sorted [''a'', ''b'']"
  using bash_roots_sorted_perm[of "id :: string \<Rightarrow> string"
      "\<lparr>shell_scripts = [\<lparr>name = ''b'', content = Some ''x'', created = ''t'', tags = None\<rparr>,
                        \<lparr>name = ''a'', content = Some ''y'', created = ''t'', tags = None\<rparr>],
       snipps = [], terminal_snipps = []\<rparr>"]
  by (simp add: bash_roots_def)

subsection \<open>Running a script\<close>

text \<open>C3. Running a script with non-empty content sends to the terminal exactly its
  non-blank lines that are neither a shebang nor a plain comment (a comment holding
  \<open>&&\<close> or \<open>||\<close> is sent), in order, after creating a terminal only when none
  is active and showing it; the store is unchanged.\<close>

theorem bash_executeEntry_runs:
  assumes "content s = Some c" "c \<noteq> []"
  shows "bash_executeEntry h s st =
    (st, (if active_terminal h then []
          else [CreateTerminal (''Shell: '' @ or_default (name s) ''Unnamed Script'') (working_directory h)]) @
         [ShowTerminal] @ map SendText (filter run_keeps (filter (\<lambda>l. js_trim l \<noteq> []) (js_split nl c))) @
         [ShowInfo (''Executing: '' @ or_default (name s) ''Unnamed Script'')])"
  using assms by (simp add: bash_executeEntry_def no_content_def bash_send_lines_filter Let_def)

text \<open>The specification's scenario: a shebang, a plain comment and \<open>echo hi\<close>,
  with a terminal open: exactly \<open>echo hi\<close> is sent.\<close>

lemma bash_executeEntry_runs_witness:
  "content \<lparr>name = ''deploy'', content = Some (''#!/bin/bash'' @ [nl] @ ''# comment'' @ [nl] @ ''echo hi'' @ [nl]),
        created = ''2024-01-01T00:00:00.000Z'', tags = Some []\<rparr> = Some (''#!/bin/bash'' @ [nl] @ ''# comment'' @ [nl] @ ''echo hi'' @ [nl]) \<and>
   bash_executeEntry \<lparr>now = ''t'', process_cwd = ''/'', workspace_folders = [], active_terminal = True,
       active_editor = False, locale_date = (\<lambda>d. d)\<rparr> \<lparr>name = ''deploy'', content = Some (''#!/bin/bash'' @ [nl] @ ''# comment'' @ [nl] @ ''echo hi'' @ [nl]),
        created = ''2024-01-01T00:00:00.000Z'', tags = Some []\<rparr> \<lparr>shell_scripts = [\<lparr>name = ''deploy'', content = Some (''#!/bin/bash'' @ [nl] @ ''# comment'' @ [nl] @ ''echo hi'' @ [nl]),
        created = ''2024-01-01T00:00:00.000Z'', tags = Some []\<rparr>], snipps = [], terminal_snipps = []\<rparr> =
     (\<lparr>shell_scripts = [\<lparr>name = ''deploy'', content = Some (''#!/bin/bash'' @ [nl] @ ''# comment'' @ [nl] @ ''echo hi'' @ [nl]),
        created = ''2024-01-01T00:00:00.000Z'', tags = Some []\<rparr>], snipps = [], terminal_snipps = []\<rparr>,
      [ShowTerminal, SendText ''echo hi'', ShowInfo ''Executing: deploy''])"
  using bash_executeEntry_runs[of "\<lparr>name = ''deploy'', content = Some (''#!/bin/bash'' @ [nl] @ ''# comment'' @ [nl] @ ''echo hi'' @ [nl]),
        created = ''2024-01-01T00:00:00.000Z'', tags = Some []\<rparr>" "''#!/bin/bash'' @ [nl] @ ''# comment'' @ [nl] @ ''echo hi'' @ [nl]"
      "\<lparr>now = ''t'', process_cwd = ''/'', workspace_folders = [], active_terminal = True, active_editor = False, locale_date = (\<lambda>d. d)\<rparr>"
      "\<lparr>shell_scripts = [\<lparr>name = ''deploy'', content = Some (''#!/bin/bash'' @ [nl] @ ''# comment'' @ [nl] @ ''echo hi'' @ [nl]),
        created = ''2024-01-01T00:00:00.000Z'', tags = Some []\<rparr>], snipps = [], terminal_snipps = []\<rparr>"]
  by (simp add: run_keeps_def js_simps or_default_def)

subsection \<open>Deleting a script\<close>

text \<open>C4. Delete asks first; on the answer \<open>Yes, Delete\<close> it removes every stored
  script equal to the target and keeps the others in order, and on any other answer
  (including a dismissed prompt) the store is unchanged.\<close>

theorem bash_delete_store:
  "fst (bash_deleteEntry answer t st) =
     (if answer = Some ''Yes, Delete''
      then st\<lparr>shell_scripts := filter (\<lambda>s. s \<noteq> t) (shell_scripts st)\<rparr> else st)"
  by (simp add: bash_deleteEntry_def Let_def)

lemma bash_delete_store_witness:
  "fst (bash_deleteEntry (Some ''Cancel'') \<lparr>name = ''a'', content = Some ''ls'', created = ''t'', tags = None\<rparr>
      \<lparr>shell_scripts = [\<lparr>name = ''a'', content = Some ''ls'', created = ''t'', tags = None\<rparr>], snipps = [], terminal_snipps = []\<rparr>) =
     \<lparr>shell_scripts = [\<lparr>name = ''a'', content = Some ''ls'', created = ''t'', tags = None\<rparr>], snipps = [], terminal_snipps = []\<rparr> \<and>
   shell_scripts (fst (bash_deleteEntry (Some ''Yes, Delete'') \<lparr>name = ''a'', content = Some ''ls'', created = ''t'', tags = None\<rparr>
      \<lparr>shell_scripts = [\<lparr>name = ''a'', content = Some ''ls'', created = ''t'', tags = None\<rparr>], snipps = [], terminal_snipps = []\<rparr>)) = []"
  using bash_delete_store[of "Some ''Cancel''" "\<lparr>name = ''a'', content = Some ''ls'', created = ''t'', tags = None\<rparr>"
      "\<lparr>shell_scripts = [\<lparr>name = ''a'', content = Some ''ls'', created = ''t'', tags = None\<rparr>], snipps = [], terminal_snipps = []\<rparr>"]
    bash_delete_store[of "Some ''Yes, Delete''" "\<lparr>name = ''a'', content = Some ''ls'', created = ''t'', tags = None\<rparr>"
      "\<lparr>shell_scripts = [\<lparr>name = ''a'', content = Some ''ls'', created = ''t'', tags = None\<rparr>], snipps = [], terminal_snipps = []\<rparr>"]
  by simp


text \<open>C34. Running a script whose content is absent or empty reports an error naming
  the script and does nothing else: no terminal is created or shown.\<close>

theorem bash_executeEntry_no_content:
  "no_content s \<Longrightarrow>
   bash_executeEntry h s st = (st, [ShowError (''Script '' @ [dquote] @ name s @ [dquote] @ '' has no content to execute'')])"
  by (simp add: bash_executeEntry_def)

lemma bash_executeEntry_no_content_witness:
  "no_content \<lparr>name = ''a'', content = Some [], created = ''t'', tags = None\<rparr> \<and>
   bash_executeEntry \<lparr>now = ''t'', process_cwd = ''/'', workspace_folders = [], active_terminal = False, active_editor = False, locale_date = (\<lambda>d. d)\<rparr> \<lparr>name = ''a'', content = Some [], created = ''t'', tags = None\<rparr> \<lparr>shell_scripts = [], snipps = [], terminal_snipps = []\<rparr> =
     (\<lparr>shell_scripts = [], snipps = [], terminal_snipps = []\<rparr>, [ShowError (''Script '' @ [dquote] @ ''a'' @ [dquote] @ '' has no content to execute'')])"
  using bash_executeEntry_no_content[of "\<lparr>name = ''a'', content = Some [], created = ''t'', tags = None\<rparr>" "\<lparr>now = ''t'', process_cwd = ''/'', workspace_folders = [], active_terminal = False, active_editor = False, locale_date = (\<lambda>d. d)\<rparr>" "\<lparr>shell_scripts = [], snipps = [], terminal_snipps = []\<rparr>"]
  by (simp add: no_content_def)

subsection \<open>Creating, adding, previewing and editing\<close>

text \<open>C31. The creation form's \<open>save\<close>: with a truthy name and content the new
  script, stamped with the current time and an empty tag list, is appended to the
  stored scripts, the panel closes and the view is refreshed; otherwise the store is
  unchanged, the panel stays open and an error is shown.\<close>

theorem add_form_save:
  "add_form_message h (Save n c x) st =
     (if js_truthy n \<and> js_truthy c
      then (st\<lparr>shell_scripts := shell_scripts st @ [\<lparr>name = the n, content = c, created = now h, tags = Some []\<rparr>]\<rparr>,
            [DisposePanel, ExecuteCommand ''bashShells.refreshEntry'', ShowInfo ''Shell Script Added!''])
      else (st, [ShowError ''Please fill in all fields'']))"
  by (auto simp: add_form_message_def)

text \<open>C32. Adding scripts from files: every selected file that reads becomes a
  script named by its base name without \<open>.sh\<close>, with the file's text and an empty tag
  list, appended in selection order after the stored scripts; files that fail to
  read are skipped (each with an error), and the reported count is the number of
  files that did read.\<close>

theorem bash_addEntry_appends:
  "fs \<noteq> [] \<Longrightarrow>
   shell_scripts (fst (bash_addEntry h (Some fs) st)) =
     shell_scripts st @
     map (\<lambda>(p, txt). \<lparr>name = js_basename_ext p ''.sh'', content = Some txt, created = now h, tags = Some []\<rparr>) (read_ok fs) \<and>
   ShowInfo (''Added '' @ nat_str (length (read_ok fs)) @ '' shell script(s)'') \<in> set (snd (bash_addEntry h (Some fs) st))"
  using bash_read_files_ok[of "now h" fs]
  by (auto simp: bash_addEntry_def split: prod.splits)

lemma bash_addEntry_appends_witness:
  "[(''/s/deploy.sh'', Inr ''make''), (''/s/bad.sh'', Inl ''EACCES'')] \<noteq> [] \<and>
   shell_scripts (fst (bash_addEntry \<lparr>now = ''t'', process_cwd = ''/'', workspace_folders = [], active_terminal = False, active_editor = False, locale_date = (\<lambda>d. d)\<rparr> (Some [(''/s/deploy.sh'', Inr ''make''), (''/s/bad.sh'', Inl ''EACCES'')]) \<lparr>shell_scripts = [], snipps = [], terminal_snipps = []\<rparr>)) =
     [\<lparr>name = ''deploy'', content = Some ''make'', created = ''t'', tags = Some []\<rparr>]"
  using bash_addEntry_appends[of "[(''/s/deploy.sh'', Inr ''make''), (''/s/bad.sh'', Inl ''EACCES'')]" "\<lparr>now = ''t'', process_cwd = ''/'', workspace_folders = [], active_terminal = False, active_editor = False, locale_date = (\<lambda>d. d)\<rparr>" "\<lparr>shell_scripts = [], snipps = [], terminal_snipps = []\<rparr>"]
  by (simp add: read_ok_def js_basename_ext_def)

text \<open>Previewing refuses a script without content with an error naming it
  (or \<open>Unnamed Script\<close>); otherwise it opens one preview panel holding the escaped,
  numbered lines.  The store is unchanged.\<close>

theorem bash_previewEntry_cases:
  "bash_previewEntry f s st =
     (st, [if no_content s
           then ShowError (''Script '' @ [dquote] @ or_default (name s) ''Unnamed Script'' @ [dquote] @ '' has no content to preview'')
           else OpenWebview ''shellScriptPreview'' (''Preview: '' @ or_default (name s) ''Unnamed Script'') (preview_body f s)])"
  by (simp add: bash_previewEntry_def Let_def)

lemma js_join_snoc: "xs \<noteq> [] \<Longrightarrow> js_join sep (xs @ [y]) = js_join sep xs @ sep @ y"
  by (induction xs) (auto simp: js_join_Cons)

text \<open>C36. The tooltip of a script with content shows, between \<open>```bash\<close> and
  \<open>```\<close>, the first ten lines of the content, followed by a line \<open>...(more)\<close>
  exactly when the content has more than ten lines.\<close>

theorem script_tooltip_preview:
  assumes "content s = Some c" "c \<noteq> []"
  shows "\<exists>pre. script_tooltip fmt_date s =
           pre @ ''```bash'' @ [nl] @
           js_join [nl] (take 10 (js_split nl c) @ (if 10 < length (js_split nl c) then [''...(more)''] else [])) @
           [nl] @ ''```'' @ [nl, nl] @ ''*Expand to see action buttons*''"
proof -
  have "take 10 (js_split nl c) \<noteq> []" using js_split_nonempty[of nl c] by (cases "js_split nl c") simp_all
  then have "js_join [nl] (take 10 (js_split nl c) @ (if 10 < length (js_split nl c) then [''...(more)''] else [])) =
      js_join [nl] (preview_lines c) @ (if has_more c then [nl] @ ''...(more)'' else [])"
    by (simp add: js_join_snoc preview_lines_def has_more_def)
  then show ?thesis
    using assms by (simp add: script_tooltip_def)
qed

lemma script_tooltip_preview_witness:
  "content \<lparr>name = ''a'', content = Some ''ls'', created = [], tags = Some []\<rparr> = Some ''ls'' \<and> ''ls'' \<noteq> [] \<and>
   (\<exists>pre. script_tooltip (\<lambda>d. d) \<lparr>name = ''a'', content = Some ''ls'', created = [], tags = Some []\<rparr> =
      pre @ ''```bash'' @ [nl] @ js_join [nl] (take 10 (js_split nl ''ls'') @ (if 10 < length (js_split nl ''ls'') then [''...(more)''] else [])) @
      [nl] @ ''```'' @ [nl, nl] @ ''*Expand to see action buttons*'')"
  using script_tooltip_preview[of "\<lparr>name = ''a'', content = Some ''ls'', created = [], tags = Some []\<rparr>" "''ls''" "\<lambda>d. d"]
  by simp

text \<open>C17. Saving a shell-script edit writes back the collection captured when the
  panel opened, with the edited script (truthy fields applied, the others kept) at
  the index found then, or the snapshot unchanged when the target was not found;
  the store current at save time is not read.\<close>

theorem bash_edit_writes_snapshot:
  "shell_scripts (fst (bash_edit_message es (Save n c x) st)) =
     (if 0 \<le> es_index es \<and> es_index es < int (length (es_snapshot es))
      then (es_snapshot es)[nat (es_index es) := edited_script n c (es_target es)]
      else es_snapshot es)"
  by (simp add: bash_edit_message_def Let_def js_map_idx_replace)

end
