(* ===== verification/Snipp.thy ===== *)
theory Snipp
  imports BashShell
begin

text \<open>
  The grouped snippet view, \<open>src/src/providers/SnippProvider.ts\<close>.  Its tree has
  three kinds of element: a \<open>Group\<close> \<open>{name: type, contentType: undefined}\<close>
  made for each distinct \<open>contentType\<close> of the stored snippets, the stored
  \<open>Snipp\<close>s, and \<open>EditorActionItem\<close>s whose \<open>snipp\<close> property is the element
  they were made from (\<open>snode\<close>).  The provider classifies an element only through
  \<open>'command' in\<close>, \<open>'snipp' in\<close>, \<open>'content' in\<close>, \<open>'contentType' in\<close> and the
  value of \<open>contentType\<close>, read off \<open>snode_json\<close>.  \<open>SnippModel.roots\<close> (lines
  26--33) is \<open>snipp_roots\<close>, \<open>SnippModel.getChildren\<close> (35--44)
  \<open>snipp_model_children\<close>, the provider's \<open>getChildren\<close> (152--198)
  \<open>snipp_getChildren\<close> and \<open>getTreeItem\<close> (76--150) \<open>snipp_getTreeItem\<close>.  The
  commands of \<open>SnippExplorer\<close> take the tree element they are invoked on.
\<close>

subsection \<open>Tree model\<close>

text \<open>A group's name is the \<open>contentType\<close> value it was made from, which is
  \<open>undefined\<close> for a snippet without one.\<close>

datatype snode =
    SGroup "string option"
  | SSnipp snipp
  | SAction string string string snode

definition opt_jval :: "string option \<Rightarrow> jval" where
  "opt_jval v = (case v of None \<Rightarrow> JUndef | Some s \<Rightarrow> JStr s)"

primrec snode_json :: "snode \<Rightarrow> jval" where
  "snode_json (SGroup t) = JObj [(''name'', opt_jval t), (''contentType'', JUndef)]"
| "snode_json (SSnipp s) = json_of_snipp s"
| "snode_json (SAction l c i e) =
     JObj [(''label'', JStr l), (''command'', JStr c), (''icon'', JStr i), (''snipp'', snode_json e)]"

text \<open>\<open>SnippProvider.isSnipp\<close>: \<open>"content" in object\<close>.\<close>

definition isSnipp :: "snode \<Rightarrow> bool" where
  "isSnipp e \<longleftrightarrow> js_in ''content'' (snode_json e)"

text \<open>\<open>self.indexOf(value) === index\<close>: keep an element only at its first
  occurrence.\<close>

definition snipp_types :: "snipp list \<Rightarrow> string option list" where
  "snipp_types ss =
     (let types = map contentType ss in js_filter_idx (\<lambda>v i. js_indexOf v types = int i) 0 types)"

definition snipp_roots :: "gstate \<Rightarrow> snode list" where
  "snipp_roots st = map SGroup (snipp_types (snipps st))"

text \<open>\<open>snipp.contentType === node.name\<close>: strict equality of two property values,
  \<open>undefined === undefined\<close> included.\<close>

definition snipp_model_children :: "(string \<Rightarrow> 'k::linorder) \<Rightarrow> gstate \<Rightarrow> jval \<Rightarrow> snipp list" where
  "snipp_model_children ck st groupName =
     sort_key (\<lambda>s. ck (name s)) (filter (\<lambda>s. opt_jval (contentType s) = groupName) (snipps st))"

definition snipp_action_specs :: "(string \<times> string \<times> string) list" where
  "snipp_action_specs =
     [(''Insert'', ''allSnipps.insertEntry'', ''insert''),
      (''Edit'', ''allSnipps.editEntry'', ''edit''),
      (''Delete'', ''allSnipps.deleteEntry'', ''trash'')]"

definition snipp_getChildren :: "(string \<Rightarrow> 'k::linorder) \<Rightarrow> gstate \<Rightarrow> snode option \<Rightarrow> snode list" where
  "snipp_getChildren ck st el =
     (case el of
        None \<Rightarrow> snipp_roots st
      | Some e \<Rightarrow>
          (let j = snode_json e in
           if js_in ''command'' j \<and> js_in ''snipp'' j then []
           else if js_in ''content'' j \<and> js_in ''contentType'' j \<and> js_get ''contentType'' j \<noteq> JUndef
           then map (\<lambda>(l, c, i). SAction l c i e) snipp_action_specs
           else if js_in ''contentType'' j \<and> js_get ''contentType'' j = JUndef
           then map SSnipp (snipp_model_children ck st (js_get ''name'' j))
           else []))"

text \<open>The tree item.  A group's label is \<open>group.name.toUpperCase()\<close>, which throws a
  \<open>TypeError\<close> when the name is \<open>undefined\<close>; the result is a sum with the error on
  the left.  Icons are paths under \<open>resources/icons\<close>.\<close>

datatype js_error = TypeError

record 'n snipp_item =
  si_label :: string
  si_collapsed :: bool
  si_icon :: string
  si_context :: string
  si_command :: "(string \<times> 'n) option"
  si_tooltip :: "string option"

text \<open>The arrow of the snippet tooltip: the source holds the three characters
  \<open>U+00E2 U+2021 U+00A5\<close> (an arrow \<open>U+21E5\<close> whose UTF-8 bytes were read back as
  Windows-1252), carried here as their UTF-8 bytes.\<close>

definition tab_mark :: string where
  "tab_mark = map char_of [0xC3, 0xA2, 0xE2, 0x80, 0xA1, 0xC2, 0xA5 :: nat]"

text \<open>The snippet's tooltip: \<open>new MarkdownString(...)\<close> of the info line and the
  content in a fenced block tagged with the \<open>contentType\<close>, then
  \<open>appendMarkdown\<close> of the hint; absent properties print as \<open>undefined\<close>.\<close>

definition snipp_tooltip :: "snipp \<Rightarrow> string" where
  "snipp_tooltip s =
     (''**'' @ name s @ tab_mark @ '' '' @ js_template_opt (contentType s) @ ''** _'' @ [nl] @ ''___'') @
     [nl, nl] @ ''```'' @ js_template_opt (contentType s) @ [nl] @ js_template_opt (content s) @ [nl] @ ''```'' @
     [nl, nl] @ ''*Expand to see action buttons*''"

definition to_upper :: "string \<Rightarrow> string" where
  "to_upper s = map (\<lambda>c. let n = (of_char c :: nat) in if 97 \<le> n \<and> n \<le> 122 then char_of (n - 32) else c) s"

text \<open>The code tests, in order, \<open>'command' in e && 'snipp' in e\<close>,
  \<open>'contentType' in e && e.contentType === undefined\<close> and \<open>'content' in e\<close>
  (\<open>isSnipp\<close>), falling back to an \<open>Unknown Item\<close>; on the three constructors these
  tests select the branches below (lemmas \<open>snode_action_test\<close>,
  \<open>snode_group_test\<close> and \<open>snode_has_content\<close>).\<close>

definition unknown_item :: "'n snipp_item" where
  "unknown_item = \<lparr>si_label = ''Unknown Item'', si_collapsed = False, si_icon = [], si_context = [],
     si_command = None, si_tooltip = None\<rparr>"

definition snipp_getTreeItem :: "snode \<Rightarrow> js_error + snode snipp_item" where
  "snipp_getTreeItem e =
     (case e of
        SAction l c i t \<Rightarrow>
          Inr \<lparr>si_label = l, si_collapsed = False, si_icon = i, si_context = ''editorActionItem'',
               si_command = Some (c, t), si_tooltip = Some (''Click to '' @ to_lower l)\<rparr>
      | SGroup t \<Rightarrow>
          (case t of
             None \<Rightarrow> Inl TypeError
           | Some n \<Rightarrow> Inr \<lparr>si_label = to_upper n, si_collapsed = True,
                             si_icon = ''resources/icons/folder-'' @ n @ ''.svg'',
                             si_context = ''snippGroup'', si_command = None, si_tooltip = None\<rparr>)
      | SSnipp s \<Rightarrow>
          (if content s \<noteq> None
           then Inr \<lparr>si_label = name s, si_collapsed = True,
                     si_icon = ''resources/icons/'' @ js_template_opt (contentType s) @ ''.svg'',
                     si_context = ''editorSnipp'', si_command = None, si_tooltip = Some (snipp_tooltip s)\<rparr>
           else Inr unknown_item))"

subsection \<open>Commands\<close>

text \<open>The commands receive the tree element.  \<open>!snipp.content\<close> holds for a group
  and for an action item (neither has a \<open>content\<close> property), so those cases take
  the code's first branch.\<close>

definition apostrophe :: string where
  "apostrophe = [CHR 0x27]"

definition snipp_refreshEntry :: "gstate \<Rightarrow> gstate \<times> effect list" where
  "snipp_refreshEntry st = (st, [Refresh AllSnipps])"

definition snipp_addEntry :: "gstate \<Rightarrow> gstate \<times> effect list" where
  "snipp_addEntry st = (st, [ShowInfo ''Successfully called add entry.''])"

definition snipp_deleteEntry :: "snode \<Rightarrow> gstate \<Rightarrow> gstate \<times> effect list" where
  "snipp_deleteEntry e st =
     (let err = (st, [ShowError (''You can'' @ apostrophe @ ''t delete a snippet group!'')]) in
      case e of
        SSnipp t \<Rightarrow>
          if no_content t then err
          else (st\<lparr>snipps := filter (\<lambda>s. \<not> same_snipp s t) (snipps st)\<rparr>,
                [ShowInfo ''Snipp deleted'', Refresh AllSnipps])
      | _ \<Rightarrow> err)"

text \<open>\<open>allSnipps.insertEntry\<close>: \<open>isSnipp\<close> is \<open>'content' in snipp\<close>; the inserted
  text is \<open>snipp.content || ""\<close>.\<close>

definition snipp_insertEntry :: "host \<Rightarrow> snode \<Rightarrow> gstate \<Rightarrow> gstate \<times> effect list" where
  "snipp_insertEntry h e st =
     (if active_editor h \<and> isSnipp e
      then (st, [InsertAtCursor (case e of SSnipp s \<Rightarrow> (case content s of Some c \<Rightarrow> c | None \<Rightarrow> []) | _ \<Rightarrow> [])])
      else if active_editor h \<and> \<not> isSnipp e
      then (st, [ShowError ''Please choose a Snipp instead of a group''])
      else if \<not> active_editor h
      then (st, [ShowError ''Please open a file to insert a Snipp''])
      else (st, [ShowError ''Failed to insert Snipp!'']))"

text \<open>\<open>allSnipps.editEntry\<close>: the panel's form comes from \<open>components/edit_snipp\<close>,
  outside the sources; its markup is not modelled.  The \<open>save\<close> message carries
  the tags as one string, split at \<open>+\<close>, trimmed, and kept when at least two
  characters long.\<close>

definition parse_tags :: "string \<Rightarrow> string list" where
  "parse_tags t = filter (\<lambda>x. 2 \<le> length x) (map js_trim (js_split (CHR ''+'') t))"

definition snipp_editEntry :: "snode \<Rightarrow> gstate \<Rightarrow> snipp edit_session option \<times> effect list" where
  "snipp_editEntry e st =
     (let err = (None, [ShowError (''You can'' @ apostrophe @ ''t edit a snippet group!'')]) in
      case e of
        SSnipp t \<Rightarrow>
          if no_content t then err
          else (let xs = snipps st in
                (Some \<lparr>es_snapshot = xs, es_index = js_findIndex (\<lambda>x. same_snipp x t) xs, es_target = t\<rparr>,
                 [OpenWebview ''snippetEditor'' (''Edit: '' @ name t) []]))
      | _ \<Rightarrow> err)"

definition edited_snipp :: "string option \<Rightarrow> string option \<Rightarrow> string option \<Rightarrow> snipp \<Rightarrow> snipp" where
  "edited_snipp n c tg s =
     s\<lparr>name := apply_if_truthy n (name s), content := apply_if_truthy_opt c (content s),
       tags := (if js_truthy tg then Some (parse_tags (the tg)) else tags s)\<rparr>"

definition snipp_edit_message :: "snipp edit_session \<Rightarrow> form_message \<Rightarrow> gstate \<Rightarrow> gstate \<times> effect list" where
  "snipp_edit_message es msg st =
     (case msg of
        Save n c tg \<Rightarrow>
          (let s' = edited_snipp n c tg (es_target es);
               updated = js_map_idx (\<lambda>i e. if int i = es_index es then s' else e) 0 (es_snapshot es)
           in (st\<lparr>snipps := updated\<rparr>, [DisposePanel, Refresh AllSnipps, ShowInfo ''Snippet Updated!'']))
      | _ \<Rightarrow> (st, []))"


subsection \<open>Helper lemmas\<close>

lemma opt_jval_eq_iff [simp]: "opt_jval a = opt_jval b \<longleftrightarrow> a = b"
  by (cases a; cases b) (simp_all add: opt_jval_def)

lemma snipp_json_keys:
  "js_in k (json_of_snipp s) \<longleftrightarrow>
     k = ''name'' \<or> k = ''created'' \<or> (k = ''content'' \<and> content s \<noteq> None) \<or>
     (k = ''contentType'' \<and> contentType s \<noteq> None) \<or> (k = ''tags'' \<and> tags s \<noteq> None)"
  by (cases "content s"; cases "contentType s"; cases "tags s")
    (auto simp: js_in_def json_of_snipp_def opt_member_def opt_arr_member_def)

lemma snipp_json_contentType:
  "contentType s \<noteq> None \<Longrightarrow> js_get ''contentType'' (json_of_snipp s) = JStr (the (contentType s))"
  by (cases "content s"; cases "contentType s"; cases "tags s")
    (auto simp: js_get_def json_of_snipp_def opt_member_def opt_arr_member_def)

lemma snode_has_content: "js_in ''content'' (snode_json e) \<longleftrightarrow> (\<exists>s. e = SSnipp s \<and> content s \<noteq> None)"
  by (cases e) (simp_all add: snipp_json_keys, simp_all add: js_in_def)

text \<open>The key tests of \<open>getTreeItem\<close> select the constructors.\<close>

lemma snode_action_test:
  "js_in ''command'' (snode_json e) \<and> js_in ''snipp'' (snode_json e) \<longleftrightarrow> (\<exists>l c i t. e = SAction l c i t)"
  by (cases e) (simp_all add: snipp_json_keys, simp_all add: js_in_def)

lemma snode_group_test:
  "js_in ''contentType'' (snode_json e) \<and> js_get ''contentType'' (snode_json e) = JUndef \<longleftrightarrow> (\<exists>t. e = SGroup t)"
  by (cases e) (auto simp: snipp_json_keys snipp_json_contentType, simp_all add: js_in_def js_get_def)

lemma snipp_children_SSnipp:
  "snipp_getChildren ck st (Some (SSnipp s)) =
     (if content s \<noteq> None \<and> contentType s \<noteq> None
      then map (\<lambda>(l, c, i). SAction l c i (SSnipp s)) snipp_action_specs else [])"
  by (auto simp: snipp_getChildren_def snipp_json_keys snipp_json_contentType Let_def)

subsection \<open>The tree\<close>

text \<open>C5. Classification of snippet tree elements: a stored snippet with both
  \<open>content\<close> and \<open>contentType\<close> has exactly the Insert, Edit and Delete actions
  bound to it; a snippet lacking either has no children; a group's children are the
  snippets whose \<open>contentType\<close> equals the group's key, in locale order of their
  names; an action item has no children.\<close>

theorem snipp_children_classify:
  "snipp_getChildren ck st (Some (SSnipp s)) =
     (if content s \<noteq> None \<and> contentType s \<noteq> None
      then [SAction ''Insert'' ''allSnipps.insertEntry'' ''insert'' (SSnipp s),
            SAction ''Edit'' ''allSnipps.editEntry'' ''edit'' (SSnipp s),
            SAction ''Delete'' ''allSnipps.deleteEntry'' ''trash'' (SSnipp s)]
      else []) \<and>
   snipp_getChildren ck st (Some (SGroup t)) =
     map SSnipp (sort_key (\<lambda>s. ck (name s)) (filter (\<lambda>s. contentType s = t) (snipps st))) \<and>
   snipp_getChildren ck st (Some (SAction l c i e)) = []"
proof (intro conjI)
  show "snipp_getChildren ck st (Some (SAction l c i e)) = []"
    by (simp add: snipp_getChildren_def js_in_def)
  show "snipp_getChildren ck st (Some (SGroup t)) =
     map SSnipp (sort_key (\<lambda>s. ck (name s)) (filter (\<lambda>s. contentType s = t) (snipps st)))"
    by (simp add: snipp_getChildren_def js_in_def js_get_def snipp_model_children_def)
qed (simp add: snipp_children_SSnipp snipp_action_specs_def)

text \<open>C6. The roots of the snippet tree are one group per distinct \<open>contentType\<close>
  of the stored snippets, in order of first occurrence (the \<open>indexOf\<close> filter is
  the first-occurrence deduplication), with no duplicates, and every group has at
  least one child.\<close>

theorem snipp_roots_groups:
  "snipp_roots st = map SGroup (rev (remdups (rev (map contentType (snipps st))))) \<and>
   distinct (snipp_roots st) \<and>
   (\<forall>g\<in>set (snipp_roots st). snipp_getChildren ck st (Some g) \<noteq> [])"
proof -
  have "snipp_getChildren ck st (Some (SGroup t)) \<noteq> []" if "t \<in> contentType ` set (snipps st)" for t
    using that by (auto simp: snipp_getChildren_def js_in_def js_get_def snipp_model_children_def
        filter_empty_conv)
  then show ?thesis
    by (auto simp: snipp_roots_def snipp_types_def js_filter_first_occurrence distinct_map inj_on_def)
qed

lemma snipp_roots_groups_witness:
  "snipp_roots \<lparr>shell_scripts = [],
      snipps = [\<lparr>name = ''loop'', content = Some ''for'', created = ''t'', tags = None, contentType = Some ''python''\<rparr>,
                \<lparr>name = ''echo'', content = Some ''echo'', created = ''t'', tags = None, contentType = Some ''bash''\<rparr>,
                \<lparr>name = ''range'', content = Some ''rg'', created = ''t'', tags = None, contentType = Some ''python''\<rparr>],
      terminal_snipps = []\<rparr> = [SGroup (Some ''python''), SGroup (Some ''bash'')] \<and> distinct (snipp_roots \<lparr>shell_scripts = [],
      snipps = [\<lparr>name = ''loop'', content = Some ''for'', created = ''t'', tags = None, contentType = Some ''python''\<rparr>,
                \<lparr>name = ''echo'', content = Some ''echo'', created = ''t'', tags = None, contentType = Some ''bash''\<rparr>,
                \<lparr>name = ''range'', content = Some ''rg'', created = ''t'', tags = None, contentType = Some ''python''\<rparr>],
      terminal_snipps = []\<rparr>) \<and>
   snipp_getChildren (\<lambda>x::string. x) \<lparr>shell_scripts = [],
      snipps = [\<lparr>name = ''loop'', content = Some ''for'', created = ''t'', tags = None, contentType = Some ''python''\<rparr>,
                \<lparr>name = ''echo'', content = Some ''echo'', created = ''t'', tags = None, contentType = Some ''bash''\<rparr>,
                \<lparr>name = ''range'', content = Some ''rg'', created = ''t'', tags = None, contentType = Some ''python''\<rparr>],
      terminal_snipps = []\<rparr> (Some (SGroup (Some ''python''))) \<noteq> [] \<and>
   snipp_getChildren (\<lambda>x::string. x) \<lparr>shell_scripts = [],
      snipps = [\<lparr>name = ''loop'', content = Some ''for'', created = ''t'', tags = None, contentType = Some ''python''\<rparr>,
                \<lparr>name = ''echo'', content = Some ''echo'', created = ''t'', tags = None, contentType = Some ''bash''\<rparr>,
                \<lparr>name = ''range'', content = Some ''rg'', created = ''t'', tags = None, contentType = Some ''python''\<rparr>],
      terminal_snipps = []\<rparr> (Some (SGroup (Some ''bash''))) \<noteq> []"
  using snipp_roots_groups[of "\<lparr>shell_scripts = [],
      snipps = [\<lparr>name = ''loop'', content = Some ''for'', created = ''t'', tags = None, contentType = Some ''python''\<rparr>,
                \<lparr>name = ''echo'', content = Some ''echo'', created = ''t'', tags = None, contentType = Some ''bash''\<rparr>,
                \<lparr>name = ''range'', content = Some ''rg'', created = ''t'', tags = None, contentType = Some ''python''\<rparr>],
      terminal_snipps = []\<rparr>" "\<lambda>x::string. x"] by simp

text \<open>The group roots are not sorted: they come in the order the content types
  first occur in the store, unlike the specification's sorted roots.\<close>

theorem snipp_roots_unsorted:
  "snipp_roots \<lparr>shell_scripts = [],
      snipps = [\<lparr>name = ''loop'', content = Some ''for'', created = ''t'', tags = None, contentType = Some ''python''\<rparr>,
                \<lparr>name = ''echo'', content = Some ''echo'', created = ''t'', tags = None, contentType = Some ''bash''\<rparr>],
      terminal_snipps = []\<rparr> = [SGroup (Some ''python''), SGroup (Some ''bash'')]"
  by (simp add: snipp_roots_def snipp_types_def js_filter_first_occurrence)

subsection \<open>Commands\<close>

text \<open>C18. Deleting a snippet asks for no confirmation: a snippet with truthy
  content is removed together with every stored copy equal to it; a snippet with
  absent or empty content, like a group, is refused with the group error and the
  store is unchanged.\<close>

theorem snipp_delete_store:
  "snipp_deleteEntry (SSnipp t) st =
     (if no_content t then (st, [ShowError (''You can'' @ apostrophe @ ''t delete a snippet group!'')])
      else (st\<lparr>snipps := filter (\<lambda>s. s \<noteq> t) (snipps st)\<rparr>, [ShowInfo ''Snipp deleted'', Refresh AllSnipps])) \<and>
   snipp_deleteEntry (SGroup g) st = (st, [ShowError (''You can'' @ apostrophe @ ''t delete a snippet group!'')])"
  by (simp add: snipp_deleteEntry_def Let_def)

text \<open>C20. Inserting a snippet: with no open editor an error; with an editor, a
  snippet that has a \<open>content\<close> property inserts it at the cursor (the empty string
  included); a group, an action or a snippet without \<open>content\<close> gets the
  choose-a-snippet error.  The store is never changed.\<close>

theorem snipp_insert_cases:
  "snipp_insertEntry h e st =
     (st, [if \<not> active_editor h then ShowError ''Please open a file to insert a Snipp''
           else case e of
             SSnipp s \<Rightarrow> (case content s of Some c \<Rightarrow> InsertAtCursor c
                          | None \<Rightarrow> ShowError ''Please choose a Snipp instead of a group'')
           | _ \<Rightarrow> ShowError ''Please choose a Snipp instead of a group''])"
  unfolding snipp_insertEntry_def isSnipp_def snode_has_content by (cases e) (auto split: option.splits)

text \<open>C29. Tags round trip through the edit form's tag field: for tags that are
  trimmed, at least two characters long and free of \<open>+\<close>, parsing their
  \<open>+\<close>-joined text gives them back.  A text without \<open>+\<close> is one tag (or none when
  it is shorter than two characters after trimming): a \<open>|\<close> does not separate
  tags, although the specification describes pipe-delimited tags.\<close>

theorem parse_tags_plus_only:
  "((\<forall>x\<in>set ts. js_trim x = x \<and> 2 \<le> length x \<and> CHR ''+'' \<notin> set x) \<longrightarrow> parse_tags (js_join ''+'' ts) = ts) \<and>
   (CHR ''+'' \<notin> set t \<longrightarrow> parse_tags t = (if 2 \<le> length (js_trim t) then [js_trim t] else []))"
proof (intro conjI impI)
  assume ts: "\<forall>x\<in>set ts. js_trim x = x \<and> 2 \<le> length x \<and> CHR ''+'' \<notin> set x"
  show "parse_tags (js_join ''+'' ts) = ts"
  proof (cases "ts = []")
    case True
    then show ?thesis by (simp add: parse_tags_def js_trim_def)
  next
    case False
    then have "js_split (CHR ''+'') (js_join ''+'' ts) = ts"
      using ts js_split_join_inv[of ts "CHR ''+''"] by simp
    moreover have "map js_trim ts = ts" using ts by (simp add: map_idI)
    ultimately show ?thesis using ts by (simp add: parse_tags_def)
  qed
next
  assume "CHR ''+'' \<notin> set t"
  then show "parse_tags t = (if 2 \<le> length (js_trim t) then [js_trim t] else [])"
    by (simp add: parse_tags_def js_split_no_sep_id)
qed

lemma parse_tags_plus_only_witness:
  "js_trim ''web'' = ''web'' \<and> 2 \<le> length ''web'' \<and> CHR ''+'' \<notin> set ''web'' \<and>
   js_trim ''api'' = ''api'' \<and> 2 \<le> length ''api'' \<and> CHR ''+'' \<notin> set ''api'' \<and>
   parse_tags (js_join ''+'' [''web'', ''api'']) = [''web'', ''api''] \<and>
   CHR ''+'' \<notin> set ''web|ui'' \<and> parse_tags ''web|ui'' = [''web|ui'']"
proof -
  have a: "\<forall>x\<in>set [''web'', ''api'']. js_trim x = x \<and> 2 \<le> length x \<and> CHR ''+'' \<notin> set x"
    by code_simp
  have b: "CHR ''+'' \<notin> set ''web|ui''" by simp
  have t: "js_trim ''web|ui'' = ''web|ui''" by code_simp
  have w: "js_trim ''web'' = ''web''" and p: "js_trim ''api'' = ''api''" by code_simp+
  show ?thesis
    using parse_tags_plus_only[of "[''web'', ''api'']" "''web|ui''"] a b t w p by simp
qed

text \<open>C30. Rendering the snippet tree fails exactly when a stored snippet has no
  \<open>contentType\<close>: the tree item of an element throws a \<open>TypeError\<close> (in
  \<open>group.name.toUpperCase()\<close>) only for the group whose name is \<open>undefined\<close>, and
  that group is among the roots exactly when such a snippet is stored.\<close>

theorem snipp_group_undefined_throws:
  "(isl (snipp_getTreeItem e) \<longleftrightarrow> e = SGroup None) \<and>
   ((\<exists>g\<in>set (snipp_roots st). isl (snipp_getTreeItem g)) \<longleftrightarrow> (\<exists>s\<in>set (snipps st). contentType s = None))"
proof
  show e: "isl (snipp_getTreeItem e) \<longleftrightarrow> e = SGroup None" for e
    by (simp add: snipp_getTreeItem_def split: snode.splits option.splits)
  have "set (snipp_roots st) = SGroup ` contentType ` set (snipps st)"
    by (simp add: snipp_roots_def snipp_types_def js_filter_first_occurrence image_image)
  then show "(\<exists>g\<in>set (snipp_roots st). isl (snipp_getTreeItem g)) \<longleftrightarrow> (\<exists>s\<in>set (snipps st). contentType s = None)"
    by (force simp: e image_iff)
qed


text \<open>Saving a snippet edit writes back the snippet collection captured when
  the panel opened, with the edited snippet (truthy name and content applied, a
  truthy tag string parsed at \<open>+\<close>) at the index found then, or the snapshot
  unchanged when the target was not found; the current collection is not read.\<close>

theorem snipp_edit_writes_snapshot:
  "snipps (fst (snipp_edit_message es (Save n c tg) st)) =
     (if 0 \<le> es_index es \<and> es_index es < int (length (es_snapshot es))
      then (es_snapshot es)[nat (es_index es) := edited_snipp n c tg (es_target es)]
      else es_snapshot es) \<and>
   shell_scripts (fst (snipp_edit_message es (Save n c tg) st)) = shell_scripts st \<and>
   terminal_snipps (fst (snipp_edit_message es (Save n c tg) st)) = terminal_snipps st"
  by (simp add: snipp_edit_message_def Let_def js_map_idx_replace)

text \<open>C28. Every child of a snippet is an action whose tree item runs one of the
  commands \<open>allSnipps.insertEntry\<close>, \<open>editEntry\<close> or \<open>deleteEntry\<close> with that
  snippet as its argument (the action's \<open>snipp\<close> property), so a click acts on the
  snippet it was shown under.\<close>

theorem snipp_actions_target:
  "\<forall>a\<in>set (snipp_getChildren ck st (Some (SSnipp s))).
     \<exists>l c i. snipp_getTreeItem a =
       Inr \<lparr>si_label = l, si_collapsed = False, si_icon = i, si_context = ''editorActionItem'',
            si_command = Some (c, SSnipp s), si_tooltip = Some (''Click to '' @ to_lower l)\<rparr> \<and>
       c \<in> {''allSnipps.insertEntry'', ''allSnipps.editEntry'', ''allSnipps.deleteEntry''}"
  by (auto simp: snipp_children_SSnipp snipp_action_specs_def snipp_getTreeItem_def)

lemma snipp_actions_target_witness:
  "snipp_getChildren (\<lambda>x::string. x) \<lparr>shell_scripts = [], snipps = [], terminal_snipps = []\<rparr> (Some (SSnipp \<lparr>name = ''loop'', content = Some ''for'', created = ''t'', tags = None, contentType = Some ''python''\<rparr>)) \<noteq> [] \<and>
   (\<exists>l c i. snipp_getTreeItem (hd (snipp_getChildren (\<lambda>x::string. x) \<lparr>shell_scripts = [], snipps = [], terminal_snipps = []\<rparr> (Some (SSnipp \<lparr>name = ''loop'', content = Some ''for'', created = ''t'', tags = None, contentType = Some ''python''\<rparr>)))) =
       Inr \<lparr>si_label = l, si_collapsed = False, si_icon = i, si_context = ''editorActionItem'',
            si_command = Some (c, SSnipp \<lparr>name = ''loop'', content = Some ''for'', created = ''t'', tags = None, contentType = Some ''python''\<rparr>),
            si_tooltip = Some (''Click to '' @ to_lower l)\<rparr> \<and>
       c \<in> {''allSnipps.insertEntry'', ''allSnipps.editEntry'', ''allSnipps.deleteEntry''})"
  using snipp_actions_target[of "\<lambda>x::string. x" "\<lparr>shell_scripts = [], snipps = [], terminal_snipps = []\<rparr>" "\<lparr>name = ''loop'', content = Some ''for'', created = ''t'', tags = None, contentType = Some ''python''\<rparr>"]
  by (simp add: snipp_children_SSnipp snipp_action_specs_def)

end
