(* ===== verification/TerminalSnipp.thy ===== *)
theory TerminalSnipp
  imports Snipp
begin

text \<open>
  The terminal snippet view, \<open>src/src/providers/TerminalSnippProvider.ts\<close>.  Its
  elements are stored \<open>Snipp\<close>s and \<open>TerminalActionItem\<close>s holding the element
  they were made from (\<open>tnode\<close>).  \<open>TerminalSnippModel.roots\<close> (lines 18--23)
  is \<open>term_roots\<close>, the provider's \<open>getChildren\<close> (90--124) \<open>term_getChildren\<close>,
  \<open>getTreeItem\<close> (47--88) \<open>term_getTreeItem\<close>; the commands of
  \<open>TerminalSnippExplorer\<close> (lines 151--249) follow.
\<close>

datatype tnode =
    TSnipp snipp
  | TAction string string string tnode

primrec tnode_json :: "tnode \<Rightarrow> jval" where
  "tnode_json (TSnipp s) = json_of_snipp s"
| "tnode_json (TAction l c i e) =
     JObj [(''label'', JStr l), (''command'', JStr c), (''icon'', JStr i), (''snipp'', tnode_json e)]"

definition term_roots :: "(string \<Rightarrow> 'k::linorder) \<Rightarrow> gstate \<Rightarrow> snipp list" where
  "term_roots ck st = sort_key (\<lambda>s. ck (name s)) (terminal_snipps st)"

definition term_action_specs :: "(string \<times> string \<times> string) list" where
  "term_action_specs =
     [(''Run'', ''terminalSnipps.insertEntry'', ''play''),
      (''Edit'', ''terminalSnipps.editEntry'', ''edit''),
      (''Delete'', ''terminalSnipps.deleteEntry'', ''trash'')]"

definition term_getChildren :: "(string \<Rightarrow> 'k::linorder) \<Rightarrow> gstate \<Rightarrow> tnode option \<Rightarrow> tnode list" where
  "term_getChildren ck st el =
     (case el of
        None \<Rightarrow> map TSnipp (term_roots ck st)
      | Some e \<Rightarrow>
          if js_in ''content'' (tnode_json e) \<and> \<not> js_in ''snipp'' (tnode_json e)
          then map (\<lambda>(l, c, i). TAction l c i e) term_action_specs
          else [])"

text \<open>The tooltip of a terminal snippet, a markdown string.\<close>

definition term_tooltip :: "snipp \<Rightarrow> string" where
  "term_tooltip s =
     ''**'' @ name s @ ''** - Terminal Command'' @ [nl, nl] @
     (if js_truthy (content s)
      then ''**Command:**'' @ [nl] @ ''```bash'' @ [nl] @ the (content s) @ [nl] @ ''```'' @ [nl, nl]
      else ''**Command:** No content available'' @ [nl, nl]) @
     ''*Expand to see action buttons*''"

text \<open>The tree item; as in the other
  providers the test \<open>'command' in e && 'snipp' in e\<close> holds exactly for action
  items.\<close>

definition term_getTreeItem :: "tnode \<Rightarrow> tnode snipp_item" where
  "term_getTreeItem e =
     (case e of
        TAction l c i t \<Rightarrow>
          \<lparr>si_label = l, si_collapsed = False, si_icon = i, si_context = ''terminalActionItem'',
           si_command = Some (c, t), si_tooltip = Some (''Click to '' @ to_lower l)\<rparr>
      | TSnipp s \<Rightarrow>
          \<lparr>si_label = or_default (name s) ''Unnamed Command'', si_collapsed = True,
           si_icon = ''terminal'', si_context = ''terminalSnipp'', si_command = None,
           si_tooltip = Some (term_tooltip s)\<rparr>)"

subsection \<open>Commands\<close>

definition term_refreshEntry :: "gstate \<Rightarrow> gstate \<times> effect list" where
  "term_refreshEntry st = (st, [Refresh TerminalSnipps])"

text \<open>\<open>terminalSnipps.deleteEntry\<close>: no confirmation and no content check.\<close>

definition term_deleteEntry :: "snipp \<Rightarrow> gstate \<Rightarrow> gstate \<times> effect list" where
  "term_deleteEntry t st =
     (st\<lparr>terminal_snipps := filter (\<lambda>s. \<not> same_snipp s t) (terminal_snipps st)\<rparr>,
      [ShowInfo ''Terminal Snippet Removed'', Refresh TerminalSnipps])"

text \<open>\<open>terminalSnipps.insertEntry\<close> (the Run action): the content goes to the
  active terminal as it is; there is no content check, so an absent content is
  passed as \<open>sendText(undefined)\<close> (the effect \<open>SendTextUndefined\<close>; what the host
  then does is outside the model).\<close>

definition term_send :: "snipp \<Rightarrow> effect" where
  "term_send s = (case content s of Some c \<Rightarrow> SendText c | None \<Rightarrow> SendTextUndefined)"

definition term_insertEntry :: "host \<Rightarrow> snipp \<Rightarrow> gstate \<Rightarrow> gstate \<times> effect list" where
  "term_insertEntry h s st =
     (if active_terminal h then (st, [ShowTerminal, term_send s])
      else (st, [ShowError ''Please open a terminal instance to insert this snippet.'']))"

text \<open>\<open>terminalSnipps.editEntry\<close>: as for shell scripts, the snapshot and index
  are taken when the panel opens; \<open>save\<close> carries \<open>{name, content}\<close>.\<close>

definition term_editEntry :: "snipp \<Rightarrow> gstate \<Rightarrow> snipp edit_session \<times> effect list" where
  "term_editEntry s st =
     (let xs = terminal_snipps st in
      (\<lparr>es_snapshot = xs, es_index = js_findIndex (\<lambda>x. same_snipp x s) xs, es_target = s\<rparr>,
       [OpenWebview ''snippetEditor'' (''Edit: '' @ name s) []]))"

definition term_edit_message :: "snipp edit_session \<Rightarrow> form_message \<Rightarrow> gstate \<Rightarrow> gstate \<times> effect list" where
  "term_edit_message es msg st =
     (case msg of
        Save n c _ \<Rightarrow>
          (let s' = (es_target es)\<lparr>name := apply_if_truthy n (name (es_target es)),
                                    content := apply_if_truthy_opt c (content (es_target es))\<rparr>;
               updated = js_map_idx (\<lambda>i e. if int i = es_index es then s' else e) 0 (es_snapshot es)
           in (st\<lparr>terminal_snipps := updated\<rparr>,
               [DisposePanel, Refresh TerminalSnipps, ShowInfo ''Terminal Snippet Updated!'']))
      | _ \<Rightarrow> (st, []))"


subsection \<open>Helper lemmas\<close>

lemma tnode_has_content: "js_in ''content'' (tnode_json e) \<longleftrightarrow> (\<exists>s. e = TSnipp s \<and> content s \<noteq> None)"
  by (cases e) (simp_all add: snipp_json_keys, simp_all add: js_in_def)

lemma tnode_has_snipp: "js_in ''snipp'' (tnode_json e) \<longleftrightarrow> (\<exists>l c i t. e = TAction l c i t)"
  by (cases e) (simp_all add: snipp_json_keys, simp_all add: js_in_def)

lemma tnode_action_test:
  "js_in ''command'' (tnode_json e) \<and> js_in ''snipp'' (tnode_json e) \<longleftrightarrow> (\<exists>l c i t. e = TAction l c i t)"
  by (cases e) (simp_all add: snipp_json_keys, simp_all add: js_in_def)

subsection \<open>Properties\<close>

text \<open>C16. Classification of terminal snippet elements: a stored snippet with a
  \<open>content\<close> property has exactly the Run, Edit and Delete actions bound to it, a
  snippet without one has no children, and an action item has none.\<close>

theorem term_children_classify:
  "term_getChildren ck st (Some (TSnipp s)) =
     (if content s = None then []
      else [TAction ''Run'' ''terminalSnipps.insertEntry'' ''play'' (TSnipp s),
            TAction ''Edit'' ''terminalSnipps.editEntry'' ''edit'' (TSnipp s),
            TAction ''Delete'' ''terminalSnipps.deleteEntry'' ''trash'' (TSnipp s)]) \<and>
   term_getChildren ck st (Some (TAction l c i t)) = []"
  unfolding term_getChildren_def tnode_has_content tnode_has_snipp
  by (simp add: term_action_specs_def)

text \<open>The roots of the terminal snippet tree are the stored terminal snippets
  sorted by the locale order of their names, a permutation of the store.\<close>

theorem term_roots_sorted_perm:
  "sorted (map (\<lambda>s. ck (name s)) (term_roots ck st)) \<and> mset (term_roots ck st) = mset (terminal_snipps st)"
  by (simp add: term_roots_def)

text \<open>Deleting a terminal snippet asks for no confirmation: it removes every
  stored copy equal to the target at once, reports and refreshes.\<close>

theorem term_delete_store:
  "term_deleteEntry t st =
     (st\<lparr>terminal_snipps := filter (\<lambda>s. s \<noteq> t) (terminal_snipps st)\<rparr>,
      [ShowInfo ''Terminal Snippet Removed'', Refresh TerminalSnipps])"
  by (simp add: term_deleteEntry_def)

text \<open>C19. Running a terminal snippet needs an open terminal, else it reports an
  error; with one it shows the terminal and sends the content unchanged, and a
  snippet without content is sent as \<open>undefined\<close> instead of being refused.\<close>

theorem term_insert_cases:
  "term_insertEntry h s st =
     (st, if active_terminal h
          then [ShowTerminal, case content s of Some c \<Rightarrow> SendText c | None \<Rightarrow> SendTextUndefined]
          else [ShowError ''Please open a terminal instance to insert this snippet.''])"
  by (simp add: term_insertEntry_def term_send_def)

text \<open>Saving a terminal snippet edit writes back the collection as it was when
  the panel opened, with the edited snippet (truthy fields applied) at the index
  found then; the collection current at save time is not read.\<close>

theorem term_edit_writes_snapshot:
  "terminal_snipps (fst (term_edit_message es (Save n c x) st)) =
     (if 0 \<le> es_index es \<and> es_index es < int (length (es_snapshot es))
      then (es_snapshot es)[nat (es_index es) :=
              (es_target es)\<lparr>name := apply_if_truthy n (name (es_target es)),
                             content := apply_if_truthy_opt c (content (es_target es))\<rparr>]
      else es_snapshot es)"
  by (simp add: term_edit_message_def Let_def js_map_idx_replace)

end
