(* ===== verification/Session.thy ===== *)
theory Session
  imports TerminalSnipp
begin

text \<open>
  The extension as one state machine.  Its state is the store and the webview
  panels that are open and still listening for messages: the creation form of
  \<open>AddBashScriptForm\<close> and the three kinds of edit panel, each holding what its
  handler captured when it was opened.  An \<open>event\<close> is a command invoked from the
  tree or the command palette, a message posted by the \<open>i\<close>-th open panel, or the
  user closing a panel.  A handler that disposes its panel (\<open>DisposePanel\<close>)
  removes it.  \<open>ext_step\<close> dispatches each event to the component definitions;
  \<open>ext_run\<close> runs a sequence of events; \<open>reachable\<close> is the set of states reached
  from a store whose scripts are well formed, under any host facts at each step.
  The event loop is single-threaded (spec, section 5), so interleaving is the order
  of events in this sequence.  \<open>refreshes\<close> tells which effects refresh which
  tree view, so that the refreshes a step causes can be counted.
\<close>

datatype panel =
    AddScriptPanel
  | BashEditPanel "item edit_session"
  | SnippEditPanel "snipp edit_session"
  | TermEditPanel "snipp edit_session"

record ext_state =
  store :: gstate
  panels :: "panel list"

datatype event =
    BashCreate
  | BashAdd "(string \<times> (string + string)) list option"
  | BashDelete "string option" item
  | BashRefresh
  | BashPreview item
  | BashRun item
  | BashEdit item
  | SnippRefresh
  | SnippAdd
  | SnippDelete snode
  | SnippInsert snode
  | SnippEdit snode
  | TermRefresh
  | TermDelete snipp
  | TermInsert snipp
  | TermEdit snipp
  | PanelMessage nat form_message
  | ClosePanel nat

fun panel_message :: "host \<Rightarrow> panel \<Rightarrow> form_message \<Rightarrow> gstate \<Rightarrow> gstate \<times> effect list" where
  "panel_message h AddScriptPanel m st = add_form_message h m st"
| "panel_message h (BashEditPanel es) m st = bash_edit_message es m st"
| "panel_message h (SnippEditPanel es) m st = snipp_edit_message es m st"
| "panel_message h (TermEditPanel es) m st = term_edit_message es m st"

definition remove_nth :: "nat \<Rightarrow> 'a list \<Rightarrow> 'a list" where
  "remove_nth i xs = take i xs @ drop (Suc i) xs"

definition on_store :: "ext_state \<Rightarrow> gstate \<times> effect list \<Rightarrow> ext_state \<times> effect list" where
  "on_store s r = (s\<lparr>store := fst r\<rparr>, snd r)"

definition open_panel :: "ext_state \<Rightarrow> panel \<Rightarrow> effect list \<Rightarrow> ext_state \<times> effect list" where
  "open_panel s p eff = (s\<lparr>panels := panels s @ [p]\<rparr>, eff)"

fun ext_step :: "host \<Rightarrow> ext_state \<Rightarrow> event \<Rightarrow> ext_state \<times> effect list" where
  "ext_step h s BashCreate = open_panel s AddScriptPanel [OpenWebview ''addBashScript'' ''Add Shell Script'' []]"
| "ext_step h s (BashAdd chosen) = on_store s (bash_addEntry h chosen (store s))"
| "ext_step h s (BashDelete a t) = on_store s (bash_deleteEntry a t (store s))"
| "ext_step h s BashRefresh = on_store s (bash_refreshEntry (store s))"
| "ext_step h s (BashPreview t) = on_store s (bash_previewEntry (locale_date h) t (store s))"
| "ext_step h s (BashRun t) = on_store s (bash_runEntry h t (store s))"
| "ext_step h s (BashEdit t) =
     (let (es, eff) = bash_editEntry t (store s) in open_panel s (BashEditPanel es) eff)"
| "ext_step h s SnippRefresh = on_store s (snipp_refreshEntry (store s))"
| "ext_step h s SnippAdd = on_store s (snipp_addEntry (store s))"
| "ext_step h s (SnippDelete e) = on_store s (snipp_deleteEntry e (store s))"
| "ext_step h s (SnippInsert e) = on_store s (snipp_insertEntry h e (store s))"
| "ext_step h s (SnippEdit e) =
     (case snipp_editEntry e (store s) of
        (None, eff) \<Rightarrow> (s, eff)
      | (Some es, eff) \<Rightarrow> open_panel s (SnippEditPanel es) eff)"
| "ext_step h s TermRefresh = on_store s (term_refreshEntry (store s))"
| "ext_step h s (TermDelete t) = on_store s (term_deleteEntry t (store s))"
| "ext_step h s (TermInsert t) = on_store s (term_insertEntry h t (store s))"
| "ext_step h s (TermEdit t) =
     (let (es, eff) = term_editEntry t (store s) in open_panel s (TermEditPanel es) eff)"
| "ext_step h s (PanelMessage i m) =
     (if i < length (panels s)
      then (let (st', eff) = panel_message h (panels s ! i) m (store s)
            in (\<lparr>store = st', panels = (if DisposePanel \<in> set eff then remove_nth i (panels s) else panels s)\<rparr>, eff))
      else (s, []))"
| "ext_step h s (ClosePanel i) = (s\<lparr>panels := remove_nth i (panels s)\<rparr>, [])"

fun ext_run :: "host \<Rightarrow> ext_state \<Rightarrow> event list \<Rightarrow> ext_state \<times> effect list" where
  "ext_run h s [] = (s, [])"
| "ext_run h s (ev # evs) =
     (let (s1, e1) = ext_step h s ev; (s2, e2) = ext_run h s1 evs in (s2, e1 @ e2))"

text \<open>An effect that refreshes a tree view: the provider's \<open>refresh()\<close> (its
  \<open>_onDidChangeTreeData.fire()\<close>), or the view's \<open>refreshEntry\<close> command, which
  the creation form runs through \<open>vscode.commands.executeCommand\<close>.\<close>

fun refreshes :: "view \<Rightarrow> effect \<Rightarrow> bool" where
  "refreshes v (Refresh w) = (v = w)"
| "refreshes BashShells (ExecuteCommand c) = (c = ''bashShells.refreshEntry'')"
| "refreshes AllSnipps (ExecuteCommand c) = (c = ''allSnipps.refreshEntry'')"
| "refreshes TerminalSnipps (ExecuteCommand c) = (c = ''terminalSnipps.refreshEntry'')"
| "refreshes v _ = False"

definition refresh_count :: "view \<Rightarrow> effect list \<Rightarrow> nat" where
  "refresh_count v eff = length (filter (refreshes v) eff)"

subsection \<open>Reachable states\<close>

text \<open>A shell script as every creating path of the code makes it: content present
  and the tag list empty.\<close>

definition wf_script :: "item \<Rightarrow> bool" where
  "wf_script x \<longleftrightarrow> content x \<noteq> None \<and> tags x = Some []"

inductive reachable :: "ext_state \<Rightarrow> bool" where
  init: "list_all wf_script (shell_scripts st) \<Longrightarrow> reachable \<lparr>store = st, panels = []\<rparr>"
| step: "reachable s \<Longrightarrow> reachable (fst (ext_step h s ev))"

text \<open>What an edit handler captured is consistent: the index it found points at the
  target when it is not negative, and is negative only when the target is not in
  the snapshot.\<close>

definition session_ok :: "'a edit_session \<Rightarrow> bool" where
  "session_ok es \<longleftrightarrow>
     (0 \<le> es_index es \<longrightarrow> nat (es_index es) < length (es_snapshot es) \<and>
                          es_snapshot es ! nat (es_index es) = es_target es) \<and>
     (es_index es < 0 \<longrightarrow> es_target es \<notin> set (es_snapshot es))"

text \<open>The invariant behind the reachable states: stored scripts are well formed,
  every open edit panel's capture is consistent, and a shell-script edit panel
  holds a well-formed snapshot.\<close>

definition panel_inv :: "panel \<Rightarrow> bool" where
  "panel_inv p =
     (case p of
        AddScriptPanel \<Rightarrow> True
      | BashEditPanel es \<Rightarrow> list_all wf_script (es_snapshot es) \<and> session_ok es
      | SnippEditPanel es \<Rightarrow> session_ok es
      | TermEditPanel es \<Rightarrow> session_ok es)"

definition ext_inv :: "ext_state \<Rightarrow> bool" where
  "ext_inv s \<longleftrightarrow> list_all wf_script (shell_scripts (store s)) \<and> list_all panel_inv (panels s)"

subsection \<open>Helper lemmas\<close>

lemma list_all_remove_nth: "list_all P xs \<Longrightarrow> list_all P (remove_nth i xs)"
  by (auto simp: remove_nth_def list_all_iff dest: in_set_takeD in_set_dropD)

lemma list_all_filter: "list_all P xs \<Longrightarrow> list_all P (filter Q xs)"
  by (simp add: list_all_iff)

lemma bash_read_files_wf: "list_all wf_script (fst (bash_read_files t fs))"
  by (induction t fs rule: bash_read_files.induct) (auto simp: wf_script_def split: prod.splits sum.splits)

lemma bash_addEntry_wf:
  "list_all wf_script (shell_scripts st) \<Longrightarrow> list_all wf_script (shell_scripts (fst (bash_addEntry h ch st)))"
  by (auto simp: bash_addEntry_def split: option.splits prod.splits) (metis bash_read_files_wf fst_conv)

lemma store_only_shell:
  "shell_scripts (fst (snipp_deleteEntry e st)) = shell_scripts st"
  "shell_scripts (fst (snipp_insertEntry h e st)) = shell_scripts st"
  "shell_scripts (fst (snipp_refreshEntry st)) = shell_scripts st"
  "shell_scripts (fst (snipp_addEntry st)) = shell_scripts st"
  "shell_scripts (fst (term_deleteEntry t st)) = shell_scripts st"
  "shell_scripts (fst (term_insertEntry h t st)) = shell_scripts st"
  "shell_scripts (fst (term_refreshEntry st)) = shell_scripts st"
  "shell_scripts (fst (snipp_edit_message es m st)) = shell_scripts st"
  "shell_scripts (fst (term_edit_message es' m st)) = shell_scripts st"
  "fst (bash_previewEntry f x st) = st"
  "fst (bash_runEntry h x st) = st"
  "fst (bash_refreshEntry st) = st"
  by (auto simp: snipp_deleteEntry_def snipp_insertEntry_def snipp_refreshEntry_def snipp_addEntry_def
      term_deleteEntry_def term_insertEntry_def term_refreshEntry_def snipp_edit_message_def
      term_edit_message_def bash_previewEntry_def bash_runEntry_def bash_executeEntry_def
      bash_refreshEntry_def Let_def split: snode.splits form_message.splits)

lemma session_ok_findIndex:
  "session_ok \<lparr>es_snapshot = xs, es_index = js_findIndex (\<lambda>x. x = t) xs, es_target = t\<rparr>"
  using js_findIndex_found[of "\<lambda>x. x = t" xs] js_findIndex_range[of "\<lambda>x. x = t" xs]
    js_findIndex_neg_iff[of "\<lambda>x. x = t" xs]
  by (simp add: session_ok_def)

lemma bash_editEntry_inv:
  "list_all wf_script (shell_scripts st) \<Longrightarrow> panel_inv (BashEditPanel (fst (bash_editEntry t st)))"
  by (simp add: panel_inv_def bash_editEntry_def Let_def session_ok_findIndex)

lemma snipp_editEntry_inv:
  "snipp_editEntry e st = (Some es, eff) \<Longrightarrow> panel_inv (SnippEditPanel es)"
  by (auto simp: panel_inv_def snipp_editEntry_def Let_def session_ok_findIndex
      split: snode.splits if_splits)

lemma term_editEntry_inv: "panel_inv (TermEditPanel (fst (term_editEntry t st)))"
  by (simp add: panel_inv_def term_editEntry_def Let_def session_ok_findIndex)

lemma edited_script_wf: "wf_script x \<Longrightarrow> wf_script (edited_script n c x)"
  by (auto simp: wf_script_def edited_script_def apply_if_truthy_opt_def js_truthy_def split: option.splits)

lemma bash_edit_message_wf:
  "panel_inv (BashEditPanel es) \<Longrightarrow> list_all wf_script (shell_scripts st) \<Longrightarrow>
   list_all wf_script (shell_scripts (fst (bash_edit_message es m st)))"
proof (cases m)
  case (Save n c x)
  assume p: "panel_inv (BashEditPanel es)"
  have "list_all wf_script ((es_snapshot es)[nat (es_index es) := edited_script n c (es_target es)])"
    if "0 \<le> es_index es" "es_index es < int (length (es_snapshot es))"
  proof -
    from p that have "nat (es_index es) < length (es_snapshot es)"
      "es_snapshot es ! nat (es_index es) = es_target es" "\<forall>x\<in>set (es_snapshot es). wf_script x"
      by (auto simp: panel_inv_def session_ok_def list_all_iff)
    then have "wf_script (es_target es)" by (metis nth_mem)
    then have "wf_script (edited_script n c (es_target es))" by (rule edited_script_wf)
    with p show ?thesis
      by (auto simp: panel_inv_def list_all_iff dest: set_update_subset_insert[THEN subsetD])
  qed
  with p Save show ?thesis
    by (simp add: bash_edit_message_def Let_def js_map_idx_replace panel_inv_def)
qed (simp_all add: bash_edit_message_def)

lemma add_form_message_wf:
  "list_all wf_script (shell_scripts st) \<Longrightarrow> list_all wf_script (shell_scripts (fst (add_form_message h m st)))"
  by (auto simp: add_form_message_def wf_script_def js_truthy_def split: form_message.splits option.splits)

lemma panel_message_inv:
  "panel_inv p \<Longrightarrow> list_all wf_script (shell_scripts st) \<Longrightarrow>
   list_all wf_script (shell_scripts (fst (panel_message h p m st)))"
  by (cases p) (simp_all add: add_form_message_wf bash_edit_message_wf store_only_shell)

lemma bash_read_files_no_refresh: "bash_read_files t fs = (ss, es) \<Longrightarrow> refresh_count v es = 0"
proof (induction t fs arbitrary: ss es rule: bash_read_files.induct)
  case (2 t p r fs)
  then show ?case by (auto simp: refresh_count_def split: prod.splits sum.splits)
qed (simp add: refresh_count_def)

lemma panel_message_refresh:
  "(shell_scripts (fst (panel_message h p m st)) \<noteq> shell_scripts st \<longrightarrow>
      refresh_count BashShells (snd (panel_message h p m st)) = 1) \<and>
   (snipps (fst (panel_message h p m st)) \<noteq> snipps st \<longrightarrow>
      refresh_count AllSnipps (snd (panel_message h p m st)) = 1) \<and>
   (terminal_snipps (fst (panel_message h p m st)) \<noteq> terminal_snipps st \<longrightarrow>
      refresh_count TerminalSnipps (snd (panel_message h p m st)) = 1)"
  by (cases p; cases m)
    (simp_all add: refresh_count_def add_form_message_def bash_edit_message_def snipp_edit_message_def
      term_edit_message_def Let_def)

lemma ext_step_inv: "ext_inv s \<Longrightarrow> ext_inv (fst (ext_step h s ev))"
proof (cases ev)
  case (PanelMessage i m)
  assume inv: "ext_inv s"
  show ?thesis
  proof (cases "i < length (panels s)")
    case True
    then have "panel_inv (panels s ! i)" using inv by (simp add: ext_inv_def list_all_length)
    then show ?thesis
      using inv True PanelMessage panel_message_inv[of "panels s ! i" "store s" h m]
      by (auto simp: ext_inv_def list_all_remove_nth split: prod.splits)
  qed (simp add: PanelMessage inv)
next
  case (BashEdit t)
  then show "ext_inv s \<Longrightarrow> ?thesis"
    using bash_editEntry_inv[of "store s" t]
    by (auto simp: ext_inv_def open_panel_def split: prod.splits)
next
  case (SnippEdit e)
  then show "ext_inv s \<Longrightarrow> ?thesis"
    by (auto simp: ext_inv_def open_panel_def store_only_shell dest: snipp_editEntry_inv
        split: prod.splits option.splits)
next
  case (TermEdit t)
  then show "ext_inv s \<Longrightarrow> ?thesis"
    using term_editEntry_inv[of t "store s"]
    by (auto simp: ext_inv_def open_panel_def split: prod.splits)
qed (auto simp: ext_inv_def on_store_def open_panel_def store_only_shell bash_addEntry_wf
      list_all_remove_nth panel_inv_def bash_deleteEntry_def Let_def list_all_filter
      split: prod.splits option.splits)

lemma ext_run_Cons_fst:
  "fst (ext_run h s (ev # evs)) = fst (ext_run h (fst (ext_step h s ev)) evs)"
  by (simp split: prod.split)

lemma reachable_inv: "reachable s \<Longrightarrow> ext_inv s"
proof (induction rule: reachable.induct)
  case (init st)
  then show ?case by (simp add: ext_inv_def)
next
  case (step s h ev)
  from step.IH show ?case by (rule ext_step_inv)
qed

subsection \<open>Interleaving of edits with other commands\<close>

text \<open>C7. Lost update: open the edit panel of a script, then create a new script
  through the creation form, then save the edit.  The creation is stored, and the
  save writes back the collection as it was when the edit panel opened (with the
  edited script in place of the first copy of the target), so the script created
  in between is gone.  The specification requires each read-modify-write to
  re-read the store immediately before writing.\<close>

theorem bash_edit_lost_update:
  fixes x :: item and st :: gstate and h :: host
  assumes "js_truthy n" "js_truthy c"
  defines "s3 \<equiv> fst (ext_run h \<lparr>store = st, panels = []\<rparr>
                 [BashEdit x, BashCreate, PanelMessage 1 (Save n c None)])"
  shows "shell_scripts (store s3) =
           shell_scripts st @ [\<lparr>name = the n, content = c, created = now h, tags = Some []\<rparr>] \<and>
         shell_scripts (store (fst (ext_step h s3 (PanelMessage 0 (Save n' c' None))))) =
           (if x \<in> set (shell_scripts st)
            then (shell_scripts st)[nat (js_findIndex (\<lambda>y. y = x) (shell_scripts st)) := edited_script n' c' x]
            else shell_scripts st)"
proof -
  let ?xs = "shell_scripts st"
  let ?i = "js_findIndex (\<lambda>y. y = x) ?xs"
  have s3: "s3 = \<lparr>store = st\<lparr>shell_scripts := ?xs @ [\<lparr>name = the n, content = c, created = now h, tags = Some []\<rparr>]\<rparr>,
                  panels = [BashEditPanel \<lparr>es_snapshot = ?xs, es_index = ?i, es_target = x\<rparr>]\<rparr>"
    using assms(1,2) by (simp add: s3_def bash_editEntry_def open_panel_def add_form_message_def remove_nth_def Let_def)
  have "?i < 0 \<longleftrightarrow> x \<notin> set ?xs" by (simp add: js_findIndex_neg_iff)
  moreover have "0 \<le> ?i \<Longrightarrow> nat ?i < length ?xs" by (rule js_findIndex_range)
  ultimately show ?thesis
    by (auto simp: s3 bash_edit_message_def js_map_idx_replace remove_nth_def)
qed

lemma bash_edit_lost_update_witness:
  "js_truthy (Some ''new'') \<and> js_truthy (Some ''ls'') \<and>
   shell_scripts (store (fst (ext_run \<lparr>now = ''t1'', process_cwd = ''/'', workspace_folders = [], active_terminal = False, active_editor = False, locale_date = (\<lambda>d. d)\<rparr> \<lparr>store = \<lparr>shell_scripts = [\<lparr>name = ''deploy'', content = Some ''make'', created = ''t0'', tags = Some []\<rparr>], snipps = [], terminal_snipps = []\<rparr>, panels = []\<rparr>
       [BashEdit \<lparr>name = ''deploy'', content = Some ''make'', created = ''t0'', tags = Some []\<rparr>, BashCreate, PanelMessage 1 (Save (Some ''new'') (Some ''ls'') None)]))) =
     [\<lparr>name = ''deploy'', content = Some ''make'', created = ''t0'', tags = Some []\<rparr>, \<lparr>name = ''new'', content = Some ''ls'', created = ''t1'', tags = Some []\<rparr>] \<and>
   shell_scripts (store (fst (ext_step \<lparr>now = ''t1'', process_cwd = ''/'', workspace_folders = [], active_terminal = False, active_editor = False, locale_date = (\<lambda>d. d)\<rparr> (fst (ext_run \<lparr>now = ''t1'', process_cwd = ''/'', workspace_folders = [], active_terminal = False, active_editor = False, locale_date = (\<lambda>d. d)\<rparr> \<lparr>store = \<lparr>shell_scripts = [\<lparr>name = ''deploy'', content = Some ''make'', created = ''t0'', tags = Some []\<rparr>], snipps = [], terminal_snipps = []\<rparr>, panels = []\<rparr>
       [BashEdit \<lparr>name = ''deploy'', content = Some ''make'', created = ''t0'', tags = Some []\<rparr>, BashCreate, PanelMessage 1 (Save (Some ''new'') (Some ''ls'') None)]))
       (PanelMessage 0 (Save (Some ''deploy2'') None None))))) =
     [\<lparr>name = ''deploy2'', content = Some ''make'', created = ''t0'', tags = Some []\<rparr>]"
  using bash_edit_lost_update[of "Some ''new''" "Some ''ls''" "\<lparr>now = ''t1'', process_cwd = ''/'', workspace_folders = [], active_terminal = False, active_editor = False, locale_date = (\<lambda>d. d)\<rparr>" "\<lparr>shell_scripts = [\<lparr>name = ''deploy'', content = Some ''make'', created = ''t0'', tags = Some []\<rparr>], snipps = [], terminal_snipps = []\<rparr>" "\<lparr>name = ''deploy'', content = Some ''make'', created = ''t0'', tags = Some []\<rparr>" "Some ''deploy2''" None]
  by (simp add: edited_script_def apply_if_truthy_def apply_if_truthy_opt_def)

subsection \<open>Reachable states\<close>

text \<open>C9. In every reachable state every root of the shell-script tree is a stored
  script with an empty tag list that expands to the four actions Preview, Run,
  Edit and Delete: no sequence of commands, form messages and edits, in any order
  and under any host conditions, stores a script without content.\<close>

theorem reachable_roots_have_actions:
  assumes "reachable s" "r \<in> set (bash_getChildren ck (store s) None)"
  shows "\<exists>x. r = BScript x \<and> tags x = Some [] \<and>
           bash_getChildren ck (store s) (Some r) = map (\<lambda>(l, c, i). BAction l c i r) bash_action_specs"
proof -
  from assms(2) obtain x where r: "r = BScript x" and x: "x \<in> set (shell_scripts (store s))"
    by (auto simp: bash_getChildren_def bash_roots_def)
  from reachable_inv[OF assms(1)] x have "wf_script x"
    by (auto simp: ext_inv_def list_all_iff)
  with r show ?thesis
    by (auto simp: wf_script_def bash_getChildren_def script_has_content_iff)
qed

lemma reachable_roots_have_actions_witness:
  "reachable \<lparr>store = \<lparr>shell_scripts = [\<lparr>name = ''deploy'', content = Some ''make'', created = ''t0'', tags = Some []\<rparr>], snipps = [], terminal_snipps = []\<rparr>, panels = []\<rparr> \<and>
   BScript \<lparr>name = ''deploy'', content = Some ''make'', created = ''t0'', tags = Some []\<rparr> \<in> set (bash_getChildren (id :: string \<Rightarrow> string) \<lparr>shell_scripts = [\<lparr>name = ''deploy'', content = Some ''make'', created = ''t0'', tags = Some []\<rparr>], snipps = [], terminal_snipps = []\<rparr> None) \<and>
   bash_getChildren (id :: string \<Rightarrow> string) \<lparr>shell_scripts = [\<lparr>name = ''deploy'', content = Some ''make'', created = ''t0'', tags = Some []\<rparr>], snipps = [], terminal_snipps = []\<rparr> (Some (BScript \<lparr>name = ''deploy'', content = Some ''make'', created = ''t0'', tags = Some []\<rparr>)) =
     map (\<lambda>(l, c, i). BAction l c i (BScript \<lparr>name = ''deploy'', content = Some ''make'', created = ''t0'', tags = Some []\<rparr>)) bash_action_specs"
proof -
  have r: "reachable \<lparr>store = \<lparr>shell_scripts = [\<lparr>name = ''deploy'', content = Some ''make'', created = ''t0'', tags = Some []\<rparr>], snipps = [], terminal_snipps = []\<rparr>, panels = []\<rparr>"
    by (rule reachable.init) (simp add: wf_script_def)
  have m: "BScript \<lparr>name = ''deploy'', content = Some ''make'', created = ''t0'', tags = Some []\<rparr> \<in> set (bash_getChildren (id :: string \<Rightarrow> string) \<lparr>shell_scripts = [\<lparr>name = ''deploy'', content = Some ''make'', created = ''t0'', tags = Some []\<rparr>], snipps = [], terminal_snipps = []\<rparr> None)"
    by (simp add: bash_getChildren_def bash_roots_def)
  from reachable_roots_have_actions[OF r, of "BScript \<lparr>name = ''deploy'', content = Some ''make'', created = ''t0'', tags = Some []\<rparr>" "id :: string \<Rightarrow> string"] m r show ?thesis
    by auto
qed

subsection \<open>Refreshing the views\<close>

text \<open>C33. Every event that changes a collection of the store refreshes that
  collection's tree view exactly once: a changed list of shell scripts comes with
  one refresh of \<open>bashShells\<close>, changed snippets with one refresh of
  \<open>allSnipps\<close>, changed terminal snippets with one refresh of
  \<open>terminalSnipps\<close>, whichever command, form message or panel changed it.\<close>

theorem one_refresh_per_mutation:
  "(shell_scripts (store (fst (ext_step h s ev))) \<noteq> shell_scripts (store s) \<longrightarrow>
      refresh_count BashShells (snd (ext_step h s ev)) = 1) \<and>
   (snipps (store (fst (ext_step h s ev))) \<noteq> snipps (store s) \<longrightarrow>
      refresh_count AllSnipps (snd (ext_step h s ev)) = 1) \<and>
   (terminal_snipps (store (fst (ext_step h s ev))) \<noteq> terminal_snipps (store s) \<longrightarrow>
      refresh_count TerminalSnipps (snd (ext_step h s ev)) = 1)"
proof (cases ev)
  case (PanelMessage i m)
  then show ?thesis
    using panel_message_refresh[of h "panels s ! i" m "store s"]
    by (cases "i < length (panels s)") (auto split: prod.splits)
next
  case (BashAdd ch)
  then show ?thesis
    using bash_read_files_no_refresh[of "now h" _ _ _ BashShells]
    by (auto simp: on_store_def bash_addEntry_def refresh_count_def split: option.splits prod.splits)
next
  case (SnippEdit e)
  then show ?thesis by (simp add: open_panel_def split: prod.splits option.splits)
qed (auto simp: refresh_count_def on_store_def open_panel_def bash_deleteEntry_def Let_def
      bash_refreshEntry_def bash_previewEntry_def bash_runEntry_def bash_executeEntry_def
      snipp_refreshEntry_def snipp_addEntry_def snipp_deleteEntry_def snipp_insertEntry_def
      term_refreshEntry_def term_deleteEntry_def term_insertEntry_def split: prod.splits snode.splits)

lemma one_refresh_per_mutation_witness:
  "shell_scripts (store (fst (ext_step \<lparr>now = ''t'', process_cwd = ''/'', workspace_folders = [], active_terminal = False, active_editor = False, locale_date = (\<lambda>d. d)\<rparr>
      \<lparr>store = \<lparr>shell_scripts = [\<lparr>name = ''a'', content = Some ''ls'', created = ''t'', tags = Some []\<rparr>], snipps = [], terminal_snipps = []\<rparr>, panels = []\<rparr>
      (BashDelete (Some ''Yes, Delete'') \<lparr>name = ''a'', content = Some ''ls'', created = ''t'', tags = Some []\<rparr>)))) = [] \<and>
   refresh_count BashShells (snd (ext_step \<lparr>now = ''t'', process_cwd = ''/'', workspace_folders = [], active_terminal = False, active_editor = False, locale_date = (\<lambda>d. d)\<rparr>
      \<lparr>store = \<lparr>shell_scripts = [\<lparr>name = ''a'', content = Some ''ls'', created = ''t'', tags = Some []\<rparr>], snipps = [], terminal_snipps = []\<rparr>, panels = []\<rparr>
      (BashDelete (Some ''Yes, Delete'') \<lparr>name = ''a'', content = Some ''ls'', created = ''t'', tags = Some []\<rparr>))) = 1"
proof -
  let ?h = "\<lparr>now = ''t'', process_cwd = ''/'', workspace_folders = [], active_terminal = False, active_editor = False, locale_date = (\<lambda>d. d)\<rparr>"
  let ?s = "\<lparr>store = \<lparr>shell_scripts = [\<lparr>name = ''a'', content = Some ''ls'', created = ''t'', tags = Some []\<rparr>], snipps = [], terminal_snipps = []\<rparr>, panels = []\<rparr>"
  let ?ev = "BashDelete (Some ''Yes, Delete'') \<lparr>name = ''a'', content = Some ''ls'', created = ''t'', tags = Some []\<rparr>"
  have del: "shell_scripts (store (fst (ext_step ?h ?s ?ev))) = []"
    by (simp add: on_store_def bash_deleteEntry_def same_script_def Let_def)
  then have "shell_scripts (store (fst (ext_step ?h ?s ?ev))) \<noteq> shell_scripts (store ?s)"
    by simp
  with one_refresh_per_mutation[of ?h ?s ?ev] del show ?thesis
    by blast
qed

end
