(* ===== verification/Forms.thy ===== *)
theory Forms
  imports BashShell
begin

text \<open>
  The client side of the two shell-script forms, the scripts that run inside the
  webviews: \<open>src/src/components/add_bash_script.ts\<close> lines 90--167 (templates,
  \<open>insertTemplate\<close>, \<open>saveScript\<close>, \<open>cancel\<close>) and the same \<open>saveScript\<close> and
  \<open>cancel\<close> in \<open>getEditShellScriptWebviewContent\<close>
  (\<open>src/src/providers/BashShellProvider.ts\<close> lines 475--500).  The state of a form
  is the value of its two fields; an input is what the user does on the page; the
  outputs are the messages posted to the extension (\<open>vscode.postMessage\<close>) and the
  browser alerts, in order.  Reading \<open>.value\<close> of \<open><input type="text">\<close> gives the
  typed text with its line breaks removed (the value sanitisation of text inputs);
  a \<open><textarea>\<close> keeps its value as set.  The extension's side of the exchange is
  \<open>add_form_message\<close> and \<open>bash_edit_message\<close>.
\<close>

record form_fields =
  f_name :: string
  f_content :: string

datatype form_input =
    SetName string
  | SetContent string
  | ClickSave
  | ClickCancel

text \<open>The creation page has, in addition, the four template buttons.\<close>

datatype add_input =
    Field form_input
  | InsertTemplate string

datatype client_out =
    Post form_message
  | Alert string

definition strip_newlines :: "string \<Rightarrow> string" where
  "strip_newlines s = filter (\<lambda>c. c \<noteq> CHR 0x0A \<and> c \<noteq> CHR 0x0D) s"

text \<open>\<open>const templates = {basic, git, build, deploy}\<close>: each template literal,
  line by line; each ends with a line break.\<close>

definition form_templates :: "(string \<times> string) list" where
  "form_templates =
     [(''basic'', js_join [nl]
        [''#!/bin/bash'', [],
         ''echo '' @ [dquote] @ ''Starting script...'' @ [dquote], [],
         ''# Your commands here'',
         ''echo '' @ [dquote] @ ''Script completed successfully!'' @ [dquote], []]),
      (''git'', js_join [nl]
        [''#!/bin/bash'', [],
         ''# Git workflow commands'',
         ''git status'',
         ''git add .'',
         ''git commit -m '' @ [dquote] @ ''Update files'' @ [dquote],
         ''git push origin main'', [],
         ''echo '' @ [dquote] @ ''Git operations completed!'' @ [dquote], []]),
      (''build'', js_join [nl]
        [''#!/bin/bash'', [],
         ''echo '' @ [dquote] @ ''Starting build process...'' @ [dquote], [],
         ''# Install dependencies'',
         ''npm install'', [],
         ''# Run build'',
         ''npm run build'', [],
         ''# Run tests'',
         ''npm test'', [],
         ''echo '' @ [dquote] @ ''Build completed successfully!'' @ [dquote], []]),
      (''deploy'', js_join [nl]
        [''#!/bin/bash'', [],
         ''echo '' @ [dquote] @ ''Starting deployment...'' @ [dquote], [],
         ''# Build the project'',
         ''npm run build'', [],
         ''# Deploy to server'',
         ''rsync -avz ./dist/ user@server:/path/to/deployment/'', [],
         ''echo '' @ [dquote] @ ''Deployment completed!'' @ [dquote], []])]"

text \<open>\<open>content.value = templates[templateName]\<close>: a name that is not a template
  reads \<open>undefined\<close>, which the \<open>value\<close> setter turns into the text
  \<open>undefined\<close>.\<close>

definition insertTemplate :: "string \<Rightarrow> form_fields \<Rightarrow> form_fields" where
  "insertTemplate t f =
     f\<lparr>f_content := (case map_of form_templates t of Some x \<Rightarrow> x | None \<Rightarrow> ''undefined'')\<rparr>"

text \<open>\<open>saveScript()\<close>: both fields must be non-empty, else an alert and nothing is
  posted; the message carries the two values (no tags).\<close>

definition saveScript :: "form_fields \<Rightarrow> client_out list" where
  "saveScript f =
     (if f_name f = [] \<or> f_content f = []
      then [Alert ''Please fill in all fields'']
      else [Post (Save (Some (f_name f)) (Some (f_content f)) None)])"

fun form_client_step :: "form_fields \<Rightarrow> form_input \<Rightarrow> form_fields \<times> client_out list" where
  "form_client_step f (SetName s) = (f\<lparr>f_name := strip_newlines s\<rparr>, [])"
| "form_client_step f (SetContent s) = (f\<lparr>f_content := s\<rparr>, [])"
| "form_client_step f ClickSave = (f, saveScript f)"
| "form_client_step f ClickCancel = (f, [Post Cancel])"

fun add_client_step :: "form_fields \<Rightarrow> add_input \<Rightarrow> form_fields \<times> client_out list" where
  "add_client_step f (Field i) = form_client_step f i"
| "add_client_step f (InsertTemplate t) = (insertTemplate t f, [])"

fun client_run ::
  "('f \<Rightarrow> 'i \<Rightarrow> 'f \<times> client_out list) \<Rightarrow> 'f \<Rightarrow> 'i list \<Rightarrow> 'f \<times> client_out list" where
  "client_run step f [] = (f, [])"
| "client_run step f (i # is) =
     (let (f1, o1) = step f i; (f2, o2) = client_run step f1 is in (f2, o1 @ o2))"

text \<open>The creation page opens with both fields empty (the placeholders are not
  values).\<close>

definition add_form_init :: form_fields where
  "add_form_init = \<lparr>f_name = [], f_content = []\<rparr>"

text \<open>What a form's client can post: a \<open>cancel\<close>, or a \<open>save\<close> with two non-empty
  values and no tags.\<close>

definition client_message :: "form_message \<Rightarrow> bool" where
  "client_message m \<longleftrightarrow>
     m = Cancel \<or> (\<exists>n c. n \<noteq> [] \<and> c \<noteq> [] \<and> m = Save (Some n) (Some c) None)"

subsection \<open>Lemmas\<close>

lemma form_client_step_posts:
  "Post m \<in> set (snd (form_client_step f i)) \<Longrightarrow> client_message m"
  by (cases i) (auto simp: saveScript_def client_message_def split: if_splits)

lemma add_client_step_posts:
  "Post m \<in> set (snd (add_client_step f i)) \<Longrightarrow> client_message m"
  by (cases i) (auto dest: form_client_step_posts)

lemma client_run_posts:
  assumes "\<And>f i m. Post m \<in> set (snd (step f i)) \<Longrightarrow> P m"
  shows "Post m \<in> set (snd (client_run step f is)) \<Longrightarrow> P m"
proof (induction "is" arbitrary: f)
  case (Cons i "is")
  then show ?case
    using assms by (auto split: prod.splits) (metis snd_conv)+
qed simp

lemma client_run_append:
  "client_run step f (xs @ ys) =
     (let (f1, o1) = client_run step f xs; (f2, o2) = client_run step f1 ys in (f2, o1 @ o2))"
  by (induction xs arbitrary: f) (auto split: prod.splits)

subsection \<open>The forms and the extension's handlers\<close>

text \<open>C11. Whatever the user does on the creation page, every message its client
  posts is one the extension's handler accepts: a \<open>save\<close> always stores the new
  script and a \<open>cancel\<close> closes the panel, so the handler's
  \<open>Please fill in all fields\<close> branch is never taken for the page's own
  messages, and the panel is closed after each of them.\<close>

theorem add_client_messages_accepted:
  assumes "Post m \<in> set (snd (client_run add_client_step f ins))"
  shows "ShowError ''Please fill in all fields'' \<notin> set (snd (add_form_message h m st)) \<and>
         DisposePanel \<in> set (snd (add_form_message h m st))"
proof -
  have "client_message m"
    using client_run_posts[where step = add_client_step, OF add_client_step_posts assms] .
  then show ?thesis
    by (auto simp: client_message_def add_form_message_def)
qed

lemma add_client_messages_accepted_witness:
  "client_run add_client_step add_form_init [InsertTemplate ''git'', Field (SetName ''push''), Field ClickSave] =
     (\<lparr>f_name = ''push'', f_content = the (map_of form_templates ''git'')\<rparr>,
      [Post (Save (Some ''push'') (Some (the (map_of form_templates ''git''))) None)]) \<and>
   Post (Save (Some ''push'') (Some (the (map_of form_templates ''git''))) None)
     \<in> set (snd (client_run add_client_step add_form_init [InsertTemplate ''git'', Field (SetName ''push''), Field ClickSave])) \<and>
   DisposePanel \<in> set (snd (add_form_message \<lparr>now = ''t'', process_cwd = ''/'', workspace_folders = [], active_terminal = False, active_editor = False, locale_date = (\<lambda>d. d)\<rparr> (Save (Some ''push'') (Some (the (map_of form_templates ''git''))) None) \<lparr>shell_scripts = [], snipps = [], terminal_snipps = []\<rparr>))"
proof -
  have run: "client_run add_client_step add_form_init [InsertTemplate ''git'', Field (SetName ''push''), Field ClickSave] =
     (\<lparr>f_name = ''push'', f_content = the (map_of form_templates ''git'')\<rparr>,
      [Post (Save (Some ''push'') (Some (the (map_of form_templates ''git''))) None)])"
    by (simp add: add_form_init_def insertTemplate_def saveScript_def strip_newlines_def form_templates_def)
  have p: "Post (Save (Some ''push'') (Some (the (map_of form_templates ''git''))) None)
     \<in> set (snd (client_run add_client_step add_form_init [InsertTemplate ''git'', Field (SetName ''push''), Field ClickSave]))"
    unfolding run by simp
  from add_client_messages_accepted[OF p, of "\<lparr>now = ''t'', process_cwd = ''/'', workspace_folders = [], active_terminal = False, active_editor = False, locale_date = (\<lambda>d. d)\<rparr>" "\<lparr>shell_scripts = [], snipps = [], terminal_snipps = []\<rparr>"] run p show ?thesis
    by blast
qed

text \<open>A \<open>save\<close> posted by the edit page carries both fields non-empty, so the
  extension's edit handler replaces both the name and the content of the script
  with the form's values; the handler's per-field fallbacks (\<open>if (name)\<close>,
  \<open>if (content)\<close>) are never used for the page's own messages.\<close>

theorem edit_client_save_replaces:
  assumes "Post (Save n c x) \<in> set (snd (client_run form_client_step f ins))"
  shows "edited_script n c t = t\<lparr>name := the n, content := c\<rparr> \<and> x = None"
proof -
  have "client_message (Save n c x)"
    using client_run_posts[where step = form_client_step, OF form_client_step_posts assms] .
  then show ?thesis
    by (auto simp: client_message_def edited_script_def apply_if_truthy_def apply_if_truthy_opt_def)
qed

end
