(* ===== verification/EditPage.thy ===== *)
theory EditPage
  imports Forms
begin

text \<open>
  The edit page of a shell script and what the browser shows in its fields.
  \<open>edit_page_html\<close> is the page \<open>getEditShellScriptWebviewContent\<close> builds
  (\<open>src/src/providers/BashShellProvider.ts\<close> lines 410--503): the template
  literal's static text with the record's name inside the double-quoted
  \<open>value\<close> attribute of the \<open><input>\<close> and its content as the text of the
  \<open><textarea>\<close>, both unescaped.  The browser's HTML parser then decides what the
  fields hold when the page opens, and that is what the page's \<open>saveScript\<close>
  posts back.  \<open>page_fields\<close> reads the two fields from a page: it finds the
  first \<open>id="name"\<close> and the first \<open><textarea id="content"\<close> (\<open>str_after\<close>) and
  applies the parser's rules to what follows:
  \<^item> the input stream's line breaks are normalised (\<open>CR LF\<close> and \<open>CR\<close> become
    \<open>LF\<close>);
  \<^item> a double-quoted attribute value ends at the first \<open>"\<close>;
  \<^item> the text of a \<open><textarea>\<close> ends at the first \<open></textarea\<close>, in any case,
    followed by white space, \<open>/\<close> or \<open>>\<close>; a line break right after the start
    tag is dropped;
  \<^item> character references are decoded; the model decodes the five that
    \<open>escapeHtml\<close> produces (\<open>html_unescape\<close>) and no other;
  \<^item> reading \<open>.value\<close> of a text input removes its line breaks.
  The model is the browser's only for a name without \<open><\<close> (with one, text after a
  \<open>"\<close> can open new elements and change the page's structure); the theorems
  below assume that much.  Lemma \<open>edit_page_document\<close> shows that on the page
  the fields hold \<open>edit_page_fields\<close>, the parser's reading of the two
  interpolated texts alone.  The static parts are searched line by line
  (\<open>lines_nl\<close>, \<open>str_after_lines_nl\<close>), which keeps the proofs fast.
\<close>


function norm_newlines :: "string \<Rightarrow> string" where
  "norm_newlines [] = []"
| "norm_newlines (c # cs) =
     (if c = CHR 0x0D then nl # norm_newlines (if take 1 cs = [nl] then drop 1 cs else cs)
      else c # norm_newlines cs)"
  by pat_completeness auto
termination
  by (relation "measure length") auto

definition textarea_end :: "string \<Rightarrow> bool" where
  "textarea_end cs \<longleftrightarrow>
     take 1 cs = ''/'' \<and> to_lower (take 8 (drop 1 cs)) = ''textarea'' \<and>
     (case drop 9 cs of
        [] \<Rightarrow> False
      | d # _ \<Rightarrow> d \<in> set [CHR 0x09, nl, CHR 0x0C, CHR '' '', CHR ''/'', CHR ''>''])"

fun rcdata_text :: "string \<Rightarrow> string" where
  "rcdata_text [] = []"
| "rcdata_text (c # cs) = (if c = CHR ''<'' \<and> textarea_end cs then [] else c # rcdata_text cs)"

definition textarea_value :: "string \<Rightarrow> string" where
  "textarea_value raw =
     (let t = html_unescape (rcdata_text (norm_newlines raw @ ''</textarea>''))
      in if take 1 t = [nl] then drop 1 t else t)"

definition input_value :: "string \<Rightarrow> string" where
  "input_value raw = strip_newlines (html_unescape (takeWhile (\<lambda>c. c \<noteq> dquote) (norm_newlines raw)))"

text \<open>The fields of the edit page when it opens.\<close>

definition edit_page_fields :: "item \<Rightarrow> form_fields" where
  "edit_page_fields s =
     \<lparr>f_name = input_value (name s), f_content = textarea_value (js_template_opt (content s))\<rparr>"

text \<open>A text the page shows as it is: no \<open>&\<close>, \<open><\<close>, \<open>"\<close> or carriage return.\<close>

definition html_plain :: "string \<Rightarrow> bool" where
  "html_plain s \<longleftrightarrow> list_all (\<lambda>c. c \<noteq> CHR ''&'' \<and> c \<noteq> CHR ''<'' \<and> c \<noteq> dquote \<and> c \<noteq> CHR 0x0D) s"

text \<open>A multi-line part of a template literal: each line followed by its line
  break.\<close>

definition lines_nl :: "string list \<Rightarrow> string" where
  "lines_nl ls = concat (map (\<lambda>l. l @ [nl]) ls)"

text \<open>The page of \<open>getEditShellScriptWebviewContent\<close> (\<open>src/src/providers/BashShellProvider.ts\<close>
  lines 410--503): one template literal, here its three static parts and the two
  interpolations \<open>${script.name}\<close> and \<open>${script.content}\<close>.\<close>

definition edit_page_head :: string where
  \<open>edit_page_head = lines_nl [
     ''<!DOCTYPE html>'',
     ''<html lang="en">'',
     ''<head>'',
     ''    <meta charset="UTF-8">'',
     ''    <meta name="viewport" content="width=device-width, initial-scale=1.0">'',
     ''    <title>Edit Shell Script</title>'',
     ''    <style>'',
     ''        body {'',
     ''            font-family: var(--vscode-font-family);'',
     ''            padding: 20px;'',
     ''            background-color: var(--vscode-editor-background);'',
     ''            color: var(--vscode-editor-foreground);'',
     ''        }'',
     ''        .form-group {'',
     ''            margin-bottom: 20px;'',
     ''        }'',
     ''        label {'',
     ''            display: block;'',
     ''            margin-bottom: 5px;'',
     ''            font-weight: bold;'',
     ''        }'',
     ''        input, textarea {'',
     ''            width: 100%;'',
     ''            padding: 8px;'',
     ''            border: 1px solid var(--vscode-input-border);'',
     ''            background-color: var(--vscode-input-background);'',
     ''            color: var(--vscode-input-foreground);'',
     ''            border-radius: 3px;'',
     ''            font-family: var(--vscode-editor-font-family);'',
     ''        }'',
     ''        textarea {'',
     ''            height: 400px;'',
     ''            font-family: \'Courier New\', monospace;'',
     ''            resize: vertical;'',
     ''        }'',
     ''        button {'',
     ''            background-color: var(--vscode-button-background);'',
     ''            color: var(--vscode-button-foreground);'',
     ''            border: none;'',
     ''            padding: 10px 20px;'',
     ''            border-radius: 3px;'',
     ''            cursor: pointer;'',
     ''            margin-right: 10px;'',
     ''        }'',
     ''        button:hover {'',
     ''            background-color: var(--vscode-button-hoverBackground);'',
     ''        }'',
     ''    </style>'',
     ''</head>'',
     ''<body>'',
     ''    <h2>Edit Shell Script</h2>'',
     ''    <form>'',
     ''        <div class="form-group">'',
     ''            <label for="name">Script Name:</label>''] @
     ''            <input type="text" id="name" value="''\<close>

definition edit_page_mid :: string where
  \<open>edit_page_mid = ''" required>'' @ [nl] @ lines_nl [
     ''        </div>'',
     ''        <div class="form-group">'',
     ''            <label for="content">Script Content:</label>''] @
     ''            <textarea id="content" required>''\<close>

definition edit_page_tail :: string where
  \<open>edit_page_tail = ''</textarea>'' @ [nl] @ lines_nl [
     ''        </div>'',
     ''        <button type="button" onclick="saveScript()">Save</button>'',
     ''        <button type="button" onclick="cancel()">Cancel</button>'',
     ''    </form>'',
     [],
     ''    <script>'',
     ''        const vscode = acquireVsCodeApi();'',
     [],
     ''        function saveScript() {'',
     ''            const name = document.getElementById(\'name\').value;'',
     ''            const content = document.getElementById(\'content\').value;'',
     [],
     ''            if (!name || !content) {'',
     ''                alert(\'Please fill in all fields\');'',
     ''                return;'',
     ''            }'',
     [],
     ''            vscode.postMessage({'',
     ''                command: \'save\','',
     ''                scriptData: {'',
     ''                    name: name,'',
     ''                    content: content'',
     ''                }'',
     ''            });'',
     ''        }'',
     [],
     ''        function cancel() {'',
     ''            vscode.postMessage({'',
     (''                command: \'cancel'' @ [CHR 0x27]),
     ''            });'',
     ''        }'',
     ''    </script>'',
     ''</body>''] @
     ''</html>''\<close>

definition edit_page_html :: "item \<Rightarrow> string" where
  "edit_page_html script =
     edit_page_head @ name script @ edit_page_mid @ js_template_opt (content script) @ edit_page_tail"

text \<open>Where the browser finds the two fields in a page: the text after the first
  occurrence of a marker.  The \<open><input>\<close> with \<open>id="name"\<close> has its value in the
  \<open>value\<close> attribute right after the \<open>id\<close>, or no value attribute (then its value
  is empty); the text of the \<open><textarea>\<close> with \<open>id="content"\<close> starts after the
  \<open>>\<close> of its start tag, whose attributes hold no \<open>>\<close>.\<close>

fun str_after :: "string \<Rightarrow> string \<Rightarrow> string option" where
  "str_after m [] = (if m = [] then Some [] else None)"
| "str_after m (c # cs) =
     (if take (length m) (c # cs) = m then Some (drop (length m) (c # cs)) else str_after m cs)"

definition input_field :: "string \<Rightarrow> string" where
  \<open>input_field rest = (if take 8 rest = '' value="'' then input_value (drop 8 rest) else [])\<close>

definition textarea_text :: "string \<Rightarrow> string" where
  "textarea_text raw =
     (let t = html_unescape (rcdata_text (norm_newlines raw)) in if take 1 t = [nl] then drop 1 t else t)"

definition page_fields :: "string \<Rightarrow> form_fields option" where
  \<open>page_fields doc =
     (case (str_after ''id="name"'' doc, str_after ''<textarea id="content"'' doc) of
        (Some a, Some b) \<Rightarrow>
          Some \<lparr>f_name = input_field a,
                f_content = textarea_text (drop 1 (dropWhile (\<lambda>c. c \<noteq> CHR ''>'') b))\<rparr>
      | _ \<Rightarrow> None)\<close>

text \<open>No occurrence of a marker starts in a text, even one running past its end.\<close>

fun str_clear :: "string \<Rightarrow> string \<Rightarrow> bool" where
  "str_clear m [] = True"
| "str_clear m (c # cs) = (take (length m) (c # cs) \<noteq> take (length (c # cs)) m \<and> str_clear m cs)"

subsection \<open>Lemmas\<close>

lemma html_unescape_plain: "CHR ''&'' \<notin> set s \<Longrightarrow> html_unescape s = s"
  by (induction s) auto

lemma norm_newlines_plain: "CHR 0x0D \<notin> set s \<Longrightarrow> norm_newlines s = s"
  by (induction s) auto

lemma rcdata_text_end: "rcdata_text ''</textarea>'' = []"
  by (simp add: textarea_end_def to_lower_def)

lemma rcdata_text_plain: "CHR ''<'' \<notin> set s \<Longrightarrow> rcdata_text (s @ ''</textarea>'') = s"
  by (induction s) (simp_all only: rcdata_text_end append.simps, auto)

lemma strip_newlines_plain: "nl \<notin> set s \<Longrightarrow> CHR 0x0D \<notin> set s \<Longrightarrow> strip_newlines s = s"
  by (induction s) (auto simp: strip_newlines_def)

lemma html_plain_set:
  "html_plain s \<Longrightarrow> CHR ''&'' \<notin> set s \<and> CHR ''<'' \<notin> set s \<and> dquote \<notin> set s \<and> CHR 0x0D \<notin> set s"
  by (auto simp: html_plain_def list_all_iff)

lemma input_value_plain:
  assumes "html_plain s" "nl \<notin> set s"
  shows "input_value s = s"
proof -
  from html_plain_set[OF assms(1)]
  have amp: "CHR ''&'' \<notin> set s" and q: "dquote \<notin> set s" and cr: "CHR 0x0D \<notin> set s"
    by simp_all
  from q have tw: "takeWhile (\<lambda>c. c \<noteq> dquote) s = s"
    by (auto simp: takeWhile_eq_all_conv)
  show ?thesis
    unfolding input_value_def norm_newlines_plain[OF cr] tw html_unescape_plain[OF amp]
    using assms(2) cr by (rule strip_newlines_plain)
qed

lemma textarea_value_plain: "html_plain s \<Longrightarrow> take 1 s \<noteq> [nl] \<Longrightarrow> textarea_value s = s"
  using html_plain_set[of s]
  by (simp add: textarea_value_def norm_newlines_plain rcdata_text_plain html_unescape_plain)

subsection \<open>Finding a marker in a page\<close>

lemma take_append_short: "n \<le> length xs \<Longrightarrow> take n (xs @ b) = take n xs"
  by simp

lemma drop_append_short: "n \<le> length xs \<Longrightarrow> drop n (xs @ b) = drop n xs @ b"
  by simp

lemma str_after_length: "str_after m a = Some r \<Longrightarrow> length m \<le> length a"
proof (induction a)
  case Nil
  then show ?case by (simp split: if_splits)
next
  case (Cons c cs)
  then show ?case by (auto split: if_splits dest: arg_cong[where f = length])
qed

lemma str_after_Cons_append:
  "str_after m ((c # cs) @ b) =
     (if take (length m) ((c # cs) @ b) = m then Some (drop (length m) ((c # cs) @ b)) else str_after m (cs @ b))"
  by simp

lemma str_after_found: "str_after m a = Some r \<Longrightarrow> str_after m (a @ b) = Some (r @ b)"
proof (induction a arbitrary: r)
  case Nil
  then show ?case by (cases b) (auto split: if_splits)
next
  case (Cons c cs)
  show ?case
  proof (cases "take (length m) (c # cs) = m")
    case True
    then have L: "length m \<le> length (c # cs)" by (metis length_take min.absorb_iff1 nle_le)
    have "r = drop (length m) (c # cs)" using True Cons.prems by simp
    then show ?thesis
      unfolding str_after_Cons_append take_append_short[OF L] drop_append_short[OF L] using True by simp
  next
    case False
    then have r: "str_after m cs = Some r" using Cons.prems by simp
    then have "length m \<le> length (c # cs)" using str_after_length by fastforce
    then have "take (length m) ((c # cs) @ b) \<noteq> m" using False by (simp only: take_append_short) simp
    then show ?thesis unfolding str_after_Cons_append using Cons.IH[OF r] by simp
  qed
qed

lemma str_after_skip: "m \<noteq> [] \<Longrightarrow> hd m \<notin> set a \<Longrightarrow> str_after m (a @ b) = str_after m b"
proof (induction a)
  case (Cons c cs)
  then obtain h t where m: "m = h # t" and "h \<noteq> c" by (cases m) auto
  then have "take (length m) ((c # cs) @ b) \<noteq> m" by simp
  then show ?case unfolding str_after_Cons_append using Cons by simp
qed simp

lemma take_prefix_conflict: "take (length m) xs \<noteq> take (length xs) m \<Longrightarrow> take (length m) (xs @ b) \<noteq> m"
proof
  assume ne: "take (length m) xs \<noteq> take (length xs) m" and eq: "take (length m) (xs @ b) = m"
  show False
  proof (cases "length m \<le> length xs")
    case True
    then show False using ne eq by simp
  next
    case False
    then have "take (length xs) m = xs" using eq by (metis append_eq_conv_conj le_cases take_all_iff take_append take_take)
    then show False using ne False by simp
  qed
qed

lemma str_after_clear: "str_clear m a \<Longrightarrow> str_after m (a @ b) = str_after m b"
proof (induction a)
  case (Cons c cs)
  then have "take (length m) ((c # cs) @ b) \<noteq> m" by (intro take_prefix_conflict) simp
  then show ?case unfolding str_after_Cons_append using Cons by simp
qed simp

lemma str_after_lines_nl:
  "list_all (\<lambda>l. str_clear m (l @ [nl])) ls \<Longrightarrow> str_after m (lines_nl ls @ b) = str_after m b"
proof (induction ls)
  case (Cons l ls)
  have "lines_nl (l # ls) @ b = (l @ [nl]) @ (lines_nl ls @ b)" by (simp add: lines_nl_def)
  then show ?case using Cons str_after_clear[of m "l @ [nl]" "lines_nl ls @ b"] by simp
qed (simp add: lines_nl_def)

subsection \<open>Reading the fields\<close>

lemma norm_newlines_append: "take 1 b \<noteq> [nl] \<Longrightarrow> norm_newlines (a @ b) = norm_newlines a @ norm_newlines b"
proof (induction a rule: norm_newlines.induct)
  case (2 c cs)
  show ?case
  proof (cases "c = CHR 0x0D")
    case True
    show ?thesis
    proof (cases cs)
      case Nil
      then show ?thesis using True 2(3) by simp
    next
      case (Cons a l)
      then have "(if take 1 (cs @ b) = [nl] then drop 1 (cs @ b) else cs @ b) =
          (if take 1 cs = [nl] then drop 1 cs else cs) @ b" by simp
      then show ?thesis using True 2(1)[OF True 2(3)] by simp
    qed
  next
    case False
    then show ?thesis using 2(2)[OF False 2(3)] by simp
  qed
qed simp

lemma norm_newlines_textarea_end: "norm_newlines (''</textarea>'' @ r) = ''</textarea>'' @ norm_newlines r"
  by simp

lemma takeWhile_stop: "takeWhile (\<lambda>c. c \<noteq> d) (x @ d # y) = takeWhile (\<lambda>c. c \<noteq> d) x"
  by (induction x) auto

lemma input_value_append: "input_value (a @ dquote # b) = input_value a"
  by (simp add: input_value_def norm_newlines_append takeWhile_stop)

lemma case_take1: "(case take 1 xs of [] \<Rightarrow> False | d # _ \<Rightarrow> P d) = (case xs of [] \<Rightarrow> False | d # _ \<Rightarrow> P d)"
  by (cases xs) simp_all

lemma textarea_end_take: "textarea_end cs = textarea_end (take 10 cs)"
proof -
  have 1: "take 1 (take 10 cs) = take 1 cs" by simp
  have 2: "take 8 (drop 1 (take 10 cs)) = take 8 (drop 1 cs)" by (simp add: drop_take)
  have 3: "drop 9 (take 10 cs) = take 1 (drop 9 cs)" by (simp add: drop_take)
  show ?thesis unfolding textarea_end_def 1 2 3 case_take1 ..
qed

lemma rcdata_text_stop: "rcdata_text (x @ ''</textarea>'' @ r) = rcdata_text (x @ ''</textarea>'')"
proof (induction x)
  case Nil
  then show ?case by (simp add: textarea_end_def to_lower_def)
next
  case (Cons c x)
  have "take 10 ((x @ ''</textarea>'') @ r) = take 10 (x @ ''</textarea>'')"
    by (rule take_append_short) simp
  then have "textarea_end (x @ ''</textarea>'' @ r) = textarea_end (x @ ''</textarea>'')"
    by (metis append_assoc textarea_end_take)
  then show ?case using Cons by simp
qed

lemma textarea_text_stop: "textarea_text (c @ ''</textarea>'' @ r) = textarea_value c"
proof -
  have a: "norm_newlines (c @ ''</textarea>'' @ r) = norm_newlines c @ ''</textarea>'' @ norm_newlines r"
    using norm_newlines_append[of "''</textarea>'' @ r" c] norm_newlines_textarea_end[of r] by simp
  have b: "norm_newlines c @ ''</textarea>'' = norm_newlines (c @ ''</textarea>'')"
    using norm_newlines_append[of "''</textarea>''" c] norm_newlines_textarea_end[of "[]"] by simp
  show ?thesis
    unfolding textarea_text_def textarea_value_def a rcdata_text_stop b ..
qed

subsection \<open>The edit page's document\<close>

lemma edit_page_name_at: \<open>str_after ''id="name"'' (edit_page_head @ b) = Some ('' value="'' @ b)\<close>
  unfolding edit_page_head_def by (simp add: str_after_lines_nl)

lemma edit_page_textarea_at:
  assumes "CHR ''<'' \<notin> set n"
  shows \<open>str_after ''<textarea id="content"'' (edit_page_head @ n @ edit_page_mid @ b) = Some ('' required>'' @ b)\<close>
proof -
  have \<open>str_after ''<textarea id="content"'' (edit_page_head @ n @ edit_page_mid @ b) =
      str_after ''<textarea id="content"'' (n @ edit_page_mid @ b)\<close>
    unfolding edit_page_head_def by (simp add: str_after_lines_nl)
  also have \<open>\<dots> = str_after ''<textarea id="content"'' (edit_page_mid @ b)\<close>
    using str_after_skip[of \<open>''<textarea id="content"''\<close> n] assms by simp
  also have \<open>\<dots> = Some ('' required>'' @ b)\<close>
    unfolding edit_page_mid_def by (simp add: str_after_lines_nl)
  finally show ?thesis .
qed

lemma edit_page_tail_start: "edit_page_tail = ''</textarea>'' @ drop 11 edit_page_tail"
  by (simp add: edit_page_tail_def)

lemma edit_page_mid_start: "edit_page_mid = dquote # drop 1 edit_page_mid"
  by (simp add: edit_page_mid_def)

lemma input_field_value: \<open>input_field ('' value="'' @ n @ dquote # r) = input_value n\<close>
  by (simp add: input_field_def input_value_append)

lemma textarea_after_tag: "drop 1 (dropWhile (\<lambda>c. c \<noteq> CHR ''>'') ('' required>'' @ b)) = b"
  by simp

text \<open>What the browser shows in the edit page's fields is \<open>edit_page_fields\<close>, for a
  name without \<open><\<close>.\<close>

lemma edit_page_document:
  assumes "CHR ''<'' \<notin> set (name s)"
  shows "page_fields (edit_page_html s) = Some (edit_page_fields s)"
proof -
  let ?C = "js_template_opt (content s)"
  have a: \<open>str_after ''id="name"'' (edit_page_html s) =
      Some ('' value="'' @ name s @ edit_page_mid @ ?C @ edit_page_tail)\<close>
    unfolding edit_page_html_def by (rule edit_page_name_at)
  have b: \<open>str_after ''<textarea id="content"'' (edit_page_html s) =
      Some ('' required>'' @ ?C @ edit_page_tail)\<close>
    unfolding edit_page_html_def using assms by (rule edit_page_textarea_at)
  have n: \<open>input_field ('' value="'' @ name s @ edit_page_mid @ ?C @ edit_page_tail) = input_value (name s)\<close>
  proof -
    have m: "edit_page_mid @ ?C @ edit_page_tail = dquote # (drop 1 edit_page_mid @ ?C @ edit_page_tail)"
      using edit_page_mid_start by (metis append_Cons)
    show ?thesis unfolding m by (rule input_field_value)
  qed
  have c: "textarea_text (?C @ edit_page_tail) = textarea_value ?C"
    using textarea_text_stop[of ?C "drop 11 edit_page_tail"] by (subst edit_page_tail_start) simp
  show ?thesis
    unfolding page_fields_def a b by (simp only: prod.case option.case textarea_after_tag n c edit_page_fields_def)
qed

lemma length_html_unescape: "length (html_unescape s) \<le> length s"
  by (induction s rule: html_unescape.induct) auto

lemma length_norm_newlines: "length (norm_newlines s) \<le> length s"
  by (induction s rule: norm_newlines.induct) auto

lemma dquote_norm_newlines: "dquote \<in> set s \<Longrightarrow> dquote \<in> set (norm_newlines s)"
proof (induction s rule: norm_newlines.induct)
  case (2 c cs)
  then show ?case by (cases cs) (auto split: if_splits)
qed simp

lemma takeWhile_shorter: "x \<in> set xs \<Longrightarrow> \<not> P x \<Longrightarrow> length (takeWhile P xs) < length xs"
  by (induction xs) auto

lemma input_value_shorter: "dquote \<in> set n \<Longrightarrow> length (input_value n) < length n"
proof -
  assume "dquote \<in> set n"
  then have "length (takeWhile (\<lambda>c. c \<noteq> dquote) (norm_newlines n)) < length (norm_newlines n)"
    by (auto intro: takeWhile_shorter dest: dquote_norm_newlines)
  moreover have "length (input_value n) \<le> length (takeWhile (\<lambda>c. c \<noteq> dquote) (norm_newlines n))"
    using length_html_unescape[of "takeWhile (\<lambda>c. c \<noteq> dquote) (norm_newlines n)"]
    by (simp add: input_value_def strip_newlines_def order_trans[OF length_filter_le])
  ultimately show ?thesis using length_norm_newlines[of n] by linarith
qed

lemma length_rcdata_end: "length (rcdata_text (a @ ''</textarea>'')) \<le> length a"
proof (induction a)
  case Nil
  then show ?case by (simp add: textarea_end_def to_lower_def)
next
  case (Cons c a)
  then show ?case by simp
qed

lemma textarea_value_cut: "length (textarea_value (x @ ''</textarea>'' @ y)) \<le> length x"
proof -
  have "norm_newlines (x @ ''</textarea>'' @ y) @ ''</textarea>'' =
      norm_newlines x @ ''</textarea>'' @ (norm_newlines y @ ''</textarea>'')"
    using norm_newlines_append[of "''</textarea>'' @ y" x] norm_newlines_textarea_end[of y] by simp
  then have r: "rcdata_text (norm_newlines (x @ ''</textarea>'' @ y) @ ''</textarea>'') =
      rcdata_text (norm_newlines x @ ''</textarea>'')"
    by (simp only: rcdata_text_stop)
  have "length (rcdata_text (norm_newlines x @ ''</textarea>'')) \<le> length x"
    using length_rcdata_end[of "norm_newlines x"] length_norm_newlines[of x] by linarith
  then show ?thesis
    unfolding textarea_value_def Let_def r
    using length_html_unescape[of "rcdata_text (norm_newlines x @ ''</textarea>'')"] by auto
qed

subsection \<open>Opening the edit page and saving it unchanged\<close>

text \<open>C14. Round trip through the edit page: for a script whose name and content
  are plain text (no \<open>&\<close>, \<open><\<close>, \<open>"\<close>, carriage return or, for the name, line
  break; the content not starting with a line break), the page that
  \<open>getEditShellScriptWebviewContent\<close> builds shows exactly the name and the
  content in its fields, \<open>Save\<close> posts them back, and the edit handler rebuilds
  the same record.\<close>

theorem edit_page_roundtrip:
  assumes "html_plain (name s)" "nl \<notin> set (name s)" "name s \<noteq> []"
    and "content s = Some c" "html_plain c" "take 1 c \<noteq> [nl]" "c \<noteq> []"
  shows "page_fields (edit_page_html s) = Some \<lparr>f_name = name s, f_content = c\<rparr> \<and>
         client_run form_client_step \<lparr>f_name = name s, f_content = c\<rparr> [ClickSave] =
           (\<lparr>f_name = name s, f_content = c\<rparr>, [Post (Save (Some (name s)) (Some c) None)]) \<and>
         edited_script (Some (name s)) (Some c) s = s"
proof -
  have f: "edit_page_fields s = \<lparr>f_name = name s, f_content = c\<rparr>"
    using assms by (simp add: edit_page_fields_def input_value_plain textarea_value_plain js_template_opt_def)
  have "page_fields (edit_page_html s) = Some (edit_page_fields s)"
    using html_plain_set[OF assms(1)] by (intro edit_page_document) simp
  then show ?thesis
    using f assms by (simp add: saveScript_def edited_script_def apply_if_truthy_def apply_if_truthy_opt_def)
qed

lemma edit_page_roundtrip_witness:
  "html_plain ''deploy'' \<and> nl \<notin> set ''deploy'' \<and> ''deploy'' \<noteq> [] \<and>
   content \<lparr>name = ''deploy'', content = Some ''make all'', created = ''t'', tags = Some []\<rparr> = Some ''make all'' \<and> html_plain ''make all'' \<and> take 1 ''make all'' \<noteq> [nl] \<and> ''make all'' \<noteq> [] \<and>
   page_fields (edit_page_html \<lparr>name = ''deploy'', content = Some ''make all'', created = ''t'', tags = Some []\<rparr>) = Some \<lparr>f_name = ''deploy'', f_content = ''make all''\<rparr> \<and>
   edited_script (Some ''deploy'') (Some ''make all'') \<lparr>name = ''deploy'', content = Some ''make all'', created = ''t'', tags = Some []\<rparr> = \<lparr>name = ''deploy'', content = Some ''make all'', created = ''t'', tags = Some []\<rparr>"
  using edit_page_roundtrip[of "\<lparr>name = ''deploy'', content = Some ''make all'', created = ''t'', tags = Some []\<rparr>" "''make all''"]
  by (simp add: html_plain_def)

text \<open>C15. Because the record goes into the page unescaped, opening the edit page
  and saving it unchanged does not give back a record holding markup: for every
  script whose name has no \<open><\<close>, a name holding \<open>"\<close> shows in the page's name
  field cut short, and a content holding \<open></textarea>\<close> (a here-document, say)
  shows only up to it, so a save writes the shortened text.\<close>

theorem edit_page_alters:
  assumes "CHR ''<'' \<notin> set (name s)" "page_fields (edit_page_html s) = Some f"
  shows "(dquote \<in> set (name s) \<longrightarrow> length (f_name f) < length (name s)) \<and>
         (content s = Some (x @ ''</textarea>'' @ y) \<longrightarrow> length (f_content f) \<le> length x)"
proof -
  have "f = edit_page_fields s" using assms edit_page_document[OF assms(1)] by simp
  then show ?thesis
    using input_value_shorter[of "name s"] textarea_value_cut[of x y]
    by (simp add: edit_page_fields_def js_template_opt_def)
qed

lemma edit_page_alters_witness:
  "CHR ''<'' \<notin> set (name \<lparr>name = ''say '' @ [dquote] @ ''hi'' @ [dquote], content = Some (''cat <<EOF'' @ [nl] @ ''</textarea>'' @ [nl] @ ''EOF''), created = ''t'', tags = Some []\<rparr>) \<and>
   page_fields (edit_page_html \<lparr>name = ''say '' @ [dquote] @ ''hi'' @ [dquote], content = Some (''cat <<EOF'' @ [nl] @ ''</textarea>'' @ [nl] @ ''EOF''), created = ''t'', tags = Some []\<rparr>) = Some (edit_page_fields \<lparr>name = ''say '' @ [dquote] @ ''hi'' @ [dquote], content = Some (''cat <<EOF'' @ [nl] @ ''</textarea>'' @ [nl] @ ''EOF''), created = ''t'', tags = Some []\<rparr>) \<and>
   dquote \<in> set (name \<lparr>name = ''say '' @ [dquote] @ ''hi'' @ [dquote], content = Some (''cat <<EOF'' @ [nl] @ ''</textarea>'' @ [nl] @ ''EOF''), created = ''t'', tags = Some []\<rparr>) \<and> content \<lparr>name = ''say '' @ [dquote] @ ''hi'' @ [dquote], content = Some (''cat <<EOF'' @ [nl] @ ''</textarea>'' @ [nl] @ ''EOF''), created = ''t'', tags = Some []\<rparr> = Some ((''cat <<EOF'' @ [nl]) @ ''</textarea>'' @ ([nl] @ ''EOF'')) \<and>
   length (f_name (edit_page_fields \<lparr>name = ''say '' @ [dquote] @ ''hi'' @ [dquote], content = Some (''cat <<EOF'' @ [nl] @ ''</textarea>'' @ [nl] @ ''EOF''), created = ''t'', tags = Some []\<rparr>)) < length (name \<lparr>name = ''say '' @ [dquote] @ ''hi'' @ [dquote], content = Some (''cat <<EOF'' @ [nl] @ ''</textarea>'' @ [nl] @ ''EOF''), created = ''t'', tags = Some []\<rparr>) \<and>
   length (f_content (edit_page_fields \<lparr>name = ''say '' @ [dquote] @ ''hi'' @ [dquote], content = Some (''cat <<EOF'' @ [nl] @ ''</textarea>'' @ [nl] @ ''EOF''), created = ''t'', tags = Some []\<rparr>)) \<le> length (''cat <<EOF'' @ [nl])"
proof -
  have a: "CHR ''<'' \<notin> set (name \<lparr>name = ''say '' @ [dquote] @ ''hi'' @ [dquote], content = Some (''cat <<EOF'' @ [nl] @ ''</textarea>'' @ [nl] @ ''EOF''), created = ''t'', tags = Some []\<rparr>)" by simp
  have b: "page_fields (edit_page_html \<lparr>name = ''say '' @ [dquote] @ ''hi'' @ [dquote], content = Some (''cat <<EOF'' @ [nl] @ ''</textarea>'' @ [nl] @ ''EOF''), created = ''t'', tags = Some []\<rparr>) = Some (edit_page_fields \<lparr>name = ''say '' @ [dquote] @ ''hi'' @ [dquote], content = Some (''cat <<EOF'' @ [nl] @ ''</textarea>'' @ [nl] @ ''EOF''), created = ''t'', tags = Some []\<rparr>)"
    using a by (rule edit_page_document)
  from edit_page_alters[OF a b, of "(''cat <<EOF'' @ [nl])" "([nl] @ ''EOF'')"] a b show ?thesis by simp
qed

end
