(* ===== verification/EditForms.thy ===== *)
theory EditForms
  imports Forms TerminalSnipp
begin

text \<open>
  The edit pages of snippets and of terminal snippets.  Their HTML and scripts
  come from \<open>components/edit_snipp\<close> and \<open>components/edit_terminal_snipp\<close>, which
  are not in the repository's \<open>src/\<close>; they are modelled from the form boundary
  of the specification (section 4.4): a snippet's page has the fields name,
  content and tags, a terminal snippet's page name and content; \<open>Save\<close> posts the
  fields' values, and the page itself blocks a submission with an empty name or
  content; \<open>Cancel\<close> posts a cancel.  What the extension does with the message is
  \<open>snipp_edit_message\<close> (\<open>src/src/providers/SnippProvider.ts\<close> lines 290--330) and
  \<open>term_edit_message\<close> (\<open>src/src/providers/TerminalSnippProvider.ts\<close>).
\<close>

record snipp_form = form_fields +
  f_tags :: string

datatype snipp_input =
    SSetName string
  | SSetContent string
  | SSetTags string
  | SClickSave
  | SClickCancel

text \<open>Save on a snippet's page: the three values, or nothing when the name or
  the content is empty.\<close>

definition snipp_saveForm :: "snipp_form \<Rightarrow> client_out list" where
  "snipp_saveForm f =
     (if f_name f = [] \<or> f_content f = [] then []
      else [Post (Save (Some (f_name f)) (Some (f_content f)) (Some (f_tags f)))])"

fun snipp_client_step :: "snipp_form \<Rightarrow> snipp_input \<Rightarrow> snipp_form \<times> client_out list" where
  "snipp_client_step f (SSetName s) = (f\<lparr>f_name := s\<rparr>, [])"
| "snipp_client_step f (SSetContent s) = (f\<lparr>f_content := s\<rparr>, [])"
| "snipp_client_step f (SSetTags s) = (f\<lparr>f_tags := s\<rparr>, [])"
| "snipp_client_step f SClickSave = (f, snipp_saveForm f)"
| "snipp_client_step f SClickCancel = (f, [Post Cancel])"

text \<open>Save on a terminal snippet's page: name and content, no tags.\<close>

definition term_saveForm :: "form_fields \<Rightarrow> client_out list" where
  "term_saveForm f =
     (if f_name f = [] \<or> f_content f = [] then []
      else [Post (Save (Some (f_name f)) (Some (f_content f)) None)])"

fun term_client_step :: "form_fields \<Rightarrow> form_input \<Rightarrow> form_fields \<times> client_out list" where
  "term_client_step f (SetName s) = (f\<lparr>f_name := s\<rparr>, [])"
| "term_client_step f (SetContent s) = (f\<lparr>f_content := s\<rparr>, [])"
| "term_client_step f ClickSave = (f, term_saveForm f)"
| "term_client_step f ClickCancel = (f, [Post Cancel])"

text \<open>What a snippet's page can post: a \<open>cancel\<close>, or a \<open>save\<close> with non-empty
  name and content and the tags field as it is.\<close>

definition snipp_client_message :: "form_message \<Rightarrow> bool" where
  "snipp_client_message m \<longleftrightarrow>
     m = Cancel \<or> (\<exists>n c tg. n \<noteq> [] \<and> c \<noteq> [] \<and> m = Save (Some n) (Some c) (Some tg))"

subsection \<open>Lemmas\<close>

lemma snipp_client_step_posts:
  "Post m \<in> set (snd (snipp_client_step f i)) \<Longrightarrow> snipp_client_message m"
  by (cases i) (auto simp: snipp_saveForm_def snipp_client_message_def split: if_splits)

lemma term_client_step_posts:
  "Post m \<in> set (snd (term_client_step f i)) \<Longrightarrow> client_message m"
  by (cases i) (auto simp: term_saveForm_def client_message_def split: if_splits)

lemma edited_script_client:
  "client_message (Save n c x) \<Longrightarrow> edited_script n c t = t\<lparr>name := the n, content := c\<rparr>"
  by (auto simp: client_message_def edited_script_def apply_if_truthy_def apply_if_truthy_opt_def)

subsection \<open>The edit pages and the extension's edit handlers\<close>

text \<open>C27. A \<open>save\<close> posted by any of the three edit pages carries a non-empty
  name and content, so the extension's edit handler replaces both with the form's
  values and never uses its per-field fallbacks (\<open>if (name)\<close>, \<open>if (content)\<close>).
  The tags of a snippet are the exception: a tags field left empty is falsy, and
  the handler keeps the old tags, so the edit page cannot clear a snippet's
  tags; otherwise they are the field split at \<open>+\<close>.  A terminal snippet's save
  writes the edited record into the captured collection at the captured index.\<close>

theorem edit_pages_save_replace:
  "(Post (Save n c x) \<in> set (snd (client_run form_client_step f ins)) \<longrightarrow>
      edited_script n c t = t\<lparr>name := the n, content := c\<rparr> \<and> x = None) \<and>
   (Post (Save n c x) \<in> set (snd (client_run snipp_client_step g sins)) \<longrightarrow>
      edited_snipp n c x u =
        u\<lparr>name := the n, content := c,
          tags := (if the x = [] then tags u else Some (parse_tags (the x)))\<rparr>) \<and>
   (Post (Save n c x) \<in> set (snd (client_run term_client_step f2 tins)) \<longrightarrow>
      fst (term_edit_message es (Save n c x) st) =
        st\<lparr>terminal_snipps := js_map_idx (\<lambda>i e. if int i = es_index es
              then (es_target es)\<lparr>name := the n, content := c\<rparr> else e) 0 (es_snapshot es)\<rparr>)"
proof (intro conjI impI)
  assume "Post (Save n c x) \<in> set (snd (client_run form_client_step f ins))"
  from edit_client_save_replaces[OF this]
  show "edited_script n c t = t\<lparr>name := the n, content := c\<rparr>" and "x = None"
    by simp_all
next
  assume "Post (Save n c x) \<in> set (snd (client_run snipp_client_step g sins))"
  then have "snipp_client_message (Save n c x)"
    by (rule client_run_posts[of snipp_client_step snipp_client_message, rotated]) (erule snipp_client_step_posts)
  then show "edited_snipp n c x u =
        u\<lparr>name := the n, content := c,
          tags := (if the x = [] then tags u else Some (parse_tags (the x)))\<rparr>"
    by (auto simp: snipp_client_message_def edited_snipp_def apply_if_truthy_def apply_if_truthy_opt_def js_truthy_def)
next
  assume "Post (Save n c x) \<in> set (snd (client_run term_client_step f2 tins))"
  then have "client_message (Save n c x)"
    by (rule client_run_posts[of term_client_step client_message, rotated]) (erule term_client_step_posts)
  then show "fst (term_edit_message es (Save n c x) st) =
        st\<lparr>terminal_snipps := js_map_idx (\<lambda>i e. if int i = es_index es
              then (es_target es)\<lparr>name := the n, content := c\<rparr> else e) 0 (es_snapshot es)\<rparr>"
    by (auto simp: client_message_def term_edit_message_def apply_if_truthy_def apply_if_truthy_opt_def js_truthy_def)
qed

lemma edit_pages_save_replace_witness:
  "Post (Save (Some ''b'') (Some ''pwd'') None) \<in>
     set (snd (client_run form_client_step \<lparr>f_name = ''a'', f_content = ''ls''\<rparr> [SetName ''b'', SetContent ''pwd'', ClickSave])) \<and>
   edited_script (Some ''b'') (Some ''pwd'') \<lparr>name = ''a'', content = Some ''ls'', created = ''t'', tags = Some []\<rparr> =
     \<lparr>name = ''b'', content = Some ''pwd'', created = ''t'', tags = Some []\<rparr> \<and>
   Post (Save (Some ''b'') (Some ''pwd'') (Some [])) \<in>
     set (snd (client_run snipp_client_step \<lparr>f_name = ''a'', f_content = ''ls'', f_tags = ''sh''\<rparr> [SSetName ''b'', SSetContent ''pwd'', SSetTags [], SClickSave])) \<and>
   edited_snipp (Some ''b'') (Some ''pwd'') (Some []) \<lparr>name = ''a'', content = Some ''ls'', created = ''t'', tags = Some [''sh''], contentType = Some ''shellscript''\<rparr> =
     \<lparr>name = ''b'', content = Some ''pwd'', created = ''t'', tags = Some [''sh''], contentType = Some ''shellscript''\<rparr> \<and>
   Post (Save (Some ''b'') (Some ''pwd'') None) \<in>
     set (snd (client_run term_client_step \<lparr>f_name = ''a'', f_content = ''ls''\<rparr> [SetName ''b'', SetContent ''pwd'', ClickSave])) \<and>
   fst (term_edit_message \<lparr>es_snapshot = [\<lparr>name = ''a'', content = Some ''ls'', created = ''t'', tags = Some [], contentType = None\<rparr>], es_index = 0,
          es_target = \<lparr>name = ''a'', content = Some ''ls'', created = ''t'', tags = Some [], contentType = None\<rparr>\<rparr>
        (Save (Some ''b'') (Some ''pwd'') None) \<lparr>shell_scripts = [], snipps = [], terminal_snipps = []\<rparr>) =
     \<lparr>shell_scripts = [], snipps = [], terminal_snipps = [\<lparr>name = ''b'', content = Some ''pwd'', created = ''t'', tags = Some [], contentType = None\<rparr>]\<rparr>"
proof -
  have p1: "Post (Save (Some ''b'') (Some ''pwd'') None) \<in>
     set (snd (client_run form_client_step \<lparr>f_name = ''a'', f_content = ''ls''\<rparr> [SetName ''b'', SetContent ''pwd'', ClickSave]))"
    by (simp add: saveScript_def strip_newlines_def)
  have p2: "Post (Save (Some ''b'') (Some ''pwd'') (Some [])) \<in>
     set (snd (client_run snipp_client_step \<lparr>f_name = ''a'', f_content = ''ls'', f_tags = ''sh''\<rparr> [SSetName ''b'', SSetContent ''pwd'', SSetTags [], SClickSave]))"
    by (simp add: snipp_saveForm_def)
  have p3: "Post (Save (Some ''b'') (Some ''pwd'') None) \<in>
     set (snd (client_run term_client_step \<lparr>f_name = ''a'', f_content = ''ls''\<rparr> [SetName ''b'', SetContent ''pwd'', ClickSave]))"
    by (simp add: term_saveForm_def)
  have r1: "edited_script (Some ''b'') (Some ''pwd'') \<lparr>name = ''a'', content = Some ''ls'', created = ''t'', tags = Some []\<rparr> =
     \<lparr>name = ''b'', content = Some ''pwd'', created = ''t'', tags = Some []\<rparr>"
    using mp[OF conjunct1[OF edit_pages_save_replace[of "Some ''b''" "Some ''pwd''" None _ _
        "\<lparr>name = ''a'', content = Some ''ls'', created = ''t'', tags = Some []\<rparr>"]] p1] by simp
  have r2: "edited_snipp (Some ''b'') (Some ''pwd'') (Some []) \<lparr>name = ''a'', content = Some ''ls'', created = ''t'', tags = Some [''sh''], contentType = Some ''shellscript''\<rparr> =
     \<lparr>name = ''b'', content = Some ''pwd'', created = ''t'', tags = Some [''sh''], contentType = Some ''shellscript''\<rparr>"
    using mp[OF conjunct1[OF conjunct2[OF edit_pages_save_replace[of "Some ''b''" "Some ''pwd''" "Some []" _ _ _ _ _
        "\<lparr>name = ''a'', content = Some ''ls'', created = ''t'', tags = Some [''sh''], contentType = Some ''shellscript''\<rparr>"]]] p2] by (simp add: edited_snipp_def)
  have r3: "fst (term_edit_message \<lparr>es_snapshot = [\<lparr>name = ''a'', content = Some ''ls'', created = ''t'', tags = Some [], contentType = None\<rparr>], es_index = 0,
          es_target = \<lparr>name = ''a'', content = Some ''ls'', created = ''t'', tags = Some [], contentType = None\<rparr>\<rparr>
        (Save (Some ''b'') (Some ''pwd'') None) \<lparr>shell_scripts = [], snipps = [], terminal_snipps = []\<rparr>) =
     \<lparr>shell_scripts = [], snipps = [], terminal_snipps = [\<lparr>name = ''b'', content = Some ''pwd'', created = ''t'', tags = Some [], contentType = None\<rparr>]\<rparr>"
    using mp[OF conjunct2[OF conjunct2[OF edit_pages_save_replace[of "Some ''b''" "Some ''pwd''" None _ _ _ _ _ _
        "\<lparr>f_name = ''a'', f_content = ''ls''\<rparr>" "[SetName ''b'', SetContent ''pwd'', ClickSave]"
        "\<lparr>es_snapshot = [\<lparr>name = ''a'', content = Some ''ls'', created = ''t'', tags = Some [], contentType = None\<rparr>], es_index = 0,
          es_target = \<lparr>name = ''a'', content = Some ''ls'', created = ''t'', tags = Some [], contentType = None\<rparr>\<rparr>"
        "\<lparr>shell_scripts = [], snipps = [], terminal_snipps = []\<rparr>"]]] p3] by simp
  from p1 p2 p3 r1 r2 r3 show ?thesis by blast
qed

end
