(* ===== verification/Spec2Isabelle.thy ===== *)
theory Spec2Isabelle
  imports Session EditPage EditForms
begin

text \<open>
  \<^bold>\<open>A verification development of the snippet VS Code extension.\<close>

  \<^medskip>\<^noindent>\<^bold>\<open>The program.\<close>  The extension (\<open>src/src\<close>) keeps three collections in
  VS Code's \<open>globalState\<close>: shell scripts (\<open>shell_scripts\<close>), editor snippets
  (\<open>snipps\<close>) and terminal snippets (\<open>terminal_snipps\<close>).  Each is shown as a tree
  by a provider, and each provider registers commands that read the collection,
  change it and write it back: \<open>providers/BashShellProvider.ts\<close> (tree, preview,
  run, add from files, delete with confirmation, edit in a webview form),
  \<open>components/add_bash_script.ts\<close> (the creation form, its page script and its
  handler), \<open>providers/SnippProvider.ts\<close> (snippets grouped by \<open>contentType\<close>;
  insert at the cursor, delete, edit) and \<open>providers/TerminalSnippProvider.ts\<close>
  (run in the active terminal, delete, edit).  The providers share no code; they
  meet only in the store.  The webview forms run a script of their own, which
  posts messages to the panel's handler in the extension; an edit panel's handler
  holds what it read when the panel opened.

  \<^medskip>\<^noindent>\<^bold>\<open>The theories.\<close>
  \<^item> \<open>Prelude\<close>: the JavaScript library functions the code calls, on lists and
    strings: \<open>findIndex\<close>, \<open>indexOf\<close>, \<open>map\<close>/\<open>filter\<close> with an index, \<open>split\<close>, \<open>join\<close>,
    \<open>trim\<close>, \<open>startsWith\<close>, \<open>includes\<close> and truthiness, with their laws
    (\<open>split\<close>/\<open>join\<close> round trip, the \<open>indexOf\<close> filter as first-occurrence
    deduplication).
  \<^item> \<open>Json\<close>: \<open>JSON.stringify\<close> on the values the code serialises (\<open>jval\<close>, with
    \<open>undefined\<close> properties left out), the escape of string literals, the operator
    \<open>in\<close> and property reads; the serialisation is proved a prefix code, hence
    injective on values without \<open>undefined\<close>.
  \<^item> \<open>Items\<close>: the stored records (\<open>ShellScript\<close> as \<open>item\<close>, \<open>Snipp\<close> as
    \<open>snipp\<close>), their JSON form and the providers' equality
    \<open>JSON.stringify(a) === JSON.stringify(b)\<close> (C8).
  \<^item> \<open>Store\<close>: the store \<open>gstate\<close>, one list per \<open>globalState\<close> key; the host
    facts a command reads (\<open>host\<close>, including how the host's locale prints a
    date); the effects a command has on VS Code (\<open>effect\<close>); the messages a webview
    posts (\<open>form_message\<close>).
  \<^item> \<open>Preview\<close>: \<open>escapeHtml\<close>, \<open>formatContentWithLineNumbers\<close> and the record's
    part of the preview page and of the edit form (C21--C26).
  \<^item> \<open>BashShell\<close>: the shell-script tree (\<open>bnode\<close>, \<open>bash_getChildren\<close>,
    \<open>bash_getTreeItem\<close>, the tooltip) and every command of \<open>BashShellProvider.ts\<close>
    and the creation form's handler (C1--C4, C17, C31, C32, C34, C36).
  \<^item> \<open>Forms\<close>: the scripts inside the creation and edit pages (field values,
    templates, \<open>saveScript\<close>, \<open>cancel\<close>) and what they post (C11).
  \<^item> \<open>EditPage\<close>: the whole page \<open>getEditShellScriptWebviewContent\<close> builds, how the
    browser finds and parses its two fields, what they hold when the page opens,
    and what saving them unchanged stores (C14, C15).
  \<^item> \<open>EditForms\<close>: the edit pages of snippets and terminal snippets, whose code is
    not in the sources, modelled from the specification's form boundary (fields,
    a save blocked on an empty name or content, cancel); what a save from any of
    the three edit pages does in the extension's edit handlers (C27).
  \<^item> \<open>Snipp\<close>: the grouped snippet tree and its commands (C5, C6, C18, C20,
    C28--C30).
  \<^item> \<open>TerminalSnipp\<close>: the terminal snippet tree and its commands (C16, C19).
  \<^item> \<open>Session\<close>: the extension as a state machine, \<open>ext_step\<close> on \<open>ext_state\<close>
    (the store and the open webview panels) for every command and panel message;
    \<open>ext_run\<close> on sequences of events; the inductive set \<open>reachable\<close> and its
    invariant \<open>ext_inv\<close>, proved by rule induction; the lost update (C7), the
    reachable roots (C9), and that every change to a collection refreshes its
    view exactly once (C33, with \<open>refreshes\<close> telling which effects refresh which
    view).
  \<^item> this theory: the abstract contract of the store, a multiset per collection
    with the operations insert, remove-all, replace-one and keep, and the
    refinement theorem that every step of the extension implements one of them
    while no edit panel's snapshot is stale (C10); editing a record stored twice
    (C35); the webviews composed with the extension through \<open>deliver\<close>: the edit
    forms' ignored \<open>cancel\<close> (C12) and a template run end to end (C13).

  \<^medskip>\<^noindent>\<^bold>\<open>Correspondence.\<close>  Every command is a function from its inputs and the
  store to the new store and the list of effects, in the order the code performs
  them; \<open>await\<close>ed dialogs are inputs (the button the user chose, the files picked,
  each file's text or read error).  A tree element is a datatype whose action
  constructor holds the element it was made from, as the code's action items hold
  it in a property; the code classifies elements only with \<open>'key' in e\<close>, which the
  model evaluates on the element's JSON form (lemmas \<open>*_test\<close>, \<open>*_has_content\<close>).
  \<open>localeCompare\<close> is a collation key \<open>ck\<close> into any linear order, and the stable
  \<open>Array.prototype.sort\<close> is \<open>sort_key\<close>.  Errors the code throws are the left
  side of a sum (\<open>js_error\<close>).  A template literal is its static text, line by
  line (\<open>lines_nl\<close>), with the interpolated values between.  A webview page is a
  state (its field values) and a step per user input with the alerts and
  messages it produces; \<open>deliver i\<close> hands the messages to the \<open>i\<close>-th panel's
  handler.  Strings are lists of 8-bit characters, the UTF-8 bytes of the
  JavaScript text where it is not ASCII (\<open>info_sep\<close>, \<open>tab_mark\<close>).

  \<^medskip>\<^noindent>\<^bold>\<open>Loops and fuel.\<close>  Every loop of the code runs over a finite list (the
  stored collections, the picked files, the lines of a script or of a page), so
  every definition is a total, executable function by structural recursion and no
  fuel is needed; the only recursion that is not structural, \<open>norm_newlines\<close>,
  terminates by the length of its argument.

  \<^medskip>\<^noindent>\<^bold>\<open>What the lemmas show.\<close>  Tree structure (C1, C2, C5, C6, C16, C28);
  rendering the snippet tree fails exactly when a snippet has no
  \<open>contentType\<close> (C30); the commands' effect on the store and the host on every
  branch, errors included (C3, C4, C17--C20, C31, C32, C34); the tooltip's
  preview of the first ten lines (C36); each change to a collection comes with
  exactly one refresh of its view (C33); HTML escaping is lossless, safe and a
  single pass, the preview numbers its lines from 1 and counts them right, the
  edit form is not escaped (C21--C26); the edit page gives back a plain record
  unchanged but shortens a name holding \<open>"\<close> and a content holding
  \<open></textarea>\<close> (C14, C15); record matching by serialisation is equality (C8);
  reachable states keep every stored script well formed (C9); the store refines
  a multiset contract as long as no edit panel's snapshot is stale (C10), and a
  stale one loses updates (C7); editing a record stored twice leaves its old copy
  (C35); the pages only post what the handlers accept and a save replaces name
  and content but cannot clear a snippet's tags (C11, C27), the edit pages'
  Cancel does nothing (C12), and a template runs as written (C13); tags round
  trip through \<open>+\<close> and \<open>|\<close> does not separate them (C29).

  \<^medskip>\<^noindent>\<^bold>\<open>Not modelled.\<close>  The CSS of the webviews and the static HTML of the
  preview and creation pages (the preview's dynamic part is \<open>preview_body\<close>, the
  creation page's fields start empty, \<open>add_form_init\<close>); of the browser's HTML
  parsing, all but what finds and reads the edit page's two fields
  (\<open>EditPage\<close>: a name holding \<open><\<close> can restructure the page, and only the five
  character references \<open>escapeHtml\<close> writes are decoded); the HTML of
  \<open>components/edit_snipp\<close> and \<open>components/edit_terminal_snipp\<close>, which are
  outside the sources: their fields and messages are modelled from the
  specification (\<open>EditForms\<close>), but how their HTML shows a record (the counterpart
  of \<open>EditPage\<close>) and the text of their alerts are unknown; how VS Code renders a
  tooltip's markdown; what VS Code does with an effect (terminals,
  notifications, the editor) beyond its order; the activation code that
  constructs the explorers (outside \<open>src/src\<close>), for which the event type of
  \<open>Session\<close> stands, and the closing of a panel by the user, which runs no code
  of the repository; \<open>provideTextDocumentContent\<close> and \<open>getContent\<close>, which
  return the empty string and are never used; \<open>allSnipps.addEntry\<close> is a stub in
  the code and is modelled as one.  Stored arrays are taken with their properties
  in the order the code creates them, as \<open>globalState\<close> returns them, and as
  copies: the in-place \<open>sort\<close> of \<open>TerminalSnippModel.roots\<close> and the edit
  handlers' assignments to the element are taken not to reach the store.
\<close>

section \<open>The store's contract\<close>

text \<open>An abstract collection is a multiset: the code never relies on the order of a
  stored array for what it stores.  A command of the extension is one of four
  abstract operations on each collection.\<close>

datatype 'a coll_op = CInsert "'a list" | CRemoveAll 'a | CReplace 'a 'a | CKeep

fun coll_apply :: "'a coll_op \<Rightarrow> 'a multiset \<Rightarrow> 'a multiset" where
  "coll_apply (CInsert xs) M = M + mset xs"
| "coll_apply (CRemoveAll x) M = filter_mset (\<lambda>y. y \<noteq> x) M"
| "coll_apply (CReplace x y) M = (if x \<in># M then add_mset y (M - {#x#}) else M)"
| "coll_apply CKeep M = M"

record abs_store =
  a_scripts :: "item multiset"
  a_snipps :: "snipp multiset"
  a_terminal :: "snipp multiset"

definition abs_of :: "gstate \<Rightarrow> abs_store" where
  "abs_of st = \<lparr>a_scripts = mset (shell_scripts st), a_snipps = mset (snipps st),
                a_terminal = mset (terminal_snipps st)\<rparr>"

type_synonym spec_op = "item coll_op \<times> snipp coll_op \<times> snipp coll_op"

definition abs_apply :: "spec_op \<Rightarrow> abs_store \<Rightarrow> abs_store" where
  "abs_apply op a = (case op of (o1, o2, o3) \<Rightarrow>
     \<lparr>a_scripts = coll_apply o1 (a_scripts a), a_snipps = coll_apply o2 (a_snipps a),
      a_terminal = coll_apply o3 (a_terminal a)\<rparr>)"

definition new_script :: "host \<Rightarrow> string \<Rightarrow> string option \<Rightarrow> item" where
  "new_script h n c = \<lparr>name = n, content = c, created = now h, tags = Some []\<rparr>"

fun save_op :: "host \<Rightarrow> panel \<Rightarrow> string option \<Rightarrow> string option \<Rightarrow> string option \<Rightarrow> spec_op" where
  "save_op h AddScriptPanel n c x =
     ((if js_truthy n \<and> js_truthy c then CInsert [new_script h (the n) c] else CKeep), CKeep, CKeep)"
| "save_op h (BashEditPanel es) n c x = (CReplace (es_target es) (edited_script n c (es_target es)), CKeep, CKeep)"
| "save_op h (SnippEditPanel es) n c x = (CKeep, CReplace (es_target es) (edited_snipp n c x (es_target es)), CKeep)"
| "save_op h (TermEditPanel es) n c x =
     (CKeep, CKeep, CReplace (es_target es) ((es_target es)\<lparr>name := apply_if_truthy n (name (es_target es)),
                                     content := apply_if_truthy_opt c (content (es_target es))\<rparr>))"

fun spec_op :: "host \<Rightarrow> ext_state \<Rightarrow> event \<Rightarrow> spec_op" where
  "spec_op h s (BashAdd (Some fs)) =
     (CInsert (map (\<lambda>(p, txt). new_script h (js_basename_ext p ''.sh'') (Some txt)) (read_ok fs)), CKeep, CKeep)"
| "spec_op h s (BashDelete a t) = ((if a = Some ''Yes, Delete'' then CRemoveAll t else CKeep), CKeep, CKeep)"
| "spec_op h s (SnippDelete (SSnipp t)) = (CKeep, (if no_content t then CKeep else CRemoveAll t), CKeep)"
| "spec_op h s (TermDelete t) = (CKeep, CKeep, CRemoveAll t)"
| "spec_op h s (PanelMessage i (Save n c x)) =
     (if i < length (panels s) then save_op h (panels s ! i) n c x else (CKeep, CKeep, CKeep))"
| "spec_op h s _ = (CKeep, CKeep, CKeep)"

fun panel_snapshot_current :: "panel \<Rightarrow> gstate \<Rightarrow> bool" where
  "panel_snapshot_current (BashEditPanel es) st = (es_snapshot es = shell_scripts st)"
| "panel_snapshot_current (SnippEditPanel es) st = (es_snapshot es = snipps st)"
| "panel_snapshot_current (TermEditPanel es) st = (es_snapshot es = terminal_snipps st)"
| "panel_snapshot_current AddScriptPanel st = True"

definition snapshot_current :: "ext_state \<Rightarrow> event \<Rightarrow> bool" where
  "snapshot_current s ev =
     (case ev of
        PanelMessage i (Save n c x) \<Rightarrow>
          (if i < length (panels s) then panel_snapshot_current (panels s ! i) (store s) else True)
      | _ \<Rightarrow> True)"

text \<open>The webviews and the extension meet through \<open>postMessage\<close>: what the client
  of the \<open>i\<close>-th open panel posts arrives as messages of that panel, in order;
  alerts stay in the webview.\<close>

definition deliver :: "nat \<Rightarrow> client_out list \<Rightarrow> event list" where
  "deliver i outs = concat (map (\<lambda>x. case x of Post m \<Rightarrow> [PanelMessage i m] | Alert _ \<Rightarrow> []) outs)"

section \<open>Refinement\<close>

lemma mset_filter_neq: "mset (filter (\<lambda>y. y \<noteq> x) xs) = filter_mset (\<lambda>y. y \<noteq> x) (mset xs)"
  by simp

lemma session_ok_replace_mset:
  assumes "session_ok es"
  shows "mset (js_map_idx (\<lambda>i e. if int i = es_index es then v else e) 0 (es_snapshot es)) =
           coll_apply (CReplace (es_target es) v) (mset (es_snapshot es))"
proof (cases "0 \<le> es_index es")
  case True
  with assms have "nat (es_index es) < length (es_snapshot es)"
    "es_snapshot es ! nat (es_index es) = es_target es"
    by (auto simp: session_ok_def)
  moreover from this have "es_target es \<in> set (es_snapshot es)" by (metis nth_mem)
  ultimately show ?thesis using True
    by (auto simp: js_map_idx_replace mset_update)
next
  case False
  with assms show ?thesis
    unfolding js_map_idx_replace by (auto simp: session_ok_def)
qed

lemma panel_save_abs:
  assumes "panel_inv p" "panel_snapshot_current p st"
  shows "abs_of (fst (panel_message h p (Save n c x) st)) = abs_apply (save_op h p n c x) (abs_of st)"
proof (cases p)
  case AddScriptPanel
  then show ?thesis
    by (auto simp: abs_of_def abs_apply_def add_form_message_def new_script_def)
next
  case (BashEditPanel es)
  with assms session_ok_replace_mset[of es "edited_script n c (es_target es)"] show ?thesis
    by (simp add: abs_of_def abs_apply_def panel_inv_def bash_edit_message_def Let_def)
next
  case (SnippEditPanel es)
  with assms session_ok_replace_mset[of es "edited_snipp n c x (es_target es)"] show ?thesis
    by (simp add: abs_of_def abs_apply_def panel_inv_def snipp_edit_message_def Let_def)
next
  case (TermEditPanel es)
  with assms session_ok_replace_mset[of es] show ?thesis
    by (simp add: abs_of_def abs_apply_def panel_inv_def term_edit_message_def Let_def)
qed

lemma panel_nonsave_abs:
  "\<forall>n c x. m \<noteq> Save n c x \<Longrightarrow> fst (panel_message h p m st) = st"
  by (cases p) (auto simp: add_form_message_def bash_edit_message_def snipp_edit_message_def
      term_edit_message_def split: form_message.splits)

lemma ext_step_panel_store:
  "i < length (panels s) \<Longrightarrow>
   store (fst (ext_step h s (PanelMessage i m))) = fst (panel_message h (panels s ! i) m (store s))"
  by (simp split: prod.splits)

lemma abs_keep [simp]: "abs_apply (CKeep, CKeep, CKeep) a = a"
  by (simp add: abs_apply_def)

lemma reachable_ext_run: "reachable s \<Longrightarrow> reachable (fst (ext_run h s evs))"
proof (induction evs arbitrary: s)
  case (Cons ev evs)
  from reachable.step[OF Cons.prems] have "reachable (fst (ext_step h s ev))" .
  then show ?case using Cons.IH by (simp only: ext_run_Cons_fst)
qed simp

text \<open>C10. Refinement: in every reachable state, every event changes each of the
  three collections, counted as a multiset, exactly as the abstract operation
  \<open>spec_op\<close> assigns to it (add inserts the files that read, the creation form
  inserts its record, a confirmed delete removes every copy, an edit save replaces
  one copy of the target, all else keeps the collection), provided the edit panel
  that saves still holds the collection as it is now.\<close>

theorem store_refines_multiset:
  assumes "reachable s" "snapshot_current s ev"
  shows "abs_of (store (fst (ext_step h s ev))) = abs_apply (spec_op h s ev) (abs_of (store s))"
proof (cases ev)
  case (PanelMessage i m)
  have inv: "ext_inv s" using reachable_inv[OF assms(1)] .
  show ?thesis
  proof (cases "i < length (panels s)")
    case True
    then have p: "panel_inv (panels s ! i)" using inv by (simp add: ext_inv_def list_all_length)
    show ?thesis
    proof (cases m)
      case (Save n c x)
      with assms(2) PanelMessage True have "panel_snapshot_current (panels s ! i) (store s)"
        by (simp add: snapshot_current_def)
      from panel_save_abs[OF p this, of h n c x] PanelMessage True Save show ?thesis
        by (simp del: ext_step.simps add: ext_step_panel_store)
    qed (simp_all del: ext_step.simps add: PanelMessage True ext_step_panel_store panel_nonsave_abs)
  qed (cases m, simp_all add: PanelMessage)
next
  case (BashAdd ch)
  show ?thesis
  proof (cases ch)
    case (Some fs)
    then show ?thesis
      using bash_read_files_ok[of "now h" fs] BashAdd
      by (auto simp: abs_of_def abs_apply_def on_store_def bash_addEntry_def new_script_def read_ok_def
          split: prod.splits)
  qed (simp add: BashAdd on_store_def bash_addEntry_def)
next
  case (SnippDelete e)
  then show ?thesis
    by (cases e) (auto simp: abs_of_def abs_apply_def on_store_def snipp_deleteEntry_def Let_def mset_filter_neq)
next
  case (SnippEdit e)
  then show ?thesis
    by (simp split: prod.splits option.splits add: open_panel_def)
qed (auto simp: abs_of_def abs_apply_def on_store_def open_panel_def bash_deleteEntry_def Let_def
      mset_filter_neq term_deleteEntry_def bash_refreshEntry_def bash_previewEntry_def bash_runEntry_def
      bash_executeEntry_def snipp_refreshEntry_def snipp_addEntry_def snipp_insertEntry_def
      term_refreshEntry_def term_insertEntry_def split: prod.splits)

lemma store_refines_multiset_witness:
  "let h = \<lparr>now = ''t1'', process_cwd = ''/'', workspace_folders = [], active_terminal = False, active_editor = False, locale_date = (\<lambda>d. d)\<rparr>; x = \<lparr>name = ''deploy'', content = Some ''make'', created = ''t0'', tags = Some []\<rparr>; s1 = fst (ext_step h \<lparr>store = \<lparr>shell_scripts = [x], snipps = [], terminal_snipps = []\<rparr>, panels = []\<rparr> (BashEdit x));
       ev = PanelMessage 0 (Save (Some ''deploy2'') None None)
   in reachable s1 \<and> snapshot_current s1 ev \<and>
      abs_of (store (fst (ext_step h s1 ev))) = abs_apply (spec_op h s1 ev) (abs_of (store s1)) \<and>
      a_scripts (abs_of (store (fst (ext_step h s1 ev)))) = {#\<lparr>name = ''deploy2'', content = Some ''make'', created = ''t0'', tags = Some []\<rparr>#}"
proof -
  have r: "reachable (fst (ext_step \<lparr>now = ''t1'', process_cwd = ''/'', workspace_folders = [], active_terminal = False, active_editor = False, locale_date = (\<lambda>d. d)\<rparr> \<lparr>store = \<lparr>shell_scripts = [\<lparr>name = ''deploy'', content = Some ''make'', created = ''t0'', tags = Some []\<rparr>], snipps = [], terminal_snipps = []\<rparr>, panels = []\<rparr> (BashEdit \<lparr>name = ''deploy'', content = Some ''make'', created = ''t0'', tags = Some []\<rparr>)))"
    by (rule reachable.step, rule reachable.init) (simp add: wf_script_def)
  have c: "snapshot_current (fst (ext_step \<lparr>now = ''t1'', process_cwd = ''/'', workspace_folders = [], active_terminal = False, active_editor = False, locale_date = (\<lambda>d. d)\<rparr> \<lparr>store = \<lparr>shell_scripts = [\<lparr>name = ''deploy'', content = Some ''make'', created = ''t0'', tags = Some []\<rparr>], snipps = [], terminal_snipps = []\<rparr>, panels = []\<rparr> (BashEdit \<lparr>name = ''deploy'', content = Some ''make'', created = ''t0'', tags = Some []\<rparr>))) (PanelMessage 0 (Save (Some ''deploy2'') None None))"
    by (simp add: snapshot_current_def bash_editEntry_def open_panel_def)
  from store_refines_multiset[OF r c, of "\<lparr>now = ''t1'', process_cwd = ''/'', workspace_folders = [], active_terminal = False, active_editor = False, locale_date = (\<lambda>d. d)\<rparr>"] r c show ?thesis
    unfolding Let_def
    by (simp add: abs_of_def abs_apply_def bash_editEntry_def open_panel_def bash_edit_message_def
        edited_script_def apply_if_truthy_def apply_if_truthy_opt_def)
qed

text \<open>Opening the edit panel on a stored script captures the whole collection and
  the index of the script's first copy.\<close>

lemma bash_editEntry_target:
  assumes "x \<in> set (shell_scripts st)"
  shows "0 \<le> es_index (fst (bash_editEntry x st)) \<and>
         nat (es_index (fst (bash_editEntry x st))) < length (shell_scripts st) \<and>
         shell_scripts st ! nat (es_index (fst (bash_editEntry x st))) = x \<and>
         es_snapshot (fst (bash_editEntry x st)) = shell_scripts st \<and> es_target (fst (bash_editEntry x st)) = x"
proof -
  let ?i = "js_findIndex (\<lambda>y. same_script y x) (shell_scripts st)"
  have i: "0 \<le> ?i" using assms by (intro js_findIndex_some) auto
  then show ?thesis
    using js_findIndex_range[OF i] js_findIndex_found[OF i] by (simp add: bash_editEntry_def Let_def)
qed

text \<open>C35. Editing a script stored more than once replaces only one copy: for
  every store holding a script at least twice and every save that changes it, the
  save removes exactly one copy, so the pre-edit record is still stored next to
  the edited one (the specification asks that none matches it after the edit).\<close>

theorem edit_duplicate_keeps_old:
  assumes "2 \<le> count (mset (shell_scripts st)) x" "edited_script n c x \<noteq> x"
  shows "count (mset (shell_scripts (fst (bash_edit_message (fst (bash_editEntry x st)) (Save n c t) st')))) x =
           count (mset (shell_scripts st)) x - 1 \<and>
         x \<in> set (shell_scripts (fst (bash_edit_message (fst (bash_editEntry x st)) (Save n c t) st')))"
proof -
  let ?es = "fst (bash_editEntry x st)" and ?xs = "shell_scripts st"
  have "0 < count (mset ?xs) x" using assms(1) by linarith
  then have "x \<in> set ?xs" by (metis count_greater_zero_iff set_mset_mset)
  note e = bash_editEntry_target[OF this]
  let ?j = "nat (es_index ?es)"
  have r: "shell_scripts (fst (bash_edit_message ?es (Save n c t) st')) = ?xs[?j := edited_script n c x]"
    using e nat_less_iff[of "es_index ?es" "length ?xs"]
    by (simp add: bash_edit_message_def Let_def js_map_idx_replace)
  have "count (mset (?xs[?j := edited_script n c x])) x = count (mset ?xs) x - 1"
    using e assms(2) by (simp add: mset_update)
  then show ?thesis
    using r assms(1) by (metis One_nat_def Suc_1 Suc_le_lessD count_greater_zero_iff diff_less_mono set_mset_mset zero_less_diff)
qed

lemma edit_duplicate_keeps_old_witness:
  "2 \<le> count (mset (shell_scripts \<lparr>shell_scripts = [\<lparr>name = ''deploy'', content = Some ''make'', created = ''t0'', tags = Some []\<rparr>, \<lparr>name = ''deploy'', content = Some ''make'', created = ''t0'', tags = Some []\<rparr>], snipps = [], terminal_snipps = []\<rparr>)) \<lparr>name = ''deploy'', content = Some ''make'', created = ''t0'', tags = Some []\<rparr> \<and>
   edited_script (Some ''deploy2'') None \<lparr>name = ''deploy'', content = Some ''make'', created = ''t0'', tags = Some []\<rparr> \<noteq> \<lparr>name = ''deploy'', content = Some ''make'', created = ''t0'', tags = Some []\<rparr> \<and>
   \<lparr>name = ''deploy'', content = Some ''make'', created = ''t0'', tags = Some []\<rparr> \<in> set (shell_scripts (fst (bash_edit_message
     (fst (bash_editEntry \<lparr>name = ''deploy'', content = Some ''make'', created = ''t0'', tags = Some []\<rparr> \<lparr>shell_scripts = [\<lparr>name = ''deploy'', content = Some ''make'', created = ''t0'', tags = Some []\<rparr>, \<lparr>name = ''deploy'', content = Some ''make'', created = ''t0'', tags = Some []\<rparr>], snipps = [], terminal_snipps = []\<rparr>))
     (Save (Some ''deploy2'') None None) \<lparr>shell_scripts = [], snipps = [], terminal_snipps = []\<rparr>)))"
proof -
  have a: "2 \<le> count (mset (shell_scripts \<lparr>shell_scripts = [\<lparr>name = ''deploy'', content = Some ''make'', created = ''t0'', tags = Some []\<rparr>, \<lparr>name = ''deploy'', content = Some ''make'', created = ''t0'', tags = Some []\<rparr>], snipps = [], terminal_snipps = []\<rparr>)) \<lparr>name = ''deploy'', content = Some ''make'', created = ''t0'', tags = Some []\<rparr>"
    by simp
  have b: "edited_script (Some ''deploy2'') None \<lparr>name = ''deploy'', content = Some ''make'', created = ''t0'', tags = Some []\<rparr> \<noteq> \<lparr>name = ''deploy'', content = Some ''make'', created = ''t0'', tags = Some []\<rparr>"
    by (simp add: edited_script_def apply_if_truthy_def apply_if_truthy_opt_def)
  from edit_duplicate_keeps_old[OF a b, of None "\<lparr>shell_scripts = [], snipps = [], terminal_snipps = []\<rparr>"] a b
  show ?thesis by blast
qed

section \<open>The forms and the extension together\<close>

text \<open>C12. The \<open>Cancel\<close> button of a form posts \<open>cancel\<close>; the creation panel
  closes on it, but the edit panels' handlers have no \<open>cancel\<close> case, so a
  \<open>cancel\<close> sent to an edit panel changes nothing: the panel stays open.\<close>

theorem edit_cancel_ignored:
  assumes "i < length (panels s)"
  shows "snd (form_client_step f ClickCancel) = [Post Cancel] \<and>
         ext_step h s (PanelMessage i Cancel) =
           (if panels s ! i = AddScriptPanel then (s\<lparr>panels := remove_nth i (panels s)\<rparr>, [DisposePanel])
            else (s, []))"
  using assms
  by (cases "panels s ! i")
    (simp_all add: add_form_message_def bash_edit_message_def snipp_edit_message_def term_edit_message_def)

lemma edit_cancel_ignored_witness:
  "1 < length (panels \<lparr>store = \<lparr>shell_scripts = [\<lparr>name = ''deploy'', content = Some ''make'', created = ''t0'', tags = Some []\<rparr>], snipps = [], terminal_snipps = []\<rparr>, panels = [AddScriptPanel, BashEditPanel \<lparr>es_snapshot = [\<lparr>name = ''deploy'', content = Some ''make'', created = ''t0'', tags = Some []\<rparr>], es_index = 0, es_target = \<lparr>name = ''deploy'', content = Some ''make'', created = ''t0'', tags = Some []\<rparr>\<rparr>]\<rparr>) \<and>
   snd (form_client_step \<lparr>f_name = ''x'', f_content = ''y''\<rparr> ClickCancel) = [Post Cancel] \<and>
   ext_step \<lparr>now = ''t1'', process_cwd = ''/'', workspace_folders = [], active_terminal = False, active_editor = False, locale_date = (\<lambda>d. d)\<rparr> \<lparr>store = \<lparr>shell_scripts = [\<lparr>name = ''deploy'', content = Some ''make'', created = ''t0'', tags = Some []\<rparr>], snipps = [], terminal_snipps = []\<rparr>, panels = [AddScriptPanel, BashEditPanel \<lparr>es_snapshot = [\<lparr>name = ''deploy'', content = Some ''make'', created = ''t0'', tags = Some []\<rparr>], es_index = 0, es_target = \<lparr>name = ''deploy'', content = Some ''make'', created = ''t0'', tags = Some []\<rparr>\<rparr>]\<rparr> (PanelMessage 1 Cancel) = (\<lparr>store = \<lparr>shell_scripts = [\<lparr>name = ''deploy'', content = Some ''make'', created = ''t0'', tags = Some []\<rparr>], snipps = [], terminal_snipps = []\<rparr>, panels = [AddScriptPanel, BashEditPanel \<lparr>es_snapshot = [\<lparr>name = ''deploy'', content = Some ''make'', created = ''t0'', tags = Some []\<rparr>], es_index = 0, es_target = \<lparr>name = ''deploy'', content = Some ''make'', created = ''t0'', tags = Some []\<rparr>\<rparr>]\<rparr>, []) \<and>
   panels (fst (ext_step \<lparr>now = ''t1'', process_cwd = ''/'', workspace_folders = [], active_terminal = False, active_editor = False, locale_date = (\<lambda>d. d)\<rparr> \<lparr>store = \<lparr>shell_scripts = [\<lparr>name = ''deploy'', content = Some ''make'', created = ''t0'', tags = Some []\<rparr>], snipps = [], terminal_snipps = []\<rparr>, panels = [AddScriptPanel, BashEditPanel \<lparr>es_snapshot = [\<lparr>name = ''deploy'', content = Some ''make'', created = ''t0'', tags = Some []\<rparr>], es_index = 0, es_target = \<lparr>name = ''deploy'', content = Some ''make'', created = ''t0'', tags = Some []\<rparr>\<rparr>]\<rparr> (PanelMessage 0 Cancel))) = [BashEditPanel \<lparr>es_snapshot = [\<lparr>name = ''deploy'', content = Some ''make'', created = ''t0'', tags = Some []\<rparr>], es_index = 0, es_target = \<lparr>name = ''deploy'', content = Some ''make'', created = ''t0'', tags = Some []\<rparr>\<rparr>]"
  using edit_cancel_ignored[of 1 "\<lparr>store = \<lparr>shell_scripts = [\<lparr>name = ''deploy'', content = Some ''make'', created = ''t0'', tags = Some []\<rparr>], snipps = [], terminal_snipps = []\<rparr>, panels = [AddScriptPanel, BashEditPanel \<lparr>es_snapshot = [\<lparr>name = ''deploy'', content = Some ''make'', created = ''t0'', tags = Some []\<rparr>], es_index = 0, es_target = \<lparr>name = ''deploy'', content = Some ''make'', created = ''t0'', tags = Some []\<rparr>\<rparr>]\<rparr>" "\<lparr>f_name = ''x'', f_content = ''y''\<rparr>" "\<lparr>now = ''t1'', process_cwd = ''/'', workspace_folders = [], active_terminal = False, active_editor = False, locale_date = (\<lambda>d. d)\<rparr>"]
    edit_cancel_ignored[of 0 "\<lparr>store = \<lparr>shell_scripts = [\<lparr>name = ''deploy'', content = Some ''make'', created = ''t0'', tags = Some []\<rparr>], snipps = [], terminal_snipps = []\<rparr>, panels = [AddScriptPanel, BashEditPanel \<lparr>es_snapshot = [\<lparr>name = ''deploy'', content = Some ''make'', created = ''t0'', tags = Some []\<rparr>], es_index = 0, es_target = \<lparr>name = ''deploy'', content = Some ''make'', created = ''t0'', tags = Some []\<rparr>\<rparr>]\<rparr>" "\<lparr>f_name = ''x'', f_content = ''y''\<rparr>" "\<lparr>now = ''t1'', process_cwd = ''/'', workspace_folders = [], active_terminal = False, active_editor = False, locale_date = (\<lambda>d. d)\<rparr>"]
  by (simp add: remove_nth_def)

text \<open>C13. End to end: on the creation page the user picks the \<open>git\<close> template,
  types a name and saves; the posted message reaches the creation panel, which
  stores the script and closes; running the new script in an open terminal then
  sends exactly the template's five commands, in order, skipping the shebang, the
  comment and the blank lines.\<close>

theorem template_git_runs:
  assumes "strip_newlines n \<noteq> []" "panels s = []" "active_terminal h"
  shows "let outs = snd (client_run add_client_step add_form_init [InsertTemplate ''git'', Field (SetName n), Field ClickSave]);
             s1 = fst (ext_run h s (BashCreate # deliver 0 outs))
         in panels s1 = [] \<and>
            snd (ext_step h s1 (BashRun (last (shell_scripts (store s1))))) =
              [ShowTerminal, SendText ''git status'', SendText ''git add .'',
               SendText (''git commit -m '' @ [dquote] @ ''Update files'' @ [dquote]),
               SendText ''git push origin main'',
               SendText (''echo '' @ [dquote] @ ''Git operations completed!'' @ [dquote]),
               ShowInfo (''Executing: '' @ strip_newlines n)]"
  using assms
  by (simp add: deliver_def Let_def add_form_init_def insertTemplate_def saveScript_def form_templates_def
      open_panel_def add_form_message_def remove_nth_def on_store_def bash_runEntry_def
      bash_executeEntry_def no_content_def or_default_def run_keeps_def js_simps)

lemma template_git_runs_witness:
  "strip_newlines ''push'' \<noteq> [] \<and> panels \<lparr>store = \<lparr>shell_scripts = [], snipps = [], terminal_snipps = []\<rparr>, panels = []\<rparr> = [] \<and>
   active_terminal \<lparr>now = ''t1'', process_cwd = ''/'', workspace_folders = [], active_terminal = True, active_editor = False, locale_date = (\<lambda>d. d)\<rparr> \<and>
   (let outs = snd (client_run add_client_step add_form_init [InsertTemplate ''git'', Field (SetName ''push''), Field ClickSave]);
        s1 = fst (ext_run \<lparr>now = ''t1'', process_cwd = ''/'', workspace_folders = [], active_terminal = True, active_editor = False, locale_date = (\<lambda>d. d)\<rparr> \<lparr>store = \<lparr>shell_scripts = [], snipps = [], terminal_snipps = []\<rparr>, panels = []\<rparr> (BashCreate # deliver 0 outs))
    in panels s1 = [] \<and>
       snd (ext_step \<lparr>now = ''t1'', process_cwd = ''/'', workspace_folders = [], active_terminal = True, active_editor = False, locale_date = (\<lambda>d. d)\<rparr> s1 (BashRun (last (shell_scripts (store s1))))) =
         [ShowTerminal, SendText ''git status'', SendText ''git add .'',
          SendText (''git commit -m '' @ [dquote] @ ''Update files'' @ [dquote]),
          SendText ''git push origin main'',
          SendText (''echo '' @ [dquote] @ ''Git operations completed!'' @ [dquote]),
          ShowInfo (''Executing: '' @ strip_newlines ''push'')])"
  using template_git_runs[of "''push''" "\<lparr>store = \<lparr>shell_scripts = [], snipps = [], terminal_snipps = []\<rparr>, panels = []\<rparr>" "\<lparr>now = ''t1'', process_cwd = ''/'', workspace_folders = [], active_terminal = True, active_editor = False, locale_date = (\<lambda>d. d)\<rparr>"]
  by (simp add: strip_newlines_def)

end
